(* ===== verification/DP_Prelude.thy ===== *)
theory DP_Prelude
  imports Main "HOL-Library.AList"
begin

text \<open>
  Shared vocabulary of the development.

  \<^item> \<open>js_error\<close> and \<open>'a result\<close>: a JavaScript expression either throws or yields a
    value. Every \<^verbatim>\<open>throw\<close> of the modelled code is \<open>Inl\<close>, every normal completion
    \<open>Inr\<close>; \<open>bind_result\<close> sequences two computations and stops at the first throw,
    as evaluation order does in the source. \<open>ReactError\<close> is the error React throws for
    a child it cannot render.
  \<^item> \<open>map_result\<close> and \<open>fold_result\<close>: \<^verbatim>\<open>Array.prototype.map\<close> and
    \<^verbatim>\<open>Array.prototype.reduce\<close> (with an initial value) for a callback that may throw.
  \<^item> \<open>show_nat\<close> and \<open>read_nat\<close>: decimal numerals, used for array indices as
    property keys and for \<^verbatim>\<open>Number.prototype.toString\<close> on integers.
  \<^item> The collection \<open>js_defs\<close> holds the definitions that are unfolded when a model
    function is evaluated on a concrete input.
\<close>

named_theorems js_defs "definitions unfolded to evaluate the model on a concrete input"

section \<open>Results: a value or a thrown error\<close>

datatype js_error = TypeError | SyntaxError | ApiError | ReactError

type_synonym 'a result = "js_error + 'a"

definition bind_result :: "'a result \<Rightarrow> ('a \<Rightarrow> 'b result) \<Rightarrow> 'b result" where
  "bind_result m f = (case m of Inl e \<Rightarrow> Inl e | Inr x \<Rightarrow> f x)"

primrec map_result :: "('a \<Rightarrow> 'b result) \<Rightarrow> 'a list \<Rightarrow> 'b list result" where
  "map_result f [] = Inr []"
| "map_result f (x # xs) =
     bind_result (f x) (\<lambda>y. bind_result (map_result f xs) (\<lambda>ys. Inr (y # ys)))"

primrec fold_result :: "('b \<Rightarrow> 'a \<Rightarrow> 'b result) \<Rightarrow> 'b \<Rightarrow> 'a list \<Rightarrow> 'b result" where
  "fold_result f acc [] = Inr acc"
| "fold_result f acc (x # xs) = bind_result (f acc x) (\<lambda>acc'. fold_result f acc' xs)"

definition throws :: "'a result \<Rightarrow> bool" where
  "throws m = isl m"

lemma bind_result_Inl [simp]: "bind_result (Inl e) f = Inl e"
  by (simp add: bind_result_def)

lemma bind_result_Inr [simp]: "bind_result (Inr x) f = f x"
  by (simp add: bind_result_def)

lemma bind_result_eq_Inr_iff:
  "bind_result m f = Inr y \<longleftrightarrow> (\<exists>x. m = Inr x \<and> f x = Inr y)"
  by (cases m) simp_all

lemma bind_result_eq_Inl_iff:
  "bind_result m f = Inl e \<longleftrightarrow> m = Inl e \<or> (\<exists>x. m = Inr x \<and> f x = Inl e)"
  by (cases m) simp_all

lemma bind_result_cong [fundef_cong]:
  "m = m' \<Longrightarrow> (\<And>x. m' = Inr x \<Longrightarrow> f x = f' x) \<Longrightarrow> bind_result m f = bind_result m' f'"
  by (cases m') simp_all

lemma throws_simps [simp]:
  "throws (Inl e)" "\<not> throws (Inr x)"
  by (simp_all add: throws_def)

lemma throws_bind_result:
  "throws (bind_result m f) \<longleftrightarrow> throws m \<or> (\<exists>x. m = Inr x \<and> throws (f x))"
  by (cases m) simp_all

lemma not_throws_iff: "\<not> throws m \<longleftrightarrow> (\<exists>x. m = Inr x)"
  by (cases m) simp_all

lemma throws_iff: "throws m \<longleftrightarrow> (\<exists>e. m = Inl e)"
  by (cases m) simp_all

subsection \<open>Mapping and folding a callback that may throw\<close>

lemma map_result_pure [simp]: "map_result (\<lambda>x. Inr (g x)) xs = Inr (map g xs)"
  by (induction xs) simp_all

lemma map_result_eq_Inr_iff:
  "map_result f xs = Inr ys \<longleftrightarrow> list_all2 (\<lambda>x y. f x = Inr y) xs ys"
proof (induction xs arbitrary: ys)
  case Nil
  show ?case by auto
next
  case (Cons x xs)
  show ?case
    by (cases ys) (auto simp: bind_result_eq_Inr_iff Cons.IH)
qed

lemma map_result_InlD: "map_result f xs = Inl e \<Longrightarrow> \<exists>x \<in> set xs. f x = Inl e"
  by (induction xs) (auto simp: bind_result_eq_Inl_iff)

lemma map_result_length: "map_result f xs = Inr ys \<Longrightarrow> length ys = length xs"
  by (simp add: map_result_eq_Inr_iff list_all2_lengthD)

lemma throws_map_result: "throws (map_result f xs) \<longleftrightarrow> (\<exists>x \<in> set xs. throws (f x))"
  by (induction xs) (auto simp: throws_bind_result not_throws_iff)

lemma map_result_cong [fundef_cong]:
  "xs = ys \<Longrightarrow> (\<And>x. x \<in> set ys \<Longrightarrow> f x = g x) \<Longrightarrow> map_result f xs = map_result g ys"
  by (induction ys arbitrary: xs) auto

lemma map_result_append:
  "map_result f (xs @ ys) =
     bind_result (map_result f xs) (\<lambda>us. bind_result (map_result f ys) (\<lambda>vs. Inr (us @ vs)))"
proof (induction xs)
  case Nil
  show ?case by (cases "map_result f ys") simp_all
next
  case (Cons x xs)
  show ?case
    by (cases "f x"; cases "map_result f xs"; cases "map_result f ys") (simp_all add: Cons.IH)
qed

lemma fold_result_pure [simp]: "fold_result (\<lambda>a x. Inr (g a x)) acc xs = Inr (foldl g acc xs)"
  by (induction xs arbitrary: acc) simp_all

lemma fold_result_append:
  "fold_result f acc (xs @ ys) = bind_result (fold_result f acc xs) (\<lambda>a. fold_result f a ys)"
proof (induction xs arbitrary: acc)
  case Nil
  show ?case by simp
next
  case (Cons x xs)
  show ?case by (cases "f acc x") (simp_all add: Cons.IH)
qed

lemma fold_result_cong [fundef_cong]:
  "xs = ys \<Longrightarrow> a = b \<Longrightarrow> (\<And>acc x. x \<in> set ys \<Longrightarrow> f acc x = g acc x) \<Longrightarrow>
   fold_result f a xs = fold_result g b ys"
proof (induction ys arbitrary: xs a b)
  case Nil
  then show ?case by simp
next
  case (Cons y ys)
  then show ?case by (cases "g b y") auto
qed

lemma throws_fold_result_step:
  "x \<in> set xs \<Longrightarrow> (\<And>acc. throws (f acc x)) \<Longrightarrow> throws (fold_result f acc xs)"
proof (induction xs arbitrary: acc)
  case Nil
  then show ?case by simp
next
  case (Cons y ys)
  show ?case
  proof (cases "f acc y")
    case (Inl e)
    then show ?thesis by simp
  next
    case (Inr a)
    with Cons.prems(2) [of acc] have "x \<noteq> y" by auto
    with Cons.prems have "x \<in> set ys" by simp
    then have "throws (fold_result f a ys)" using Cons.prems(2) by (rule Cons.IH)
    with Inr show ?thesis by simp
  qed
qed

lemma fold_result_total:
  "(\<And>acc x. x \<in> set xs \<Longrightarrow> \<not> throws (f acc x)) \<Longrightarrow> \<not> throws (fold_result f acc xs)"
proof (induction xs arbitrary: acc)
  case Nil
  show ?case by simp
next
  case (Cons y ys)
  from Cons.prems [of y acc] obtain a where "f acc y = Inr a"
    by (auto simp: not_throws_iff)
  with Cons show ?case by simp
qed

text \<open>Two passes over a list, the second over the results of the first.\<close>

lemma map_result_then_total:
  assumes "\<And>x. x \<in> set xs \<Longrightarrow> bind_result (f x) g = Inr (h x)"
  shows "bind_result (map_result f xs) (map_result g) = Inr (map h xs)"
  using assms
proof (induction xs)
  case Nil
  show ?case by simp
next
  case (Cons x xs)
  from Cons.prems [of x] obtain y where y: "f x = Inr y" "g y = Inr (h x)"
    by (cases "f x") auto
  from Cons have "bind_result (map_result f xs) (map_result g) = Inr (map h xs)" by simp
  then obtain ys where ys: "map_result f xs = Inr ys" "map_result g ys = Inr (map h xs)"
    by (cases "map_result f xs") auto
  from y ys show ?case by simp
qed

section \<open>Decimal numerals\<close>

definition digit_char :: "nat \<Rightarrow> char" where
  "digit_char d = ''0123456789'' ! d"

definition is_digit :: "char \<Rightarrow> bool" where
  "is_digit c = (c \<in> set ''0123456789'')"

definition digit_val :: "char \<Rightarrow> nat" where
  "digit_val c = of_char c - 48"

fun show_nat :: "nat \<Rightarrow> string" where
  "show_nat n = (if n < 10 then [digit_char n] else show_nat (n div 10) @ [digit_char (n mod 10)])"

declare show_nat.simps [simp del]

definition read_nat :: "string \<Rightarrow> nat" where
  "read_nat s = foldl (\<lambda>n c. 10 * n + digit_val c) 0 s"

definition show_int :: "int \<Rightarrow> string" where
  "show_int i = (if i < 0 then CHR ''-'' # show_nat (nat (- i)) else show_nat (nat i))"

lemma digit_char_cases:
  "d < 10 \<Longrightarrow> d = 0 \<or> d = 1 \<or> d = 2 \<or> d = 3 \<or> d = 4 \<or> d = 5 \<or> d = 6 \<or> d = 7 \<or> d = 8 \<or> d = (9::nat)"
  by arith

lemma is_digit_digit_char [simp]: "d < 10 \<Longrightarrow> is_digit (digit_char d)"
  by (drule digit_char_cases) (auto simp: digit_char_def is_digit_def)

lemma digit_val_digit_char [simp]: "d < 10 \<Longrightarrow> digit_val (digit_char d) = d"
  by (drule digit_char_cases) (auto simp: digit_char_def digit_val_def)

lemma digit_char_eq_zero_iff: "d < 10 \<Longrightarrow> digit_char d = CHR ''0'' \<longleftrightarrow> d = 0"
  by (drule digit_char_cases) (auto simp: digit_char_def)

lemma digit_val_less: "is_digit c \<Longrightarrow> digit_val c < 10"
  by (auto simp: is_digit_def digit_val_def)

lemma digit_char_digit_val [simp]: "is_digit c \<Longrightarrow> digit_char (digit_val c) = c"
  by (auto simp: is_digit_def digit_val_def digit_char_def)

lemma show_nat_nonempty [simp]: "show_nat n \<noteq> []"
  by (subst show_nat.simps) simp

lemma show_nat_digits: "list_all is_digit (show_nat n)"
proof (induction n rule: show_nat.induct)
  case (1 n)
  then show ?case by (subst show_nat.simps) simp
qed

lemma read_nat_snoc [simp]: "read_nat (s @ [c]) = 10 * read_nat s + digit_val c"
  by (simp add: read_nat_def)

lemma read_nat_Nil [simp]: "read_nat [] = 0"
  by (simp add: read_nat_def)

lemma read_nat_single [simp]: "read_nat [c] = digit_val c"
  by (simp add: read_nat_def)

lemma read_show_nat [simp]: "read_nat (show_nat n) = n"
proof (induction n rule: show_nat.induct)
  case (1 n)
  then show ?case by (subst show_nat.simps) simp
qed

lemma show_nat_inj: "show_nat m = show_nat n \<Longrightarrow> m = n"
  by (metis read_show_nat)

lemma hd_show_nat_nonzero: "0 < n \<Longrightarrow> hd (show_nat n) \<noteq> CHR ''0''"
proof (induction n rule: show_nat.induct)
  case (1 n)
  show ?case
  proof (cases "n < 10")
    case True
    with "1.prems" show ?thesis
      by (subst show_nat.simps) (simp add: digit_char_eq_zero_iff)
  next
    case False
    then have "0 < n div 10" by simp
    with False "1.IH" have "hd (show_nat (n div 10)) \<noteq> CHR ''0''" by simp
    with False show ?thesis by (subst show_nat.simps) simp
  qed
qed

lemma show_nat_zero [simp]: "show_nat 0 = ''0''"
  by (subst show_nat.simps) (simp add: digit_char_def)

lemma show_int_of_nat [simp]: "show_int (int n) = show_nat n"
  by (simp add: show_int_def)

text \<open>
  The converse round trip: a string of digits without a leading zero (or the string
  \<open>''0''\<close>) is the rendering of the number it reads as.
\<close>

definition canonical_numeral :: "string \<Rightarrow> bool" where
  "canonical_numeral s \<longleftrightarrow> s \<noteq> [] \<and> list_all is_digit s \<and> (s = ''0'' \<or> hd s \<noteq> CHR ''0'')"

lemma canonical_show_nat [simp]: "canonical_numeral (show_nat n)"
proof (cases "n = 0")
  case True
  then show ?thesis by (simp add: canonical_numeral_def is_digit_def)
next
  case False
  then show ?thesis
    by (simp add: canonical_numeral_def show_nat_digits hd_show_nat_nonzero)
qed

lemma read_nat_zero_iff:
  "list_all is_digit s \<Longrightarrow> s \<noteq> [] \<Longrightarrow> hd s \<noteq> CHR ''0'' \<Longrightarrow> 0 < read_nat s"
proof (induction s rule: rev_induct)
  case Nil
  then show ?case by simp
next
  case (snoc c s)
  show ?case
  proof (cases "s = []")
    case True
    with snoc.prems have "is_digit c" "c \<noteq> CHR ''0''" by simp_all
    then have "digit_val c \<noteq> 0"
      by (auto simp: is_digit_def digit_val_def)
    with True show ?thesis by simp
  next
    case False
    with snoc have "0 < read_nat s" by simp
    then show ?thesis by simp
  qed
qed

lemma show_read_nat: "canonical_numeral s \<Longrightarrow> show_nat (read_nat s) = s"
proof (induction s rule: rev_induct)
  case Nil
  then show ?case by (simp add: canonical_numeral_def)
next
  case (snoc c s)
  from snoc.prems have c: "is_digit c" and ds: "list_all is_digit s"
    by (simp_all add: canonical_numeral_def)
  show ?case
  proof (cases "s = []")
    case True
    with c show ?thesis
      by (subst show_nat.simps) (simp add: digit_val_less)
  next
    case False
    with snoc.prems have hd: "hd s \<noteq> CHR ''0''"
      by (auto simp: canonical_numeral_def)
    with False ds have cs: "canonical_numeral s" and pos: "0 < read_nat s"
      by (simp_all add: canonical_numeral_def read_nat_zero_iff)
    from cs have IH: "show_nat (read_nat s) = s" by (rule snoc.IH)
    from pos have "\<not> 10 * read_nat s + digit_val c < 10" by simp
    moreover from c have "(10 * read_nat s + digit_val c) div 10 = read_nat s"
      and "(10 * read_nat s + digit_val c) mod 10 = digit_val c"
      by (simp_all add: digit_val_less)
    ultimately show ?thesis using IH c
      by (subst show_nat.simps) simp
  qed
qed

section \<open>Association lists in insertion order\<close>

text \<open>
  A JavaScript object lists its string keys in creation order, and assigning to an
  existing key keeps its place: this is \<open>AList.update\<close>. The abbreviation names the
  key list; the lemmas are the facts the components share.
\<close>

abbreviation keys_of :: "('k \<times> 'v) list \<Rightarrow> 'k list" where
  "keys_of ps \<equiv> map fst ps"

lemma update_absent: "k \<notin> set (keys_of ps) \<Longrightarrow> AList.update k v ps = ps @ [(k, v)]"
  by (induction ps) auto

lemma keys_of_update:
  "keys_of (AList.update k v ps) = (if k \<in> set (keys_of ps) then keys_of ps else keys_of ps @ [k])"
  by (simp add: update_keys)

lemma length_update:
  "length (AList.update k v ps) = (if k \<in> set (keys_of ps) then length ps else Suc (length ps))"
  by (induction ps) auto

lemma map_of_eq_None_keys: "map_of ps k = None \<longleftrightarrow> k \<notin> set (keys_of ps)"
  by (simp add: map_of_eq_None_iff)

end
