(* ===== verification/JsValue.thy ===== *)
theory JsValue
  imports DP_Prelude
begin

text \<open>
  The JavaScript values the application handles at run time. The TypeScript
  annotations of the source are erased before it runs, and the reply of the model is
  typed \<^verbatim>\<open>any\<close> (\<^verbatim>\<open>JSON.parse\<close>, geminiService.ts line 73), so the functions of
  geminiService.ts are modelled on untyped values; the interfaces of types.ts are
  predicates on them (theory \<open>Types\<close>).

  \<^item> \<open>jsval\<close>: \<^verbatim>\<open>undefined\<close>, and the six forms of a JSON value. An object is the list of
    its own properties in the order \<^verbatim>\<open>[[OwnPropertyKeys]]\<close> lists them. Numbers are
    integers: every use of a number in the source is a truthiness test, a length or a
    display, and integers of magnitude below \<open>2^53\<close> are exactly the doubles whose
    \<^verbatim>\<open>toString\<close> is the plain decimal numeral. Strings are lists of 8-bit characters,
    one per UTF-16 code unit below 256.
  \<^item> \<open>truthy\<close> and \<open>js_or\<close>: \<^verbatim>\<open>ToBoolean\<close> and the operator \<^verbatim>\<open>||\<close>.
  \<^item> \<open>getProp\<close>: the property read \<^verbatim>\<open>v.k\<close> for a name \<open>k\<close> that no built-in prototype
    defines (the source reads \<^verbatim>\<open>elements\<close>, \<^verbatim>\<open>count\<close>, \<^verbatim>\<open>selectorUsed\<close>,
    \<^verbatim>\<open>attributes\<close>, \<^verbatim>\<open>name\<close>, \<^verbatim>\<open>value\<close>): a \<^verbatim>\<open>TypeError\<close> on \<^verbatim>\<open>null\<close> and
    \<^verbatim>\<open>undefined\<close>, the own property of an object, \<^verbatim>\<open>undefined\<close> otherwise.
  \<^item> \<open>toString\<close>: \<^verbatim>\<open>ToString\<close>, which \<^verbatim>\<open>acc[curr.name]\<close> applies to the key. It throws
    for an object that shadows \<^verbatim>\<open>toString\<close> with a JSON value, in an array too.
\<close>

section \<open>Values\<close>

datatype jsval =
    JUndefined
  | JNull
  | JBool bool
  | JNum int
  | JStr string
  | JArr "jsval list"
  | JObj "(string \<times> jsval) list"

type_synonym props = "(string \<times> jsval) list"

fun truthy :: "jsval \<Rightarrow> bool" where
  "truthy JUndefined = False"
| "truthy JNull = False"
| "truthy (JBool b) = b"
| "truthy (JNum n) = (n \<noteq> 0)"
| "truthy (JStr s) = (s \<noteq> [])"
| "truthy (JArr xs) = True"
| "truthy (JObj ps) = True"

definition js_or :: "jsval \<Rightarrow> jsval \<Rightarrow> jsval" where
  "js_or a b = (if truthy a then a else b)"

fun getProp :: "jsval \<Rightarrow> string \<Rightarrow> jsval result" where
  "getProp JUndefined k = Inl TypeError"
| "getProp JNull k = Inl TypeError"
| "getProp (JObj ps) k = Inr (case map_of ps k of Some v \<Rightarrow> v | None \<Rightarrow> JUndefined)"
| "getProp (JBool b) k = Inr JUndefined"
| "getProp (JNum n) k = Inr JUndefined"
| "getProp (JStr s) k = Inr JUndefined"
| "getProp (JArr xs) k = Inr JUndefined"

fun toString :: "jsval \<Rightarrow> string result" and join_items :: "jsval list \<Rightarrow> string result" where
  "toString JUndefined = Inr ''undefined''"
| "toString JNull = Inr ''null''"
| "toString (JBool b) = Inr (if b then ''true'' else ''false'')"
| "toString (JNum n) = Inr (show_int n)"
| "toString (JStr s) = Inr s"
| "toString (JArr xs) = join_items xs"
| "toString (JObj ps) =
     (if ''toString'' \<in> set (keys_of ps) then Inl TypeError else Inr ''[object Object]'')"
| "join_items [] = Inr []"
| "join_items (x # xs) =
     bind_result (if x = JUndefined \<or> x = JNull then Inr [] else toString x)
       (\<lambda>s. if xs = [] then Inr s
            else bind_result (join_items xs) (\<lambda>r. Inr (s @ '','' @ r)))"

text \<open>
  A value that \<^verbatim>\<open>JSON.parse\<close> can return holds no \<^verbatim>\<open>undefined\<close>.
\<close>

fun is_json :: "jsval \<Rightarrow> bool" where
  "is_json JUndefined = False"
| "is_json JNull = True"
| "is_json (JBool b) = True"
| "is_json (JNum n) = True"
| "is_json (JStr s) = True"
| "is_json (JArr xs) = list_all is_json xs"
| "is_json (JObj ps) = list_all (\<lambda>p. is_json (snd p)) ps"

section \<open>Truthiness and the operator \<open>||\<close>\<close>

lemma truthy_cases:
  "truthy v \<longleftrightarrow> v \<noteq> JUndefined \<and> v \<noteq> JNull \<and> v \<noteq> JBool False \<and> v \<noteq> JNum 0 \<and> v \<noteq> JStr []"
  by (cases v) auto

lemma js_or_truthy [simp]: "truthy a \<Longrightarrow> js_or a b = a"
  by (simp add: js_or_def)

lemma js_or_falsy [simp]: "\<not> truthy a \<Longrightarrow> js_or a b = b"
  by (simp add: js_or_def)

lemma truthy_js_or [simp]: "truthy b \<Longrightarrow> truthy (js_or a b)"
  by (simp add: js_or_def)

lemma js_or_cases: "js_or a b = a \<and> truthy a \<or> js_or a b = b \<and> \<not> truthy a"
  by (simp add: js_or_def)

lemma js_or_simps [simp]:
  "js_or JUndefined b = b"
  "js_or JNull b = b"
  "js_or (JArr xs) b = JArr xs"
  "js_or (JObj ps) b = JObj ps"
  by (simp_all add: js_or_def)

lemma js_or_eq_JArr_iff:
  "js_or a (JArr []) = JArr xs \<longleftrightarrow> a = JArr xs \<or> (\<not> truthy a \<and> xs = [])"
  by (cases a) (auto simp: js_or_def)

lemma case_JArr_eq_Inr_iff:
  "(case w of JArr xs \<Rightarrow> F xs | _ \<Rightarrow> Inl e) = Inr v \<longleftrightarrow> (\<exists>xs. w = JArr xs \<and> F xs = Inr v)"
  by (cases w) simp_all

lemma throws_case_JArr:
  "throws (case w of JArr xs \<Rightarrow> F xs | _ \<Rightarrow> Inl e) \<longleftrightarrow> (\<forall>xs. w = JArr xs \<longrightarrow> throws (F xs))"
  by (cases w) simp_all

section \<open>Property reads\<close>

lemma throws_getProp [simp]: "throws (getProp v k) \<longleftrightarrow> v = JUndefined \<or> v = JNull"
  by (cases v) simp_all

lemma getProp_JObj_Some [simp]: "map_of ps k = Some v \<Longrightarrow> getProp (JObj ps) k = Inr v"
  by simp

lemma getProp_JObj_None [simp]: "map_of ps k = None \<Longrightarrow> getProp (JObj ps) k = Inr JUndefined"
  by simp

lemma getProp_eq_Inr_JObj:
  "getProp (JObj ps) k = Inr v \<longleftrightarrow> map_of ps k = Some v \<or> (map_of ps k = None \<and> v = JUndefined)"
  by (cases "map_of ps k") auto

section \<open>Conversion to a string\<close>

lemma join_items_single [simp]:
  "join_items [x] = (if x = JUndefined \<or> x = JNull then Inr [] else toString x)"
  by (cases "toString x") simp_all

lemma throws_toString_JObj [simp]:
  "throws (toString (JObj ps)) \<longleftrightarrow> ''toString'' \<in> set (keys_of ps)"
  by simp

section \<open>JSON values\<close>

lemma is_json_not_undefined [simp]: "is_json v \<Longrightarrow> v \<noteq> JUndefined"
  by auto

lemma is_json_JArr_nth: "is_json (JArr xs) \<Longrightarrow> x \<in> set xs \<Longrightarrow> is_json x"
  by (simp add: list_all_iff)

lemma is_json_map_of: "is_json (JObj ps) \<Longrightarrow> map_of ps k = Some v \<Longrightarrow> is_json v"
proof -
  assume "is_json (JObj ps)" and "map_of ps k = Some v"
  then have "\<forall>p \<in> set ps. is_json (snd p)" and "(k, v) \<in> set ps"
    by (simp_all add: list_all_iff map_of_SomeD)
  then show ?thesis by force
qed

end
