(* ===== verification/JsObject.thy ===== *)
theory JsObject
  imports JsValue
begin

text \<open>
  Own properties of an object: their order, their creation, and the two ways the
  source writes them.

  \<^item> \<open>is_array_index\<close>, \<open>key_before\<close>, \<open>own_key_order\<close>: an object lists the keys that are
    array indices (canonical decimal numerals below \<open>2^32 - 1\<close>) first, in ascending
    numeric order, and then its other string keys in creation order.
    \<open>wf_props\<close> says that a property list has distinct keys in that order.
  \<^item> \<open>define_prop\<close>: \<^verbatim>\<open>CreateDataProperty\<close>, as an object literal and the spread
    \<^verbatim>\<open>{...el}\<close> use it (geminiService.ts lines 76 to 78): an existing key keeps its
    place, a new index key goes to its numeric place, another new key goes last. It is
    polymorphic in the type of the values, so that the typed specification of theory
    \<open>GeminiService\<close> uses the same operation on string-valued records.
  \<^item> \<open>own_entries\<close> and \<open>spread_into\<close>: \<^verbatim>\<open>CopyDataProperties\<close>, the spread of any value
    into an object under construction. \<^verbatim>\<open>null\<close>, \<^verbatim>\<open>undefined\<close>, numbers and booleans
    contribute nothing; arrays and strings contribute their indexed elements.
  \<^item> \<open>plain_object\<close>, \<open>js_set\<close>: the assignment \<^verbatim>\<open>acc[k] = v\<close> on an object created by
    \<^verbatim>\<open>{}\<close> (geminiService.ts line 79). It differs from \<open>define_prop\<close> for the key
    \<^verbatim>\<open>__proto__\<close>, which \<^verbatim>\<open>Object.prototype\<close> defines as an accessor: the assignment
    then creates no property; it replaces the prototype when \<open>v\<close> is an object or
    \<^verbatim>\<open>null\<close> and does nothing otherwise. Once the prototype is \<^verbatim>\<open>null\<close> the accessor
    is out of reach and \<^verbatim>\<open>__proto__\<close> is an ordinary key. The record keeps the own
    properties and whether the prototype is \<^verbatim>\<open>null\<close>; which object the prototype is
    cannot be observed by the application (\<^verbatim>\<open>Object.entries\<close> lists own properties).
  \<^item> \<open>wf_json\<close>: a value as \<^verbatim>\<open>JSON.parse\<close> returns it: no \<^verbatim>\<open>undefined\<close>, and every
    object in it \<open>wf_props\<close>.
\<close>

section \<open>Key order\<close>

definition is_array_index :: "string \<Rightarrow> bool" where
  "is_array_index k \<longleftrightarrow> canonical_numeral k \<and> read_nat k < 4294967295"

definition key_before :: "string \<Rightarrow> string \<Rightarrow> bool" where
  "key_before a b =
     (if is_array_index b then is_array_index a \<and> read_nat a < read_nat b else True)"

definition own_key_order :: "string list \<Rightarrow> bool" where
  "own_key_order ks = sorted_wrt key_before ks"

definition wf_props :: "(string \<times> 'v) list \<Rightarrow> bool" where
  "wf_props ps \<longleftrightarrow> distinct (keys_of ps) \<and> own_key_order (keys_of ps)"

section \<open>Creating and assigning properties\<close>

fun insert_index :: "string \<Rightarrow> 'v \<Rightarrow> (string \<times> 'v) list \<Rightarrow> (string \<times> 'v) list" where
  "insert_index k v [] = [(k, v)]"
| "insert_index k v ((k', v') # ps) =
     (if is_array_index k' \<and> read_nat k' < read_nat k
      then (k', v') # insert_index k v ps
      else (k, v) # (k', v') # ps)"

definition define_prop :: "string \<Rightarrow> 'v \<Rightarrow> (string \<times> 'v) list \<Rightarrow> (string \<times> 'v) list" where
  "define_prop k v ps =
     (if is_array_index k \<and> k \<notin> set (keys_of ps) then insert_index k v ps
      else AList.update k v ps)"

fun own_entries :: "jsval \<Rightarrow> props" where
  "own_entries (JObj ps) = ps"
| "own_entries (JArr xs) = zip (map show_nat [0..<length xs]) xs"
| "own_entries (JStr s) = zip (map show_nat [0..<length s]) (map (\<lambda>c. JStr [c]) s)"
| "own_entries JUndefined = []"
| "own_entries JNull = []"
| "own_entries (JBool b) = []"
| "own_entries (JNum n) = []"

definition spread_into :: "props \<Rightarrow> jsval \<Rightarrow> props" where
  "spread_into target v = foldl (\<lambda>acc (k, x). define_prop k x acc) target (own_entries v)"

record plain_object =
  own_props :: props
  null_proto :: bool

definition empty_object :: plain_object where
  "empty_object = \<lparr>own_props = [], null_proto = False\<rparr>"

definition js_set :: "plain_object \<Rightarrow> string \<Rightarrow> jsval \<Rightarrow> plain_object" where
  "js_set acc k v =
     (if k = ''__proto__'' \<and> \<not> null_proto acc
      then (if v = JNull then acc\<lparr>null_proto := True\<rparr> else acc)
      else acc\<lparr>own_props := define_prop k v (own_props acc)\<rparr>)"

fun wf_json :: "jsval \<Rightarrow> bool" where
  "wf_json JUndefined = False"
| "wf_json JNull = True"
| "wf_json (JBool b) = True"
| "wf_json (JNum n) = True"
| "wf_json (JStr s) = True"
| "wf_json (JArr xs) = list_all wf_json xs"
| "wf_json (JObj ps) = (wf_props ps \<and> list_all (\<lambda>p. wf_json (snd p)) ps)"

lemmas [js_defs] =
  is_array_index_def key_before_def own_key_order_def wf_props_def define_prop_def
  spread_into_def empty_object_def js_set_def canonical_numeral_def is_digit_def
  read_nat_def digit_val_def

text \<open>What the simplifier needs to decide the order of concrete keys.\<close>

lemmas key_eval =
  wf_props_def key_before_def is_array_index_def canonical_numeral_def is_digit_def
  define_prop_def

section \<open>Array indices\<close>

lemma is_array_index_show_nat [simp]: "is_array_index (show_nat n) \<longleftrightarrow> n < 4294967295"
  by (simp add: is_array_index_def)

lemma array_index_eqI:
  "is_array_index a \<Longrightarrow> is_array_index b \<Longrightarrow> read_nat a = read_nat b \<Longrightarrow> a = b"
  by (metis is_array_index_def show_read_nat)

lemma key_before_trans: "key_before a b \<Longrightarrow> key_before b c \<Longrightarrow> key_before a c"
  by (auto simp: key_before_def split: if_splits)

lemma key_before_non_index [simp]: "\<not> is_array_index b \<Longrightarrow> key_before a b"
  by (simp add: key_before_def)

lemma key_before_index:
  "is_array_index b \<Longrightarrow> key_before a b \<longleftrightarrow> is_array_index a \<and> read_nat a < read_nat b"
  by (simp add: key_before_def)

lemma key_before_show_nat: "i < j \<Longrightarrow> key_before (show_nat i) (show_nat j)"
  by (simp add: key_before_def)

lemma own_key_order_simps [simp]:
  "own_key_order []"
  "own_key_order (k # ks) \<longleftrightarrow> (\<forall>b \<in> set ks. key_before k b) \<and> own_key_order ks"
  by (simp_all add: own_key_order_def)

lemma own_key_order_append:
  "own_key_order (ks @ ls) \<longleftrightarrow>
     own_key_order ks \<and> own_key_order ls \<and> (\<forall>a \<in> set ks. \<forall>b \<in> set ls. key_before a b)"
  by (simp add: own_key_order_def sorted_wrt_append)

lemma own_key_order_snoc_non_index:
  "\<not> is_array_index k \<Longrightarrow> own_key_order (ks @ [k]) \<longleftrightarrow> own_key_order ks"
  by (simp add: own_key_order_append)

lemma own_key_order_indices: "own_key_order (map show_nat [i..<j])"
  by (simp add: own_key_order_def sorted_wrt_map sorted_wrt_upt key_before_show_nat
      sorted_wrt_mono_rel [of _ "(<)"])

lemma wf_props_Nil [simp]: "wf_props []"
  by (simp add: wf_props_def)

lemma wf_props_ConsD: "wf_props (p # ps) \<Longrightarrow> wf_props ps"
  by (simp add: wf_props_def)

section \<open>\<open>insert_index\<close> and \<open>define_prop\<close>\<close>

lemma set_insert_index [simp]: "set (insert_index k v ps) = insert (k, v) (set ps)"
  by (induction ps) (auto split: if_splits)

lemma keys_insert_index: "fst ` set (insert_index k v ps) = insert k (fst ` set ps)"
  by simp

lemma map_of_insert_index:
  "k \<notin> set (keys_of ps) \<Longrightarrow> map_of (insert_index k v ps) = (map_of ps)(k \<mapsto> v)"
  by (induction ps) (auto simp: fun_upd_twist)

lemma distinct_insert_index:
  "k \<notin> set (keys_of ps) \<Longrightarrow> distinct (keys_of ps) \<Longrightarrow> distinct (keys_of (insert_index k v ps))"
  by (induction ps) auto

lemma length_insert_index [simp]: "length (insert_index k v ps) = Suc (length ps)"
  by (induction ps) auto

lemma insert_index_append:
  "\<forall>a \<in> set (keys_of ps). is_array_index a \<and> read_nat a < read_nat k \<Longrightarrow>
   insert_index k v ps = ps @ [(k, v)]"
  by (induction ps) auto

lemma own_key_order_insert_index:
  assumes "is_array_index k" and "k \<notin> set (keys_of ps)" and "own_key_order (keys_of ps)"
  shows "own_key_order (keys_of (insert_index k v ps))"
  using assms(2,3)
proof (induction ps)
  case Nil
  show ?case by simp
next
  case (Cons p ps)
  obtain k' v' where p: "p = (k', v')" by (cases p)
  from Cons.prems p have ne: "k \<noteq> k'" and notin: "k \<notin> set (keys_of ps)"
    and first: "\<forall>b \<in> set (keys_of ps). key_before k' b" and rest: "own_key_order (keys_of ps)"
    by auto
  show ?case
  proof (cases "is_array_index k' \<and> read_nat k' < read_nat k")
    case True
    with assms(1) have "key_before k' k" by (simp add: key_before_def)
    with True first Cons.IH [OF notin rest] p show ?thesis by auto
  next
    case False
    have k': "key_before k k'"
    proof (cases "is_array_index k'")
      case True
      with False ne assms(1) have "read_nat k < read_nat k'"
        by (metis array_index_eqI linorder_neqE_nat)
      with True assms(1) show ?thesis by (simp add: key_before_def)
    next
      case False
      then show ?thesis by simp
    qed
    have "\<forall>b \<in> set (keys_of ps). key_before k b"
      using k' first by (blast intro: key_before_trans)
    with False k' first rest p show ?thesis by auto
  qed
qed

lemma keys_define_prop [simp]:
  "fst ` set (define_prop k v ps) = insert k (fst ` set ps)"
  by (simp add: define_prop_def dom_update)

lemma map_of_define_prop [simp]: "map_of (define_prop k v ps) = (map_of ps)(k \<mapsto> v)"
  by (simp add: define_prop_def map_of_insert_index update_conv')

lemma define_prop_present:
  "k \<in> set (keys_of ps) \<Longrightarrow> keys_of (define_prop k v ps) = keys_of ps"
  by (simp add: define_prop_def keys_of_update)

lemma define_prop_absent_non_index:
  "k \<notin> set (keys_of ps) \<Longrightarrow> \<not> is_array_index k \<Longrightarrow> define_prop k v ps = ps @ [(k, v)]"
  by (simp add: define_prop_def update_absent)

lemma length_define_prop:
  "length (define_prop k v ps) = (if k \<in> set (keys_of ps) then length ps else Suc (length ps))"
  by (simp add: define_prop_def length_update)

lemma wf_props_define_prop: "wf_props ps \<Longrightarrow> wf_props (define_prop k v ps)"
proof (cases "k \<in> set (keys_of ps)")
  case True
  assume "wf_props ps"
  with True show ?thesis by (simp add: wf_props_def define_prop_present)
next
  case False
  assume wf: "wf_props ps"
  show ?thesis
  proof (cases "is_array_index k")
    case True
    with False wf show ?thesis
      by (simp add: wf_props_def define_prop_def distinct_insert_index own_key_order_insert_index)
  next
    case False
    with \<open>k \<notin> set (keys_of ps)\<close> wf show ?thesis
      by (simp add: wf_props_def define_prop_absent_non_index own_key_order_snoc_non_index)
  qed
qed

lemma define_prop_snoc:
  assumes "wf_props (ps @ [(k, v)])"
  shows "define_prop k v ps = ps @ [(k, v)]"
proof (cases "is_array_index k")
  case True
  from assms have "k \<notin> set (keys_of ps)" and "\<forall>a \<in> set (keys_of ps). key_before a k"
    by (auto simp: wf_props_def own_key_order_append)
  with True show ?thesis
    by (simp add: define_prop_def insert_index_append key_before_index)
next
  case False
  from assms have "k \<notin> set (keys_of ps)" by (auto simp: wf_props_def)
  with False show ?thesis by (simp add: define_prop_absent_non_index)
qed

subsection \<open>Mapping the values\<close>

lemma fst_comp_map_values [simp]: "fst \<circ> (\<lambda>(k, v). (k, f v)) = fst"
  by (auto simp: fun_eq_iff)

lemma insert_index_map_values:
  "insert_index k (f v) (map (\<lambda>(k, v). (k, f v)) ps) = map (\<lambda>(k, v). (k, f v)) (insert_index k v ps)"
  by (induction ps) auto

lemma update_map_values:
  "AList.update k (f v) (map (\<lambda>(k, v). (k, f v)) ps) = map (\<lambda>(k, v). (k, f v)) (AList.update k v ps)"
  by (induction ps) auto

lemma keys_map_values: "keys_of (map (\<lambda>(k, v). (k, f v)) ps) = keys_of ps"
  by simp

lemma define_prop_map_values:
  "define_prop k (f v) (map (\<lambda>(k, v). (k, f v)) ps) = map (\<lambda>(k, v). (k, f v)) (define_prop k v ps)"
  by (simp add: define_prop_def insert_index_map_values update_map_values)

lemma wf_props_map_values [simp]: "wf_props (map (\<lambda>(k, v). (k, f v)) ps) \<longleftrightarrow> wf_props ps"
  by (simp add: wf_props_def)

lemma map_of_map_values:
  "map_of (map (\<lambda>(k, v). (k, f v)) ps) k = map_option f (map_of ps k)"
  by (induction ps) auto

section \<open>Spreading a value into an object\<close>

lemma wf_props_prefix: "wf_props (ps @ qs) \<Longrightarrow> wf_props ps"
  by (auto simp: wf_props_def own_key_order_append)

lemma foldl_define_prop_wf:
  "wf_props (acc @ ps) \<Longrightarrow> foldl (\<lambda>acc (k, x). define_prop k x acc) acc ps = acc @ ps"
proof (induction ps arbitrary: acc)
  case Nil
  show ?case by simp
next
  case (Cons p ps)
  obtain k v where p: "p = (k, v)" by (cases p)
  from Cons.prems p have "wf_props ((acc @ [(k, v)]) @ ps)" by simp
  then have "wf_props (acc @ [(k, v)])"
    and "foldl (\<lambda>acc (k, x). define_prop k x acc) (acc @ [(k, v)]) ps = (acc @ [(k, v)]) @ ps"
    by (rule wf_props_prefix, rule Cons.IH)
  then show ?case by (simp add: p define_prop_snoc)
qed

lemma spread_into_wf_object [simp]: "wf_props ps \<Longrightarrow> spread_into [] (JObj ps) = ps"
  by (simp add: spread_into_def foldl_define_prop_wf)

lemma spread_into_nothing [simp]:
  "spread_into t JUndefined = t" "spread_into t JNull = t"
  "spread_into t (JBool b) = t" "spread_into t (JNum n) = t"
  by (simp_all add: spread_into_def)

lemma wf_props_foldl_define_prop:
  "wf_props acc \<Longrightarrow> wf_props (foldl (\<lambda>acc (k, x). define_prop k x acc) acc ps)"
  by (induction ps arbitrary: acc) (auto simp: wf_props_define_prop)

lemma wf_props_spread_into: "wf_props t \<Longrightarrow> wf_props (spread_into t v)"
  by (simp add: spread_into_def wf_props_foldl_define_prop)

lemma keys_foldl_define_prop:
  "fst ` set (foldl (\<lambda>acc (k, x). define_prop k x acc) acc ps) = fst ` set acc \<union> fst ` set ps"
  by (induction ps arbitrary: acc) (simp_all add: split_beta)

lemma keys_spread_into:
  "fst ` set (spread_into t v) = fst ` set t \<union> fst ` set (own_entries v)"
  by (simp add: spread_into_def keys_foldl_define_prop)

section \<open>Assignment to a property of a plain object\<close>

lemma js_set_ordinary:
  "k \<noteq> ''__proto__'' \<Longrightarrow> js_set acc k v = acc\<lparr>own_props := define_prop k v (own_props acc)\<rparr>"
  by (simp add: js_set_def)

lemma js_set_proto:
  "\<not> null_proto acc \<Longrightarrow> own_props (js_set acc ''__proto__'' v) = own_props acc"
  by (simp add: js_set_def)

lemma null_proto_js_set_mono: "null_proto acc \<Longrightarrow> null_proto (js_set acc k v)"
  by (simp add: js_set_def)

lemma wf_props_js_set: "wf_props (own_props acc) \<Longrightarrow> wf_props (own_props (js_set acc k v))"
  by (simp add: js_set_def wf_props_define_prop)

lemma keys_js_set_subset:
  "fst ` set (own_props (js_set acc k v)) \<subseteq> insert k (fst ` set (own_props acc))"
  by (auto simp: js_set_def)

section \<open>Well-formed JSON\<close>

lemma wf_json_is_json: "wf_json v \<Longrightarrow> is_json v"
  by (induction v rule: wf_json.induct) (auto simp: list_all_iff)

lemma wf_json_map_of: "wf_json (JObj ps) \<Longrightarrow> map_of ps k = Some v \<Longrightarrow> wf_json v"
proof -
  assume "wf_json (JObj ps)" and "map_of ps k = Some v"
  then have "\<forall>p \<in> set ps. wf_json (snd p)" and "(k, v) \<in> set ps"
    by (simp_all add: list_all_iff map_of_SomeD)
  then show ?thesis by force
qed

lemma wf_json_getProp:
  assumes "wf_json (JObj ps)" and "getProp (JObj ps) k = Inr v"
  shows "v = JUndefined \<or> wf_json v"
proof (cases "map_of ps k")
  case None
  with assms(2) show ?thesis by simp
next
  case (Some u)
  with assms(1) have "wf_json u" by (rule wf_json_map_of)
  with Some assms(2) show ?thesis by simp
qed

end
