(* ===== verification/Types.thy ===== *)
theory Types
  imports JsObject
begin

text \<open>
  The interfaces of src/types.ts.

  TypeScript checks them at compile time only; at run time a \<^verbatim>\<open>ProcessingResult\<close> is
  whatever object \<^verbatim>\<open>processSelector\<close> built. Each interface is therefore modelled
  twice: as a \<^theory_text>\<open>record\<close> (the typed view the rest of the application is written
  against) and as a decoder from run-time values into that record. A value
  \<^emph>\<open>conforms\<close> to the interface when the decoder succeeds (\<open>is_ExtractedElement\<close>,
  \<open>is_ProcessingResult\<close>). Interfaces are structural: an object with more properties
  than the interface names still conforms.

  \<^item> \<open>ExtractedElement\<close> (lines 2 to 7): fields \<open>el_tag\<close>, \<open>el_text\<close>, \<open>el_attributes\<close>,
    \<open>el_html\<close>. The prefix keeps the field names apart from those of \<open>AppState\<close>, and
    \<open>text\<close> is a keyword of the theory language. \<^verbatim>\<open>Record<string, string>\<close> is a list
    of key and value in own-property order.
  \<^item> \<open>ProcessingResult\<close> (lines 9 to 14): \<open>elements\<close>, \<open>count\<close>, \<open>selectorUsed\<close> and the
    optional \<open>error\<close>.
  \<^item> \<open>AppState\<close> (lines 16 to 23): the React state of \<^verbatim>\<open>App\<close>. \<open>result\<close> holds the run-time
    value (\<open>None\<close> for \<^verbatim>\<open>null\<close>), because the application stores what
    \<^verbatim>\<open>processSelector\<close> returns without looking at it.
\<close>

section \<open>The records\<close>

record ExtractedElement =
  el_tag :: string
  el_text :: string
  el_attributes :: "(string \<times> string) list"
  el_html :: string

record ProcessingResult =
  elements :: "ExtractedElement list"
  count :: int
  selectorUsed :: string
  error :: "string option"

datatype tab = Preview | Source

record AppState =
  url :: string
  html :: string
  selector :: string
  result :: "jsval option"
  isLoading :: bool
  activeTab :: tab

section \<open>Decoding run-time values\<close>

fun as_string :: "jsval \<Rightarrow> string option" where
  "as_string (JStr s) = Some s"
| "as_string v = None"

fun as_number :: "jsval \<Rightarrow> int option" where
  "as_number (JNum n) = Some n"
| "as_number v = None"

definition field :: "props \<Rightarrow> string \<Rightarrow> (jsval \<Rightarrow> 'a option) \<Rightarrow> 'a option" where
  "field ps k dec = Option.bind (map_of ps k) dec"

definition optional_field :: "props \<Rightarrow> string \<Rightarrow> (jsval \<Rightarrow> 'a option) \<Rightarrow> 'a option option" where
  "optional_field ps k dec =
     (case map_of ps k of None \<Rightarrow> Some None | Some JUndefined \<Rightarrow> Some None
      | Some v \<Rightarrow> map_option Some (dec v))"

fun to_Record :: "jsval \<Rightarrow> (string \<times> string) list option" where
  "to_Record (JObj ps) = those (map (\<lambda>(k, v). map_option (Pair k) (as_string v)) ps)"
| "to_Record v = None"

fun to_ExtractedElement :: "jsval \<Rightarrow> ExtractedElement option" where
  "to_ExtractedElement (JObj ps) =
     Option.bind (field ps ''tag'' as_string) (\<lambda>t.
     Option.bind (field ps ''text'' as_string) (\<lambda>x.
     Option.bind (field ps ''attributes'' to_Record) (\<lambda>a.
     Option.bind (field ps ''html'' as_string) (\<lambda>h.
       Some \<lparr>el_tag = t, el_text = x, el_attributes = a, el_html = h\<rparr>))))"
| "to_ExtractedElement v = None"

fun to_elements :: "jsval \<Rightarrow> ExtractedElement list option" where
  "to_elements (JArr xs) = those (map to_ExtractedElement xs)"
| "to_elements v = None"

fun to_ProcessingResult :: "jsval \<Rightarrow> ProcessingResult option" where
  "to_ProcessingResult (JObj ps) =
     Option.bind (field ps ''elements'' to_elements) (\<lambda>es.
     Option.bind (field ps ''count'' as_number) (\<lambda>c.
     Option.bind (field ps ''selectorUsed'' as_string) (\<lambda>s.
     Option.bind (optional_field ps ''error'' as_string) (\<lambda>e.
       Some \<lparr>elements = es, count = c, selectorUsed = s, error = e\<rparr>))))"
| "to_ProcessingResult v = None"

definition is_ExtractedElement :: "jsval \<Rightarrow> bool" where
  "is_ExtractedElement v = (to_ExtractedElement v \<noteq> None)"

definition is_ProcessingResult :: "jsval \<Rightarrow> bool" where
  "is_ProcessingResult v = (to_ProcessingResult v \<noteq> None)"

text \<open>The embedding of a string-valued record into run-time values.\<close>

definition of_Record :: "(string \<times> string) list \<Rightarrow> jsval" where
  "of_Record ps = JObj (map (\<lambda>(k, v). (k, JStr v)) ps)"

lemmas [js_defs] = field_def optional_field_def is_ExtractedElement_def
  is_ProcessingResult_def of_Record_def

section \<open>Facts about the decoders\<close>

lemma as_string_eq_Some [simp]: "as_string v = Some s \<longleftrightarrow> v = JStr s"
  by (cases v) auto

lemma as_number_eq_Some [simp]: "as_number v = Some n \<longleftrightarrow> v = JNum n"
  by (cases v) auto

lemma those_map_Some [simp]: "those (map (\<lambda>x. Some (f x)) xs) = Some (map f xs)"
  by (induction xs) simp_all

lemma those_eq_Some_iff: "those xs = Some ys \<longleftrightarrow> xs = map Some ys"
proof (induction xs arbitrary: ys)
  case Nil
  show ?case by auto
next
  case (Cons x xs)
  show ?case by (cases x; cases ys) (auto simp: Cons.IH split: option.splits)
qed

lemma those_length: "those xs = Some ys \<Longrightarrow> length ys = length xs"
  by (auto simp: those_eq_Some_iff)

lemma to_Record_of_Record [simp]: "to_Record (of_Record ps) = Some ps"
  by (simp add: of_Record_def comp_def split_beta)

lemma of_Record_to_Record: "to_Record v = Some ps \<Longrightarrow> v = of_Record ps"
proof (cases v)
  case (JObj qs)
  assume "to_Record v = Some ps"
  with JObj have "map (\<lambda>(k, v). map_option (Pair k) (as_string v)) qs = map Some ps"
    by (simp add: those_eq_Some_iff)
  then have "qs = map (\<lambda>(k, v). (k, JStr v)) ps"
  proof (induction qs arbitrary: ps)
    case Nil
    then show ?case by simp
  next
    case (Cons q qs)
    then show ?case by (cases ps; cases q) auto
  qed
  with JObj show ?thesis by (simp add: of_Record_def)
qed simp_all

lemma field_Some [simp]: "map_of ps k = Some v \<Longrightarrow> field ps k dec = dec v"
  by (simp add: field_def)

lemma field_None [simp]: "map_of ps k = None \<Longrightarrow> field ps k dec = None"
  by (simp add: field_def)

lemma field_eq_Some_iff: "field ps k dec = Some x \<longleftrightarrow> (\<exists>v. map_of ps k = Some v \<and> dec v = Some x)"
  by (simp add: field_def bind_eq_Some_conv)

lemma field_update:
  "field (AList.update k v ps) k' dec = (if k' = k then dec v else field ps k' dec)"
  by (simp add: field_def update_conv')

lemma optional_field_absent [simp]: "map_of ps k = None \<Longrightarrow> optional_field ps k dec = Some None"
  by (simp add: optional_field_def)

lemma to_elements_length: "to_elements v = Some es \<Longrightarrow> \<exists>xs. v = JArr xs \<and> length xs = length es"
  by (cases v) (auto dest: those_length)

lemma is_ProcessingResult_JObj: "is_ProcessingResult v \<Longrightarrow> \<exists>ps. v = JObj ps"
  by (cases v) (simp_all add: is_ProcessingResult_def)

end
