(* ===== verification/Schema.thy ===== *)
theory Schema
  imports JsObject
begin

text \<open>
  The response schemas that geminiService.ts passes to the model
  (\<^verbatim>\<open>config.responseSchema\<close>, lines 39 to 69), as data, and what it means for a reply
  to follow one.

  \<^item> \<open>schema\<close>: the four forms the source uses, \<^verbatim>\<open>Type.STRING\<close>, \<^verbatim>\<open>Type.NUMBER\<close>,
    \<^verbatim>\<open>Type.ARRAY\<close> with its \<^verbatim>\<open>items\<close>, and \<^verbatim>\<open>Type.OBJECT\<close> with its \<^verbatim>\<open>properties\<close>
    and its \<^verbatim>\<open>required\<close> names.
  \<^item> \<open>conforms\<close>: the contract of structured output, which is an assumption about the
    service and not code of the repository. A string schema admits strings, a number
    schema numbers, an array schema arrays whose items conform; an object schema
    admits objects that have every required property, no property the schema does not
    name, and conforming values.
  The theorems of theory \<open>GeminiService\<close> that assume \<open>conforms\<close> say what the
  application does when the service keeps this contract; the others hold for every
  reply.
\<close>

datatype schema =
    TypeSTRING
  | TypeNUMBER
  | TypeARRAY schema
  | TypeOBJECT "(string \<times> schema) list" "string list"

fun conforms :: "schema \<Rightarrow> jsval \<Rightarrow> bool" where
  "conforms TypeSTRING v = (case v of JStr s \<Rightarrow> True | _ \<Rightarrow> False)"
| "conforms TypeNUMBER v = (case v of JNum n \<Rightarrow> True | _ \<Rightarrow> False)"
| "conforms (TypeARRAY items) v =
     (case v of JArr xs \<Rightarrow> list_all (conforms items) xs | _ \<Rightarrow> False)"
| "conforms (TypeOBJECT properties required) v =
     (case v of
        JObj ps \<Rightarrow>
          list_all (\<lambda>k. k \<in> set (keys_of ps)) required \<and>
          list_all (\<lambda>k. k \<in> set (keys_of properties)) (keys_of ps) \<and>
          list_all (\<lambda>(k, sch). case map_of ps k of Some x \<Rightarrow> conforms sch x | None \<Rightarrow> True)
            properties
      | _ \<Rightarrow> False)"

section \<open>Inversion of conformance\<close>

lemma conforms_STRING_iff [simp]: "conforms TypeSTRING v \<longleftrightarrow> (\<exists>s. v = JStr s)"
  by (cases v) simp_all

lemma conforms_NUMBER_iff [simp]: "conforms TypeNUMBER v \<longleftrightarrow> (\<exists>n. v = JNum n)"
  by (cases v) simp_all

lemma conforms_ARRAY_iff:
  "conforms (TypeARRAY items) v \<longleftrightarrow> (\<exists>xs. v = JArr xs \<and> (\<forall>x \<in> set xs. conforms items x))"
  by (cases v) (simp_all add: list_all_iff)

lemma conforms_OBJECT_iff:
  "conforms (TypeOBJECT properties required) v \<longleftrightarrow>
     (\<exists>ps. v = JObj ps \<and> set required \<subseteq> fst ` set ps \<and> fst ` set ps \<subseteq> fst ` set properties \<and>
        (\<forall>(k, sch) \<in> set properties. \<forall>x. map_of ps k = Some x \<longrightarrow> conforms sch x))"
  by (cases v) (auto simp: list_all_iff split: option.splits)

declare conforms.simps [simp del]

lemma conforms_required_present:
  assumes "conforms (TypeOBJECT properties required) (JObj ps)"
    and "k \<in> set required" and "map_of properties k = Some sch"
  shows "\<exists>x. map_of ps k = Some x \<and> conforms sch x"
proof -
  from assms(1) have req: "set required \<subseteq> fst ` set ps"
    and val: "\<forall>(k, sch) \<in> set properties. \<forall>x. map_of ps k = Some x \<longrightarrow> conforms sch x"
    by (auto simp: conforms_OBJECT_iff)
  from req assms(2) obtain x where "map_of ps k = Some x"
    by (metis map_of_eq_None_iff not_Some_eq subsetD)
  moreover from assms(3) have "(k, sch) \<in> set properties" by (rule map_of_SomeD)
  ultimately show ?thesis using val by blast
qed

lemma conforms_known_key:
  assumes "conforms (TypeOBJECT properties required) (JObj ps)" and "map_of ps k = Some x"
  shows "\<exists>sch. (k, sch) \<in> set properties \<and> conforms sch x"
proof -
  from assms(1) have sub: "fst ` set ps \<subseteq> fst ` set properties"
    and val: "\<forall>(k, sch) \<in> set properties. \<forall>x. map_of ps k = Some x \<longrightarrow> conforms sch x"
    by (auto simp: conforms_OBJECT_iff)
  from assms(2) have "k \<in> fst ` set ps" by (metis map_of_eq_None_iff option.distinct(1))
  with sub obtain sch where "(k, sch) \<in> set properties" by auto
  with val assms(2) show ?thesis by blast
qed

end
