(* ===== verification/GeminiService.thy ===== *)
theory GeminiService
  imports Types Schema
begin

text \<open>
  src/geminiService.ts: the two requests the application sends to the model and what
  it makes of the replies.

  \<^bold>\<open>The environment.\<close> \<^verbatim>\<open>ai.models.generateContent\<close> and \<^verbatim>\<open>JSON.parse\<close> are library
  calls. They are parameters of the model, so that every theorem holds for every
  behaviour of the service and of the parser, or says what it assumes of them:
  \<^item> \<open>gen_model\<close>: from the request to the outcome of the awaited promise, \<open>Inl\<close> when it
    rejects, \<open>Inr\<close> the response otherwise. Of the response only \<^verbatim>\<open>response.text\<close> is
    read, a string or \<^verbatim>\<open>undefined\<close>.
  \<^item> \<open>json_parser\<close>: from the text to the parsed value, \<open>Inl SyntaxError\<close> when
    \<^verbatim>\<open>JSON.parse\<close> throws. \<open>json_parse_contract\<close> is what the theorems use of it: the
    text \<^verbatim>\<open>{}\<close> parses to the empty object and every parsed value is \<open>wf_json\<close>.

  \<^bold>\<open>The requests\<close> (lines 7 to 25, 29 to 71, 102 to 110): \<open>SYSTEM_INSTRUCTION\<close>,
  \<open>selector_contents\<close>, \<open>selector_schema\<close>, \<open>selector_request\<close>, \<open>fetch_contents\<close>,
  \<open>fetch_request\<close>, character for character.

  \<^bold>\<open>processSelector\<close> (lines 27 to 98) is composed as the source composes it:
  \<^item> \<open>response_text_or_empty\<close>: \<^verbatim>\<open>response.text || "{}"\<close> (line 73);
  \<^item> \<open>attr_step\<close>: the reducer \<^verbatim>\<open>acc[curr.name] = curr.value; return acc\<close> (lines 78 to
    81);
  \<^item> \<open>attributes_of\<close>: \<^verbatim>\<open>(el.attributes || []).reduce(..., {})\<close>;
  \<^item> \<open>map_element\<close>: the callback \<^verbatim>\<open>el => ({...el, attributes: ...})\<close> (lines 76 to 82);
  \<^item> \<open>reshape\<close>: lines 76 to 88, from the parsed reply to the returned object;
  \<^item> \<open>processSelector_try\<close>: the body of the \<^verbatim>\<open>try\<close>, which may throw;
  \<^item> \<open>error_result\<close> and \<open>processSelector\<close>: the \<^verbatim>\<open>catch\<close> (lines 89 to 97) and the whole
    function. The call of \<^verbatim>\<open>console.error\<close> writes a log and is not modelled.

  \<^bold>\<open>fetchUrlSimulated\<close> (lines 100 to 116): \<open>fetchUrlSimulated\<close> with its two fallback
  pages \<open>no_content_html\<close> and \<open>fetch_error_html\<close>.

  \<^bold>\<open>The typed specification.\<close> \<open>RawElement\<close>, \<open>RawResult\<close> and \<open>decode_reply\<close> read a
  reply that follows \<open>selector_schema\<close>; \<open>spec_attributes\<close>, \<open>spec_element\<close> and
  \<open>spec_reshape\<close> say on typed data what lines 76 to 88 compute. The refinement theorem
  states that \<open>reshape\<close> on a conforming reply returns the encoding of \<open>spec_reshape\<close>.
\<close>

section \<open>The environment\<close>

record response =
  response_text :: "string option"

record GenerateContentConfig =
  systemInstruction :: string
  responseMimeType :: "string option"
  responseSchema :: "schema option"

record GenerateContentParameters =
  model :: string
  contents :: string
  config :: GenerateContentConfig

type_synonym gen_model = "GenerateContentParameters \<Rightarrow> response result"

type_synonym json_parser = "string \<Rightarrow> jsval result"

definition json_parse_contract :: "json_parser \<Rightarrow> bool" where
  "json_parse_contract parse \<longleftrightarrow>
     parse ''{}'' = Inr (JObj []) \<and> (\<forall>s v. parse s = Inr v \<longrightarrow> wf_json v)"

section \<open>The requests\<close>

abbreviation newline :: char where
  "newline \<equiv> CHR 0x0A"

definition unlines :: "string list \<Rightarrow> string" where
  "unlines ls = concat (map (\<lambda>l. l @ [newline]) ls)"

definition SYSTEM_INSTRUCTION :: string where
  \<open>SYSTEM_INSTRUCTION = newline # unlines
    [''You are an expert in the Python library "DrissionPage" and HTML parsing.'',
     ''Your task is to act as a DrissionPage selector engine.'',
     ''The user will provide a block of HTML and a "Locator" string following DrissionPage syntax.'',
     '''',
     ''DrissionPage Locator Rules:'',
     ''1. Property locator: '@name=value' (e.g., '@id=header', '@class=main-btn').'',
     ''2. Tag name: 'tag:name' (e.g., 'tag:div', 'tag:p').'',
     ''3. Text search: 'text:content' or just 'content'.'',
     ''4. CSS Selector: 'css:.my-class'.'',
     ''5. XPath: 'xpath://div'.'',
     ''6. Property only: '@id' (finds any element with an id).'',
     ''7. Combined: 'tag:div@class=container'.'',
     '''',
     ''You must parse the provided HTML and find ALL elements matching the locator.'',
     ''Return the results in a strict JSON format matching the schema provided.'',
     ''For 'attributes', provide an array of objects, each containing a 'name' and a 'value' key.'',
     ''Include the tag name, outer HTML, inner text, and attributes for each found element.'']\<close>

definition selector_contents :: "string \<Rightarrow> string \<Rightarrow> string" where
  "selector_contents h s =
     ''HTML Content:'' @ [newline] @ h @ [newline, newline] @ ''Locator:'' @ [newline] @ s"

definition selector_schema :: schema where
  "selector_schema =
     TypeOBJECT
       [(''elements'',
           TypeARRAY
             (TypeOBJECT
                [(''tag'', TypeSTRING),
                 (''text'', TypeSTRING),
                 (''attributes'',
                    TypeARRAY
                      (TypeOBJECT [(''name'', TypeSTRING), (''value'', TypeSTRING)]
                         [''name'', ''value''])),
                 (''html'', TypeSTRING)]
                [''tag'', ''text'', ''attributes'', ''html''])),
        (''count'', TypeNUMBER),
        (''selectorUsed'', TypeSTRING)]
       [''elements'', ''count'', ''selectorUsed'']"

definition selector_request :: "string \<Rightarrow> string \<Rightarrow> GenerateContentParameters" where
  "selector_request h s =
     \<lparr>model = ''gemini-3-flash-preview'',
      contents = selector_contents h s,
      config = \<lparr>systemInstruction = SYSTEM_INSTRUCTION,
                responseMimeType = Some ''application/json'',
                responseSchema = Some selector_schema\<rparr>\<rparr>"

definition fetch_contents :: "string \<Rightarrow> string" where
  "fetch_contents u =
     ''Generate a realistic HTML structure representing the webpage at: '' @ u @ ''. '' @ [newline] @
     ''      Make sure it has varied tags (div, a, span, p, h1, buttons), classes, and ids so I can test DrissionPage selectors. '' @ [newline] @
     ''      Include a header, main content area, and a footer.''"

definition fetch_request :: "string \<Rightarrow> GenerateContentParameters" where
  "fetch_request u =
     \<lparr>model = ''gemini-3-flash-preview'',
      contents = fetch_contents u,
      config = \<lparr>systemInstruction = ''Return ONLY raw HTML. No markdown, no code blocks.'',
                responseMimeType = None,
                responseSchema = None\<rparr>\<rparr>"

section \<open>\<open>processSelector\<close>\<close>

definition response_text_or_empty :: "response \<Rightarrow> string" where
  "response_text_or_empty r =
     (case response_text r of None \<Rightarrow> ''{}'' | Some t \<Rightarrow> if t = [] then ''{}'' else t)"

definition attr_step :: "plain_object \<Rightarrow> jsval \<Rightarrow> plain_object result" where
  "attr_step acc cur =
     bind_result (getProp cur ''name'') (\<lambda>n.
     bind_result (getProp cur ''value'') (\<lambda>v.
     bind_result (toString n) (\<lambda>k. Inr (js_set acc k v))))"

definition attributes_of :: "jsval \<Rightarrow> jsval result" where
  "attributes_of a =
     (case js_or a (JArr []) of
        JArr cs \<Rightarrow>
          bind_result (fold_result attr_step empty_object cs) (\<lambda>acc. Inr (JObj (own_props acc)))
      | _ \<Rightarrow> Inl TypeError)"

definition map_element :: "jsval \<Rightarrow> jsval result" where
  "map_element el =
     bind_result (getProp el ''attributes'') (\<lambda>a.
     bind_result (attributes_of a) (\<lambda>attrs.
       Inr (JObj (define_prop ''attributes'' attrs (spread_into [] el)))))"

definition reshape :: "jsval \<Rightarrow> string \<Rightarrow> jsval result" where
  "reshape rawResult s =
     bind_result (getProp rawResult ''elements'') (\<lambda>es.
       case js_or es (JArr []) of
         JArr xs \<Rightarrow>
           bind_result (map_result map_element xs) (\<lambda>els.
           bind_result (getProp rawResult ''count'') (\<lambda>c.
           bind_result (getProp rawResult ''selectorUsed'') (\<lambda>u.
             Inr (JObj [(''elements'', JArr els),
                        (''count'', js_or c (JNum (int (length els)))),
                        (''selectorUsed'', js_or u (JStr s))]))))
       | _ \<Rightarrow> Inl TypeError)"

definition processSelector_try :: "gen_model \<Rightarrow> json_parser \<Rightarrow> string \<Rightarrow> string \<Rightarrow> jsval result" where
  "processSelector_try gen parse h s =
     bind_result (gen (selector_request h s)) (\<lambda>r.
     bind_result (parse (response_text_or_empty r)) (\<lambda>rawResult.
       reshape rawResult s))"

definition error_result :: "string \<Rightarrow> jsval" where
  "error_result s =
     JObj [(''elements'', JArr []),
           (''count'', JNum 0),
           (''selectorUsed'', JStr s),
           (''error'', JStr ''Failed to process the selector with AI engine.'')]"

definition processSelector :: "gen_model \<Rightarrow> json_parser \<Rightarrow> string \<Rightarrow> string \<Rightarrow> jsval" where
  "processSelector gen parse h s =
     (case processSelector_try gen parse h s of Inl e \<Rightarrow> error_result s | Inr r \<Rightarrow> r)"

section \<open>\<open>fetchUrlSimulated\<close>\<close>

definition no_content_html :: string where
  "no_content_html = ''<html><body>No content generated.</body></html>''"

definition fetch_error_html :: string where
  "fetch_error_html =
     ''<html><body>Error fetching page via AI simulation. Please paste HTML manually.</body></html>''"

definition fetchUrlSimulated :: "gen_model \<Rightarrow> string \<Rightarrow> string" where
  "fetchUrlSimulated gen u =
     (case gen (fetch_request u) of
        Inl e \<Rightarrow> fetch_error_html
      | Inr r \<Rightarrow>
          (case response_text r of
             None \<Rightarrow> no_content_html
           | Some t \<Rightarrow> if t = [] then no_content_html else t))"

section \<open>The typed specification\<close>

text \<open>
  A reply that follows \<open>selector_schema\<close>, as typed data: \<^verbatim>\<open>attributes\<close> is the array of
  name and value pairs the schema asks for.
\<close>

record RawElement =
  raw_tag :: string
  raw_text :: string
  raw_attributes :: "(string \<times> string) list"
  raw_html :: string

record RawResult =
  raw_elements :: "RawElement list"
  raw_count :: int
  raw_selectorUsed :: string

fun to_name_value :: "jsval \<Rightarrow> (string \<times> string) option" where
  "to_name_value (JObj ps) =
     Option.bind (field ps ''name'' as_string) (\<lambda>n.
     Option.bind (field ps ''value'' as_string) (\<lambda>v. Some (n, v)))"
| "to_name_value v = None"

fun to_name_values :: "jsval \<Rightarrow> (string \<times> string) list option" where
  "to_name_values (JArr cs) = those (map to_name_value cs)"
| "to_name_values v = None"

fun to_RawElement :: "jsval \<Rightarrow> RawElement option" where
  "to_RawElement (JObj ps) =
     Option.bind (field ps ''tag'' as_string) (\<lambda>t.
     Option.bind (field ps ''text'' as_string) (\<lambda>x.
     Option.bind (field ps ''attributes'' to_name_values) (\<lambda>a.
     Option.bind (field ps ''html'' as_string) (\<lambda>h.
       Some \<lparr>raw_tag = t, raw_text = x, raw_attributes = a, raw_html = h\<rparr>))))"
| "to_RawElement v = None"

fun to_RawElements :: "jsval \<Rightarrow> RawElement list option" where
  "to_RawElements (JArr xs) = those (map to_RawElement xs)"
| "to_RawElements v = None"

fun decode_reply :: "jsval \<Rightarrow> RawResult option" where
  "decode_reply (JObj ps) =
     Option.bind (field ps ''elements'' to_RawElements) (\<lambda>es.
     Option.bind (field ps ''count'' as_number) (\<lambda>c.
     Option.bind (field ps ''selectorUsed'' as_string) (\<lambda>u.
       Some \<lparr>raw_elements = es, raw_count = c, raw_selectorUsed = u\<rparr>)))"
| "decode_reply v = None"

definition spec_step :: "(string \<times> string) list \<Rightarrow> string \<times> string \<Rightarrow> (string \<times> string) list" where
  "spec_step acc nv = (if fst nv = ''__proto__'' then acc else define_prop (fst nv) (snd nv) acc)"

definition spec_attributes :: "(string \<times> string) list \<Rightarrow> (string \<times> string) list" where
  "spec_attributes nvs = foldl spec_step [] nvs"

definition spec_element :: "RawElement \<Rightarrow> ExtractedElement" where
  "spec_element e =
     \<lparr>el_tag = raw_tag e, el_text = raw_text e,
      el_attributes = spec_attributes (raw_attributes e), el_html = raw_html e\<rparr>"

definition spec_reshape :: "RawResult \<Rightarrow> string \<Rightarrow> ProcessingResult" where
  "spec_reshape r s =
     \<lparr>elements = map spec_element (raw_elements r),
      count = (if raw_count r \<noteq> 0 then raw_count r else int (length (raw_elements r))),
      selectorUsed = (if raw_selectorUsed r \<noteq> [] then raw_selectorUsed r else s),
      error = None\<rparr>"

text \<open>The encoding of one name and value pair, as the schema lays it out.\<close>

definition entry_of :: "string \<times> string \<Rightarrow> jsval" where
  "entry_of nv = JObj [(''name'', JStr (fst nv)), (''value'', JStr (snd nv))]"

text \<open>
  The replies on which the \<^verbatim>\<open>try\<close> block throws, said without running it.
\<close>

definition bad_entry :: "jsval \<Rightarrow> bool" where
  "bad_entry c \<longleftrightarrow>
     c = JUndefined \<or> c = JNull \<or> (\<exists>n. getProp c ''name'' = Inr n \<and> throws (toString n))"

definition bad_attributes :: "jsval \<Rightarrow> bool" where
  "bad_attributes a \<longleftrightarrow>
     truthy a \<and> (case a of JArr cs \<Rightarrow> \<exists>c \<in> set cs. bad_entry c | _ \<Rightarrow> True)"

definition bad_element :: "jsval \<Rightarrow> bool" where
  "bad_element el \<longleftrightarrow>
     el = JUndefined \<or> el = JNull \<or>
     (\<exists>a. getProp el ''attributes'' = Inr a \<and> bad_attributes a)"

definition bad_reply :: "jsval \<Rightarrow> bool" where
  "bad_reply rawResult \<longleftrightarrow>
     rawResult = JUndefined \<or> rawResult = JNull \<or>
     (\<exists>es. getProp rawResult ''elements'' = Inr es \<and> truthy es \<and>
        (case es of JArr xs \<Rightarrow> \<exists>x \<in> set xs. bad_element x | _ \<Rightarrow> True))"

lemmas [js_defs] =
  unlines_def selector_contents_def selector_schema_def selector_request_def
  fetch_contents_def fetch_request_def response_text_or_empty_def attr_step_def
  attributes_of_def map_element_def reshape_def processSelector_try_def error_result_def
  processSelector_def no_content_html_def fetch_error_html_def fetchUrlSimulated_def
  spec_step_def spec_attributes_def spec_element_def spec_reshape_def entry_of_def

section \<open>The two outcomes of \<open>processSelector\<close>\<close>

lemma to_ProcessingResult_error_result:
  "to_ProcessingResult (error_result s) =
     Some \<lparr>elements = [], count = 0, selectorUsed = s,
           error = Some ''Failed to process the selector with AI engine.''\<rparr>"
  by (simp add: error_result_def optional_field_def)

lemma processSelector_Inl [simp]:
  "processSelector_try gen parse h s = Inl e \<Longrightarrow> processSelector gen parse h s = error_result s"
  by (simp add: processSelector_def)

lemma processSelector_Inr [simp]:
  "processSelector_try gen parse h s = Inr r \<Longrightarrow> processSelector gen parse h s = r"
  by (simp add: processSelector_def)

end
