(* ===== verification/App.thy ===== *)
theory App
  imports GeminiService
begin

text \<open>
  src/App.tsx, lines 7 to 60 and the event handlers of its JSX: the component as a
  transition system.

  \<^bold>\<open>State.\<close> \<open>app\<close> pairs the React state (\<open>AppState\<close> of theory \<open>Types\<close>) with the
  requests that were sent and have not settled yet (\<open>in_flight\<close>). A request records
  what its handler read from the state when it started: \<^verbatim>\<open>state.url\<close> for
  \<^verbatim>\<open>handleFetch\<close>, \<^verbatim>\<open>state.html\<close> and \<^verbatim>\<open>state.selector\<close> for \<^verbatim>\<open>handleRunSelector\<close>.

  \<^bold>\<open>Handlers.\<close> An \<^verbatim>\<open>async\<close> handler runs in two steps, before and after its
  \<^verbatim>\<open>await\<close>:
  \<^item> \<open>handleFetch_start\<close> (lines 34 to 36, up to the call of line 38) and
    \<open>handleFetch_finish\<close> (lines 38 to 42);
  \<^item> \<open>handleRunSelector_start\<close> (lines 45 to 47, up to the call of line 49) and
    \<open>handleRunSelector_finish\<close> (lines 49 to 53);
  \<^item> \<open>settle\<close>: a request in flight settles with the reply of the model; the awaited
    function is \<open>fetchUrlSimulated\<close> or \<open>processSelector\<close> of theory \<open>GeminiService\<close>,
    run on that reply;
  \<^item> \<open>mounted\<close>: the state after the effect of lines 56 to 60 has run on
    \<open>initial_state\<close> (lines 8 to 32).

  \<^bold>\<open>Events.\<close> \<open>event\<close> lists what the JSX wires to the state: the three inputs
  (lines 98, 119, 158), the key handler of the locator input (line 120), the two
  buttons (lines 104 and 126, disabled while \<open>isLoading\<close>, lines 105 and 127), the two
  tabs (lines 142 and 148), and the settling of a request. \<open>enabled\<close> says when the
  page offers an event, \<open>handle\<close> what it does; \<open>run\<close> is the step relation over
  sequences of events and \<open>replay\<close> its executable form.

  \<^bold>\<open>Progress.\<close> \<open>drain\<close> lets the environment settle every request in flight; it is the
  schedule under which the component becomes idle again.

  Every render reads the state of the latest update: the handlers are recreated with
  each render (\<^verbatim>\<open>handleRunSelector\<close> whenever \<^verbatim>\<open>state.html\<close> or \<^verbatim>\<open>state.selector\<close>
  change, which are the only parts of the state it reads), so a handler always sees
  the state the event occurs in.
\<close>

section \<open>State\<close>

datatype request = FetchUrl string | RunSelector string string

record app =
  app_state :: AppState
  in_flight :: "request list"

fun join_lines :: "string list \<Rightarrow> string" where
  "join_lines [] = []"
| "join_lines [l] = l"
| "join_lines (l # m # ls) = l @ newline # join_lines (m # ls)"

definition initial_html :: string where
  \<open>initial_html = join_lines
    [''<!DOCTYPE html>'',
     ''<html>'',
     ''<head><title>Test Page</title></head>'',
     ''<body>'',
     ''  <div id="container" class="main-wrapper">'',
     ''    <h1 class="title">Welcome to Drission Playground</h1>'',
     ''    <p>This is a sample page to test your selectors.</p>'',
     ''    <ul class="items">'',
     ''      <li id="item-1">First Item</li>'',
     ''      <li id="item-2" class="active">Second Item (Active)</li>'',
     ''      <li id="item-3">Third Item</li>'',
     ''    </ul>'',
     ''    <button id="login-btn" class="btn btn-primary">Login Now</button>'',
     ''    <a href="/help" class="link">Get Help</a>'',
     ''  </div>'',
     ''  <footer>'' @ [CHR 0xA9] @ '' 2024 DrissionPage</footer>'',
     ''</body>'',
     ''</html>'']\<close>

definition initial_state :: AppState where
  "initial_state =
     \<lparr>url = ''https://example.com'',
      html = initial_html,
      selector = ''@id=container'',
      result = None,
      isLoading = False,
      activeTab = Source\<rparr>"

section \<open>The handlers\<close>

definition handleFetch_start :: "app \<Rightarrow> app" where
  "handleFetch_start a =
     (if url (app_state a) = [] then a
      else \<lparr>app_state = (app_state a)\<lparr>isLoading := True\<rparr>,
            in_flight = in_flight a @ [FetchUrl (url (app_state a))]\<rparr>)"

definition handleFetch_finish :: "string result \<Rightarrow> AppState \<Rightarrow> AppState" where
  "handleFetch_finish outcome prev =
     (case outcome of
        Inr fetchedHtml \<Rightarrow> prev\<lparr>html := fetchedHtml, isLoading := False\<rparr>
      | Inl e \<Rightarrow> prev\<lparr>isLoading := False\<rparr>)"

definition handleRunSelector_start :: "app \<Rightarrow> app" where
  "handleRunSelector_start a =
     (if selector (app_state a) = [] \<or> html (app_state a) = [] then a
      else \<lparr>app_state = (app_state a)\<lparr>isLoading := True\<rparr>,
            in_flight = in_flight a @ [RunSelector (html (app_state a)) (selector (app_state a))]\<rparr>)"

definition handleRunSelector_finish :: "jsval result \<Rightarrow> AppState \<Rightarrow> AppState" where
  "handleRunSelector_finish outcome prev =
     (case outcome of
        Inr r \<Rightarrow> prev\<lparr>result := Some r, isLoading := False\<rparr>
      | Inl e \<Rightarrow> prev\<lparr>isLoading := False\<rparr>)"

fun settle :: "json_parser \<Rightarrow> request \<Rightarrow> response result \<Rightarrow> AppState \<Rightarrow> AppState" where
  "settle parse (FetchUrl u) reply prev =
     handleFetch_finish (Inr (fetchUrlSimulated (\<lambda>q. reply) u)) prev"
| "settle parse (RunSelector h s) reply prev =
     handleRunSelector_finish (Inr (processSelector (\<lambda>q. reply) parse h s)) prev"

definition mounted :: app where
  "mounted = handleRunSelector_start \<lparr>app_state = initial_state, in_flight = []\<rparr>"

section \<open>Events\<close>

datatype event =
    ChangeUrl string
  | ChangeSelector string
  | KeyDown string
  | ClickFetch
  | ClickRun
  | SelectTab tab
  | ChangeHtml string
  | Settle nat "response result"

fun enabled :: "event \<Rightarrow> app \<Rightarrow> bool" where
  "enabled ClickFetch a = (\<not> isLoading (app_state a))"
| "enabled ClickRun a = (\<not> isLoading (app_state a))"
| "enabled (ChangeHtml v) a = (activeTab (app_state a) = Source)"
| "enabled (Settle i reply) a = (i < length (in_flight a))"
| "enabled ev a = True"

fun handle :: "json_parser \<Rightarrow> event \<Rightarrow> app \<Rightarrow> app" where
  "handle parse (ChangeUrl v) a = a\<lparr>app_state := (app_state a)\<lparr>url := v\<rparr>\<rparr>"
| "handle parse (ChangeSelector v) a = a\<lparr>app_state := (app_state a)\<lparr>selector := v\<rparr>\<rparr>"
| "handle parse (KeyDown key) a = (if key = ''Enter'' then handleRunSelector_start a else a)"
| "handle parse ClickFetch a = handleFetch_start a"
| "handle parse ClickRun a = handleRunSelector_start a"
| "handle parse (SelectTab t) a = a\<lparr>app_state := (app_state a)\<lparr>activeTab := t\<rparr>\<rparr>"
| "handle parse (ChangeHtml v) a = a\<lparr>app_state := (app_state a)\<lparr>html := v\<rparr>\<rparr>"
| "handle parse (Settle i reply) a =
     (if i < length (in_flight a)
      then \<lparr>app_state = settle parse (in_flight a ! i) reply (app_state a),
            in_flight = take i (in_flight a) @ drop (Suc i) (in_flight a)\<rparr>
      else a)"

inductive run :: "json_parser \<Rightarrow> app \<Rightarrow> event list \<Rightarrow> app \<Rightarrow> bool" for parse a where
  run_Nil: "run parse a [] a"
| run_snoc: "run parse a evs b \<Longrightarrow> enabled ev b \<Longrightarrow> run parse a (evs @ [ev]) (handle parse ev b)"

fun replay :: "json_parser \<Rightarrow> event list \<Rightarrow> app \<Rightarrow> app option" where
  "replay parse [] a = Some a"
| "replay parse (ev # evs) a =
     (if enabled ev a then replay parse evs (handle parse ev a) else None)"

text \<open>The number of times the key handler of line 120 started a request.\<close>

definition enter_presses :: "event list \<Rightarrow> nat" where
  "enter_presses evs = length (filter (\<lambda>ev. ev = KeyDown ''Enter'') evs)"

text \<open>A request was started by a handler whose guard (line 35 or 46) had passed.\<close>

fun guarded :: "request \<Rightarrow> bool" where
  "guarded (FetchUrl u) = (u \<noteq> [])"
| "guarded (RunSelector h s) = (h \<noteq> [] \<and> s \<noteq> [])"

text \<open>
  The environment settles the requests in flight, oldest first, with the replies a
  function \<open>reply\<close> assigns to them, until none is left. \<open>drain_events\<close> is the sequence of
  events this takes.
\<close>

function drain :: "json_parser \<Rightarrow> (request \<Rightarrow> response result) \<Rightarrow> app \<Rightarrow> app" where
  "drain parse reply a =
     (if in_flight a = [] then a
      else drain parse reply (handle parse (Settle 0 (reply (hd (in_flight a)))) a))"
  by pat_completeness auto

termination drain
  by (relation "measure (\<lambda>(parse, reply, a). length (in_flight a))") auto

declare drain.simps [simp del]

definition drain_events :: "(request \<Rightarrow> response result) \<Rightarrow> request list \<Rightarrow> event list" where
  "drain_events reply rs = map (\<lambda>r. Settle 0 (reply r)) rs"

text \<open>
  \<open>app_inv\<close>: the spinner is on only while a request is in flight, and every request
  in flight passed the guard of its handler.
\<close>

definition app_inv :: "app \<Rightarrow> bool" where
  "app_inv a \<longleftrightarrow>
     (isLoading (app_state a) \<longrightarrow> in_flight a \<noteq> []) \<and> list_all guarded (in_flight a)"

text \<open>
  \<open>result_of_request\<close>: the stored result is \<^verbatim>\<open>null\<close> or what \<open>processSelector\<close> returned
  for some reply and some non-empty HTML text and locator.
\<close>

definition result_of_request :: "json_parser \<Rightarrow> jsval option \<Rightarrow> bool" where
  "result_of_request parse r \<longleftrightarrow>
     r = None \<or> (\<exists>reply h s. h \<noteq> [] \<and> s \<noteq> [] \<and> r = Some (processSelector (\<lambda>q. reply) parse h s))"

lemmas [js_defs] =
  initial_html_def initial_state_def handleFetch_start_def handleFetch_finish_def
  handleRunSelector_start_def handleRunSelector_finish_def mounted_def enter_presses_def

lemmas handler_defs =
  handleFetch_start_def handleFetch_finish_def handleRunSelector_start_def
  handleRunSelector_finish_def

inductive_cases run_NilE [elim!]: "run parse a [] b"

inductive_cases run_snocE: "run parse a (evs @ [ev]) b"

section \<open>The step relation and its executable form\<close>

lemma replay_append:
  "replay parse (xs @ ys) a = Option.bind (replay parse xs a) (replay parse ys)"
  by (induction xs arbitrary: a) simp_all

lemma replay_snoc:
  "replay parse (evs @ [ev]) a = Some c \<longleftrightarrow>
     (\<exists>b. replay parse evs a = Some b \<and> enabled ev b \<and> c = handle parse ev b)"
  by (auto simp: replay_append bind_eq_Some_conv split: if_splits)

lemma run_iff_replay: "run parse a evs b \<longleftrightarrow> replay parse evs a = Some b"
proof
  show "run parse a evs b \<Longrightarrow> replay parse evs a = Some b"
    by (induction rule: run.induct) (simp_all add: replay_snoc)
  show "replay parse evs a = Some b \<Longrightarrow> run parse a evs b"
  proof (induction evs arbitrary: b rule: rev_induct)
    case Nil
    then show ?case by (simp add: run_Nil)
  next
    case (snoc ev evs)
    then show ?case by (auto simp: replay_snoc intro: run_snoc)
  qed
qed

lemma run_replayI:
  "replay parse evs a = Some b \<Longrightarrow> run parse a evs b"
  by (simp add: run_iff_replay)

lemma run_deterministic: "run parse a evs b \<Longrightarrow> run parse a evs c \<Longrightarrow> b = c"
  by (simp add: run_iff_replay)

lemma run_append:
  "run parse a (xs @ ys) c \<longleftrightarrow> (\<exists>b. run parse a xs b \<and> run parse b ys c)"
  by (auto simp: run_iff_replay replay_append bind_eq_Some_conv)

section \<open>What the handlers change\<close>

lemma mounted_eq:
  "mounted = \<lparr>app_state = initial_state\<lparr>isLoading := True\<rparr>,
              in_flight = [RunSelector initial_html ''@id=container'']\<rparr>"
  by (simp add: mounted_def handleRunSelector_start_def initial_state_def initial_html_def)

lemma isLoading_settle [simp]: "\<not> isLoading (settle parse req reply prev)"
  by (cases req) (simp_all add: handler_defs)

lemma settle_keeps_inputs [simp]:
  "url (settle parse req reply prev) = url prev"
  "selector (settle parse req reply prev) = selector prev"
  "activeTab (settle parse req reply prev) = activeTab prev"
  by (cases req; simp add: handler_defs)+

lemma length_in_flight_start:
  "length (in_flight (handleRunSelector_start a)) \<le> Suc (length (in_flight a))"
  "length (in_flight (handleFetch_start a)) \<le> Suc (length (in_flight a))"
  by (simp_all add: handler_defs)

lemma start_loading:
  "isLoading (app_state (handleRunSelector_start a)) \<longleftrightarrow>
     isLoading (app_state a) \<or> (selector (app_state a) \<noteq> [] \<and> html (app_state a) \<noteq> [])"
  "isLoading (app_state (handleFetch_start a)) \<longleftrightarrow>
     isLoading (app_state a) \<or> url (app_state a) \<noteq> []"
  by (auto simp: handler_defs)

lemma length_remove_nth:
  "i < length xs \<Longrightarrow> length (take i xs @ drop (Suc i) xs) = length xs - 1"
  by auto

lemma set_remove_nth: "set (take i xs @ drop (Suc i) xs) \<subseteq> set xs"
  by (auto dest: in_set_takeD in_set_dropD)

section \<open>The invariant of the component\<close>

lemma initial_html_nonempty [simp]: "initial_html \<noteq> []"
  by (simp add: initial_html_def)

lemma app_inv_mounted: "app_inv mounted"
  by (simp add: app_inv_def mounted_eq)

lemma app_inv_start:
  "app_inv a \<Longrightarrow> app_inv (handleRunSelector_start a)"
  "app_inv a \<Longrightarrow> app_inv (handleFetch_start a)"
  by (simp_all add: app_inv_def handler_defs)

lemma list_all_remove_nth: "list_all P xs \<Longrightarrow> list_all P (take i xs @ drop (Suc i) xs)"
  using set_remove_nth [of i xs] by (auto simp: list_all_iff)

lemma app_inv_handle: "app_inv a \<Longrightarrow> app_inv (handle parse ev a)"
proof (cases ev)
  case (Settle i reply)
  assume "app_inv a"
  with Settle show ?thesis
    using list_all_remove_nth [of guarded "in_flight a" i] by (simp add: app_inv_def)
qed (simp_all add: app_inv_start, simp_all add: app_inv_def)

lemma app_inv_run: "run parse a evs b \<Longrightarrow> app_inv a \<Longrightarrow> app_inv b"
  by (induction rule: run.induct) (simp_all add: app_inv_handle)

lemma app_inv_reachable: "run parse mounted evs a \<Longrightarrow> app_inv a"
  by (rule app_inv_run [OF _ app_inv_mounted])

section \<open>How many requests are in flight\<close>

lemma enter_presses_snoc:
  "enter_presses (evs @ [ev]) = enter_presses evs + (if ev = KeyDown ''Enter'' then 1 else 0)"
  by (simp add: enter_presses_def)

lemma in_flight_handle_le:
  assumes "enabled ev a"
    and "length (in_flight a) \<le> n + (if isLoading (app_state a) then 1 else 0)"
  shows "length (in_flight (handle parse ev a)) \<le>
    n + (if ev = KeyDown ''Enter'' then 1 else 0) +
      (if isLoading (app_state (handle parse ev a)) then 1 else 0)"
  using assms by (cases ev) (auto simp: handler_defs split: if_splits)

lemma in_flight_le:
  "run parse mounted evs a \<Longrightarrow>
   length (in_flight a) \<le> enter_presses evs + (if isLoading (app_state a) then 1 else 0)"
proof (induction rule: run.induct)
  case run_Nil
  show ?case by (simp add: mounted_eq)
next
  case (run_snoc evs b ev)
  from in_flight_handle_le [OF run_snoc.hyps(2) run_snoc.IH, of parse]
  show ?case by (simp add: enter_presses_snoc)
qed

section \<open>Where a stored result comes from\<close>

lemma result_settle:
  "guarded req \<Longrightarrow> result_of_request parse (result prev) \<Longrightarrow>
   result_of_request parse (result (settle parse req reply prev))"
  by (cases req) (auto simp: handler_defs result_of_request_def)

lemma result_handle:
  assumes "app_inv a" and "result_of_request parse (result (app_state a))"
  shows "result_of_request parse (result (app_state (handle parse ev a)))"
proof (cases ev)
  case (Settle i reply)
  show ?thesis
  proof (cases "i < length (in_flight a)")
    case True
    with assms(1) have "guarded (in_flight a ! i)" by (simp add: app_inv_def list_all_length)
    with True assms(2) Settle show ?thesis by (simp add: result_settle)
  next
    case False
    with assms(2) Settle show ?thesis by simp
  qed
qed (use assms(2) in \<open>simp_all add: handler_defs\<close>)

lemma result_reachable:
  "run parse mounted evs a \<Longrightarrow> result_of_request parse (result (app_state a))"
proof (induction rule: run.induct)
  case run_Nil
  show ?case by (simp add: mounted_eq result_of_request_def initial_state_def)
next
  case (run_snoc evs b ev)
  from run_snoc.hyps(1) have "app_inv b" by (rule app_inv_reachable)
  then show ?case using run_snoc.IH by (rule result_handle)
qed

lemma html_settle_fetch [simp]:
  "html (settle parse (FetchUrl u) reply prev) = fetchUrlSimulated (\<lambda>q. reply) u"
  by (simp add: handler_defs)

section \<open>Settling every request\<close>

lemma run_Cons:
  "run parse a (ev # evs) c \<longleftrightarrow> enabled ev a \<and> run parse (handle parse ev a) evs c"
  by (simp add: run_iff_replay)

lemma in_flight_settle_first:
  "in_flight a \<noteq> [] \<Longrightarrow> in_flight (handle parse (Settle 0 reply) a) = tl (in_flight a)"
  by (cases "in_flight a") simp_all

lemma drain_idle [simp]: "in_flight a = [] \<Longrightarrow> drain parse reply a = a"
  by (subst drain.simps) simp

lemma drain_step:
  "in_flight a \<noteq> [] \<Longrightarrow>
   drain parse reply a = drain parse reply (handle parse (Settle 0 (reply (hd (in_flight a)))) a)"
  by (subst drain.simps) simp

lemma in_flight_drain [simp]: "in_flight (drain parse reply a) = []"
proof (induction parse reply a rule: drain.induct)
  case (1 parse reply a)
  then show ?case by (cases "in_flight a = []") (simp_all add: drain_step)
qed

lemma app_inv_drain: "app_inv a \<Longrightarrow> app_inv (drain parse reply a)"
proof (induction parse reply a rule: drain.induct)
  case (1 parse reply a)
  show ?case
  proof (cases "in_flight a = []")
    case True
    with "1.prems" show ?thesis by simp
  next
    case False
    from "1.prems" have "app_inv (handle parse (Settle 0 (reply (hd (in_flight a)))) a)"
      by (rule app_inv_handle)
    with False "1.IH" show ?thesis by (simp add: drain_step)
  qed
qed

lemma run_drain: "run parse a (drain_events reply (in_flight a)) (drain parse reply a)"
proof (induction parse reply a rule: drain.induct)
  case (1 parse reply a)
  show ?case
  proof (cases "in_flight a")
    case Nil
    then show ?thesis by (simp add: drain_events_def run_Nil)
  next
    case (Cons r rs)
    then have ne: "in_flight a \<noteq> []" by simp
    from Cons have "in_flight (handle parse (Settle 0 (reply r)) a) = rs" by simp
    with "1.IH" [OF ne] Cons
    have "run parse (handle parse (Settle 0 (reply r)) a) (drain_events reply rs)
        (drain parse reply (handle parse (Settle 0 (reply r)) a))"
      by simp
    with Cons show ?thesis
      by (simp add: drain_events_def run_Cons drain_step [OF ne])
  qed
qed

lemma drain_foldl:
  "drain parse reply a =
     foldl (\<lambda>b r. handle parse (Settle 0 (reply r)) b) a (in_flight a)"
proof (induction parse reply a rule: drain.induct)
  case (1 parse reply a)
  show ?case
  proof (cases "in_flight a")
    case Nil
    then show ?thesis by simp
  next
    case (Cons r rs)
    then have ne: "in_flight a \<noteq> []" by simp
    from Cons have "in_flight (handle parse (Settle 0 (reply r)) a) = rs" by simp
    with "1.IH" [OF ne] Cons show ?thesis by (simp add: drain_step [OF ne])
  qed
qed

section \<open>What a settled request changes\<close>

lemma result_settle_fetch:
  "result (settle parse (FetchUrl u) reply prev) = result prev"
  by (simp add: handleFetch_finish_def)

lemma html_settle_run:
  "html (settle parse (RunSelector h s) reply prev) = html prev"
  by (simp add: handleRunSelector_finish_def)

end
