(* ===== verification/Reply_Errors.thy ===== *)
theory Reply_Errors
  imports GeminiService
begin

text \<open>
  When the \<^verbatim>\<open>try\<close> block of \<^verbatim>\<open>processSelector\<close> throws. Each function of the block is
  given the exact set of arguments on which it throws, from the reducer outwards:
  \<open>throws_attr_step\<close>, \<open>throws_attributes_of\<close>, \<open>throws_map_element\<close>, \<open>throws_reshape\<close>,
  \<open>throws_processSelector_try\<close>. The predicates \<open>bad_entry\<close>, \<open>bad_attributes\<close>,
  \<open>bad_element\<close> and \<open>bad_reply\<close> of theory \<open>GeminiService\<close> describe these sets by the
  shape of the reply alone. The last lemmas separate the object of the \<^verbatim>\<open>catch\<close> from
  every object the \<^verbatim>\<open>try\<close> can return.
\<close>

section \<open>The reducer\<close>

lemma attr_step_object:
  "attr_step acc (JObj ps) =
     bind_result (toString (case map_of ps ''name'' of Some n \<Rightarrow> n | None \<Rightarrow> JUndefined))
       (\<lambda>k. Inr (js_set acc k (case map_of ps ''value'' of Some v \<Rightarrow> v | None \<Rightarrow> JUndefined)))"
  by (simp add: attr_step_def)

lemma attr_step_primitive:
  "attr_step acc (JBool b) = Inr (js_set acc ''undefined'' JUndefined)"
  "attr_step acc (JNum n) = Inr (js_set acc ''undefined'' JUndefined)"
  "attr_step acc (JStr t) = Inr (js_set acc ''undefined'' JUndefined)"
  "attr_step acc (JArr xs) = Inr (js_set acc ''undefined'' JUndefined)"
  by (simp_all add: attr_step_def)

lemma throws_attr_step: "throws (attr_step acc c) \<longleftrightarrow> bad_entry c"
  by (cases c) (auto simp: attr_step_def bad_entry_def throws_bind_result)

lemma throws_fold_attr_step:
  "throws (fold_result attr_step acc cs) \<longleftrightarrow> (\<exists>c \<in> set cs. bad_entry c)"
proof
  assume "\<exists>c \<in> set cs. bad_entry c"
  then obtain c where "c \<in> set cs" and "\<And>acc. throws (attr_step acc c)"
    by (auto simp: throws_attr_step)
  then show "throws (fold_result attr_step acc cs)"
    by (rule throws_fold_result_step)
next
  assume t: "throws (fold_result attr_step acc cs)"
  show "\<exists>c \<in> set cs. bad_entry c"
  proof (rule ccontr)
    assume "\<not> (\<exists>c \<in> set cs. bad_entry c)"
    then have "\<And>acc c. c \<in> set cs \<Longrightarrow> \<not> throws (attr_step acc c)"
      by (simp add: throws_attr_step)
    then have "\<not> throws (fold_result attr_step acc cs)"
      by (rule fold_result_total)
    with t show False by contradiction
  qed
qed

section \<open>Attributes, elements, the reply\<close>

lemma attributes_of_falsy [simp]: "\<not> truthy a \<Longrightarrow> attributes_of a = Inr (JObj [])"
  by (simp add: attributes_of_def empty_object_def)

lemma attributes_of_JArr:
  "attributes_of (JArr cs) =
     bind_result (fold_result attr_step empty_object cs) (\<lambda>acc. Inr (JObj (own_props acc)))"
  by (simp add: attributes_of_def)

lemma throws_attributes_of: "throws (attributes_of a) \<longleftrightarrow> bad_attributes a"
proof (cases "truthy a")
  case False
  then show ?thesis by (simp add: bad_attributes_def)
next
  case True
  then show ?thesis
    by (cases a)
      (simp_all add: attributes_of_def bad_attributes_def throws_bind_result throws_fold_attr_step
        not_throws_iff [symmetric])
qed

lemma bad_attributes_falsy [simp]: "\<not> truthy a \<Longrightarrow> \<not> bad_attributes a"
  by (simp add: bad_attributes_def)

lemma throws_map_element: "throws (map_element el) \<longleftrightarrow> bad_element el"
  by (cases el)
    (auto simp: map_element_def bad_element_def throws_bind_result throws_attributes_of)

lemma throws_reshape: "throws (reshape rawResult s) \<longleftrightarrow> bad_reply rawResult"
proof (cases "rawResult = JUndefined \<or> rawResult = JNull")
  case True
  then show ?thesis by (auto simp: reshape_def bad_reply_def)
next
  case False
  then obtain es where es: "getProp rawResult ''elements'' = Inr es"
    by (cases rawResult) auto
  from False have rest: "\<And>k. \<not> throws (getProp rawResult k)" by simp
  show ?thesis
  proof (cases "truthy es")
    case nt: False
    with es False rest show ?thesis
      by (auto simp: reshape_def bad_reply_def throws_bind_result not_throws_iff)
  next
    case t: True
    show ?thesis
    proof (cases es)
      case (JArr xs)
      with es False rest t show ?thesis
        by (auto simp: reshape_def bad_reply_def throws_bind_result throws_map_result
            throws_map_element not_throws_iff)
    qed (use es False t in \<open>auto simp: reshape_def bad_reply_def\<close>)
  qed
qed

lemma throws_processSelector_try:
  "throws (processSelector_try gen parse h s) \<longleftrightarrow>
     throws (gen (selector_request h s)) \<or>
     (\<exists>r. gen (selector_request h s) = Inr r \<and>
        (throws (parse (response_text_or_empty r)) \<or>
         (\<exists>rawResult. parse (response_text_or_empty r) = Inr rawResult \<and> bad_reply rawResult)))"
  by (auto simp: processSelector_try_def throws_bind_result throws_reshape)

section \<open>The object of the \<open>catch\<close> is no object of the \<open>try\<close>\<close>

lemma reshape_eq_Inr_iff:
  "reshape rawResult s = Inr v \<longleftrightarrow>
     (\<exists>es xs els c u.
        getProp rawResult ''elements'' = Inr es \<and> js_or es (JArr []) = JArr xs \<and>
        map_result map_element xs = Inr els \<and>
        getProp rawResult ''count'' = Inr c \<and> getProp rawResult ''selectorUsed'' = Inr u \<and>
        v = JObj [(''elements'', JArr els), (''count'', js_or c (JNum (int (length els)))),
                  (''selectorUsed'', js_or u (JStr s))])"
  by (auto simp: reshape_def bind_result_eq_Inr_iff case_JArr_eq_Inr_iff)

lemma reshape_keys:
  "reshape rawResult s = Inr v \<Longrightarrow>
     \<exists>els c u. v = JObj [(''elements'', JArr els), (''count'', c), (''selectorUsed'', u)]"
  by (auto simp: reshape_eq_Inr_iff)

lemma reshape_not_error_result: "reshape rawResult s \<noteq> Inr (error_result t)"
  by (auto simp: error_result_def dest: reshape_keys)

lemma processSelector_try_not_error_result:
  "processSelector_try gen parse h s \<noteq> Inr (error_result t)"
  by (auto simp: processSelector_try_def bind_result_eq_Inr_iff reshape_not_error_result)

lemma processSelector_eq_error_result_iff:
  "processSelector gen parse h s = error_result s \<longleftrightarrow> throws (processSelector_try gen parse h s)"
  using processSelector_try_not_error_result [of gen parse h s s]
  by (cases "processSelector_try gen parse h s") auto

lemma processSelector_rejected [simp]:
  "processSelector (\<lambda>q. Inl e) parse h s = error_result s"
  by (simp add: processSelector_def processSelector_try_def)

lemma is_ProcessingResult_error_result [simp]: "is_ProcessingResult (error_result s)"
  by (simp add: is_ProcessingResult_def to_ProcessingResult_error_result)

lemma processSelector_throws:
  "throws (processSelector_try gen parse h s) \<Longrightarrow> processSelector gen parse h s = error_result s"
  by (simp add: processSelector_eq_error_result_iff)

end
