(* ===== verification/Reshape_Refinement.thy ===== *)
theory Reshape_Refinement
  imports Reply_Errors
begin

text \<open>
  \<open>reshape\<close> refines \<open>spec_reshape\<close>: on a reply that decodes as typed data
  (\<open>decode_reply\<close>), lines 76 to 88 of geminiService.ts return an object that decodes
  (\<open>to_ProcessingResult\<close>) to what the typed specification computes. The proof follows
  the code outwards:
  \<^item> the reducer on a name and value pair is \<open>js_set\<close> with a string value
    (\<open>attr_step_typed\<close>), and the accumulators that arise hold strings only and keep
    their prototype (\<open>typed_acc\<close>, \<open>js_set_typed\<close>);
  \<^item> \<open>attributes_of\<close> on an array of pairs is \<open>spec_attributes\<close> (\<open>attributes_of_typed\<close>);
  \<^item> \<open>map_element\<close> replaces \<^verbatim>\<open>attributes\<close> in place and keeps every other property
    (\<open>map_element_typed\<close>, \<open>map_element_refines\<close>);
  \<^item> \<open>reshape\<close> maps the elements and chooses count and locator (\<open>reshape_refines\<close>).
  The second half states what \<open>spec_attributes\<close> is: its lookups, its order, and the
  round trip from a record to the array of its entries and back.
\<close>

definition typed_acc :: "(string \<times> string) list \<Rightarrow> plain_object" where
  "typed_acc t = \<lparr>own_props = map (\<lambda>(k, v). (k, JStr v)) t, null_proto = False\<rparr>"

section \<open>Attributes\<close>

lemma to_name_value_eq_Some_iff:
  "to_name_value c = Some nv \<longleftrightarrow>
     (\<exists>ps. c = JObj ps \<and> map_of ps ''name'' = Some (JStr (fst nv)) \<and>
        map_of ps ''value'' = Some (JStr (snd nv)))"
  by (cases c; cases nv) (auto simp: bind_eq_Some_conv field_eq_Some_iff)

lemma attr_step_typed:
  "to_name_value c = Some nv \<Longrightarrow> attr_step acc c = Inr (js_set acc (fst nv) (JStr (snd nv)))"
  by (auto simp: to_name_value_eq_Some_iff attr_step_def)

lemma js_set_typed: "js_set (typed_acc t) n (JStr v) = typed_acc (spec_step t (n, v))"
  by (simp add: js_set_def typed_acc_def spec_step_def define_prop_map_values)

lemma fold_attr_step_typed:
  "those (map to_name_value cs) = Some nvs \<Longrightarrow>
   fold_result attr_step (typed_acc t) cs = Inr (typed_acc (foldl spec_step t nvs))"
proof (induction cs arbitrary: t nvs)
  case Nil
  then show ?case by simp
next
  case (Cons c cs)
  from Cons.prems obtain nv rest where nv: "to_name_value c = Some nv"
    and rest: "those (map to_name_value cs) = Some rest" and nvs: "nvs = nv # rest"
    by (auto split: option.splits)
  from rest have "fold_result attr_step (typed_acc (spec_step t nv)) cs =
      Inr (typed_acc (foldl spec_step (spec_step t nv) rest))"
    by (rule Cons.IH)
  with nv nvs show ?case
    by (cases nv) (simp add: attr_step_typed js_set_typed)
qed

lemma attributes_of_typed:
  assumes "to_name_values a = Some nvs"
  shows "attributes_of a = Inr (of_Record (spec_attributes nvs))"
proof -
  from assms obtain cs where a: "a = JArr cs" and cs: "those (map to_name_value cs) = Some nvs"
    by (cases a) auto
  have "empty_object = typed_acc []"
    by (simp add: empty_object_def typed_acc_def)
  with fold_attr_step_typed [OF cs, of "[]"] a show ?thesis
    by (simp add: attributes_of_JArr spec_attributes_def of_Record_def typed_acc_def)
qed

section \<open>Elements\<close>

lemma map_element_typed:
  assumes "wf_props ps" and "to_RawElement (JObj ps) = Some e"
  shows "map_element (JObj ps) =
    Inr (JObj (AList.update ''attributes'' (of_Record (spec_attributes (raw_attributes e))) ps))"
proof -
  from assms(2) obtain a where a: "map_of ps ''attributes'' = Some a"
    and nvs: "to_name_values a = Some (raw_attributes e)"
    by (auto simp: bind_eq_Some_conv field_eq_Some_iff)
  from a have "''attributes'' \<in> fst ` set ps"
    by (metis map_of_eq_None_iff option.distinct(1))
  then have "define_prop ''attributes'' v ps = AList.update ''attributes'' v ps" for v
    by (simp add: define_prop_def)
  with assms(1) a attributes_of_typed [OF nvs] show ?thesis
    by (simp add: map_element_def)
qed

lemma to_ExtractedElement_update_attributes:
  assumes "to_RawElement (JObj ps) = Some e"
  shows "to_ExtractedElement (JObj (AList.update ''attributes'' (of_Record r) ps)) =
    Some \<lparr>el_tag = raw_tag e, el_text = raw_text e, el_attributes = r, el_html = raw_html e\<rparr>"
  using assms
  by (auto simp: bind_eq_Some_conv field_update field_eq_Some_iff)

lemma map_element_refines:
  assumes "wf_json el" and "to_RawElement el = Some e"
  shows "\<exists>v. map_element el = Inr v \<and> to_ExtractedElement v = Some (spec_element e)"
proof -
  from assms(2) obtain ps where el: "el = JObj ps" by (cases el) auto
  with assms have wf: "wf_props ps" and raw: "to_RawElement (JObj ps) = Some e" by simp_all
  from wf raw have "map_element (JObj ps) =
      Inr (JObj (AList.update ''attributes'' (of_Record (spec_attributes (raw_attributes e))) ps))"
    by (rule map_element_typed)
  moreover from raw have "to_ExtractedElement
      (JObj (AList.update ''attributes'' (of_Record (spec_attributes (raw_attributes e))) ps)) =
      Some (spec_element e)"
    unfolding spec_element_def by (rule to_ExtractedElement_update_attributes)
  ultimately show ?thesis using el by blast
qed

lemma map_elements_refine:
  assumes "list_all wf_json xs" and "those (map to_RawElement xs) = Some es"
  shows "\<exists>vs. map_result map_element xs = Inr vs \<and>
    those (map to_ExtractedElement vs) = Some (map spec_element es)"
  using assms
proof (induction xs arbitrary: es)
  case Nil
  then show ?case by simp
next
  case (Cons x xs)
  from Cons.prems(2) obtain e rest where e: "to_RawElement x = Some e"
    and rest: "those (map to_RawElement xs) = Some rest" and es: "es = e # rest"
    by (auto split: option.splits)
  from Cons.prems(1) e obtain v where v: "map_element x = Inr v"
    "to_ExtractedElement v = Some (spec_element e)"
    using map_element_refines by auto
  from Cons.prems(1) rest obtain vs where vs: "map_result map_element xs = Inr vs"
    "those (map to_ExtractedElement vs) = Some (map spec_element rest)"
    using Cons.IH by auto
  from v vs es show ?case by simp
qed

section \<open>The reply\<close>

lemma reshape_refines:
  assumes "wf_json rawResult" and "decode_reply rawResult = Some r"
  shows "\<exists>v. reshape rawResult s = Inr v \<and> to_ProcessingResult v = Some (spec_reshape r s)"
proof -
  from assms(2) obtain ps where raw: "rawResult = JObj ps" by (cases rawResult) auto
  with assms(2) obtain xs where
    els: "map_of ps ''elements'' = Some (JArr xs)" "those (map to_RawElement xs) = Some (raw_elements r)"
    and c: "map_of ps ''count'' = Some (JNum (raw_count r))"
    and u: "map_of ps ''selectorUsed'' = Some (JStr (raw_selectorUsed r))"
    by (auto simp: bind_eq_Some_conv field_eq_Some_iff elim: to_RawElements.elims)
  from assms(1) raw els(1) have "wf_json (JArr xs)" by (blast intro: wf_json_map_of)
  then have "list_all wf_json xs" by simp
  with els(2) obtain vs where vs: "map_result map_element xs = Inr vs"
    "those (map to_ExtractedElement vs) = Some (map spec_element (raw_elements r))"
    using map_elements_refine by blast
  from vs(1) have len: "length vs = length xs" by (rule map_result_length)
  from els(2) have "length (raw_elements r) = length xs" by (auto dest: those_length)
  with raw els c u vs len show ?thesis
    by (simp add: reshape_def spec_reshape_def js_or_def)
qed

lemma processSelector_try_refines:
  assumes "wf_json rawResult" and "decode_reply rawResult = Some r"
    and "gen (selector_request h s) = Inr resp"
    and "parse (response_text_or_empty resp) = Inr rawResult"
  shows "\<exists>v. processSelector_try gen parse h s = Inr v \<and>
    to_ProcessingResult v = Some (spec_reshape r s)"
  using reshape_refines [OF assms(1,2), of s] assms(3,4)
  by (simp add: processSelector_try_def)

lemma json_parse_contract_wf: "json_parse_contract parse \<Longrightarrow> parse t = Inr v \<Longrightarrow> wf_json v"
  by (auto simp: json_parse_contract_def)

lemma processSelector_decoded:
  assumes "json_parse_contract parse"
    and "gen (selector_request h s) = Inr resp"
    and "parse (response_text_or_empty resp) = Inr rawResult"
    and "decode_reply rawResult = Some r"
  shows "to_ProcessingResult (processSelector gen parse h s) = Some (spec_reshape r s)"
proof -
  from assms(1,3) have "wf_json rawResult" by (rule json_parse_contract_wf)
  from processSelector_try_refines
    [where gen = gen and parse = parse and h = h and s = s, OF this assms(4,2,3)]
  show ?thesis by auto
qed

section \<open>A conforming reply decodes\<close>

lemma conforms_name_value:
  assumes "conforms (TypeOBJECT [(''name'', TypeSTRING), (''value'', TypeSTRING)] [''name'', ''value'']) c"
  shows "\<exists>nv. to_name_value c = Some nv"
proof -
  from assms obtain ps where ps: "c = JObj ps" by (auto simp: conforms_OBJECT_iff)
  from assms ps obtain n v where "map_of ps ''name'' = Some (JStr n)" "map_of ps ''value'' = Some (JStr v)"
    using conforms_required_present [of _ _ ps "''name''" TypeSTRING]
      conforms_required_present [of _ _ ps "''value''" TypeSTRING]
    by fastforce
  with ps show ?thesis by (simp add: to_name_value_eq_Some_iff)
qed

lemma those_map_total: "(\<And>x. x \<in> set xs \<Longrightarrow> \<exists>y. f x = Some y) \<Longrightarrow> \<exists>ys. those (map f xs) = Some ys"
proof (induction xs)
  case Nil
  show ?case by simp
next
  case (Cons x xs)
  then obtain y ys where "f x = Some y" "those (map f xs) = Some ys"
    by (metis list.set_intros)
  then show ?case by simp
qed

lemma conforms_name_values:
  assumes "conforms (TypeARRAY (TypeOBJECT [(''name'', TypeSTRING), (''value'', TypeSTRING)]
      [''name'', ''value''])) a"
  shows "\<exists>nvs. to_name_values a = Some nvs"
proof -
  from assms obtain cs where a: "a = JArr cs"
    and all: "\<forall>c \<in> set cs. conforms (TypeOBJECT [(''name'', TypeSTRING), (''value'', TypeSTRING)]
      [''name'', ''value'']) c"
    by (auto simp: conforms_ARRAY_iff)
  have "\<exists>nvs. those (map to_name_value cs) = Some nvs"
    by (rule those_map_total) (use all in \<open>blast intro: conforms_name_value\<close>)
  with a show ?thesis by simp
qed

lemma conforms_RawElement:
  assumes "conforms (TypeOBJECT
      [(''tag'', TypeSTRING), (''text'', TypeSTRING),
       (''attributes'', TypeARRAY (TypeOBJECT [(''name'', TypeSTRING), (''value'', TypeSTRING)]
          [''name'', ''value''])),
       (''html'', TypeSTRING)]
      [''tag'', ''text'', ''attributes'', ''html'']) x"
  shows "\<exists>e. to_RawElement x = Some e"
proof -
  from assms obtain ps where ps: "x = JObj ps" by (auto simp: conforms_OBJECT_iff)
  note req = conforms_required_present [OF assms [unfolded ps]]
  from req [of "''tag''" TypeSTRING] obtain t where t: "map_of ps ''tag'' = Some (JStr t)"
    by auto
  from req [of "''text''" TypeSTRING] obtain y where y: "map_of ps ''text'' = Some (JStr y)"
    by auto
  from req [of "''html''" TypeSTRING] obtain h where h: "map_of ps ''html'' = Some (JStr h)"
    by auto
  from req [of "''attributes''"] obtain a nvs where a: "map_of ps ''attributes'' = Some a"
    and nvs: "to_name_values a = Some nvs"
    using conforms_name_values by fastforce
  from ps t y h a nvs show ?thesis by simp
qed

lemma conforms_decode_reply:
  assumes "conforms selector_schema rawResult"
  shows "\<exists>r. decode_reply rawResult = Some r"
proof -
  from assms obtain ps where ps: "rawResult = JObj ps"
    by (auto simp: selector_schema_def conforms_OBJECT_iff)
  note req = conforms_required_present [OF assms [unfolded ps selector_schema_def]]
  from req [of "''count''" TypeNUMBER] obtain n where n: "map_of ps ''count'' = Some (JNum n)"
    by auto
  from req [of "''selectorUsed''" TypeSTRING] obtain u
    where u: "map_of ps ''selectorUsed'' = Some (JStr u)"
    by auto
  from req [of "''elements''"] obtain xs where xs: "map_of ps ''elements'' = Some (JArr xs)"
    and all: "\<forall>x \<in> set xs. \<exists>e. to_RawElement x = Some e"
    by (fastforce simp: conforms_ARRAY_iff intro: conforms_RawElement)
  from all have "\<exists>es. those (map to_RawElement xs) = Some es"
    by (intro those_map_total) blast
  with ps n u xs show ?thesis by auto
qed

section \<open>What \<open>spec_attributes\<close> is\<close>

lemma map_of_foldl_spec_step:
  "map_of (foldl spec_step acc nvs) k =
     (if k = ''__proto__'' then map_of acc k
      else case map_of (rev nvs) k of Some v \<Rightarrow> Some v | None \<Rightarrow> map_of acc k)"
  by (induction nvs rule: rev_induct) (auto simp: spec_step_def)

lemma map_of_spec_attributes:
  "map_of (spec_attributes nvs) k = (if k = ''__proto__'' then None else map_of (rev nvs) k)"
  by (simp add: spec_attributes_def map_of_foldl_spec_step split: option.splits)

lemma wf_props_foldl_spec_step: "wf_props acc \<Longrightarrow> wf_props (foldl spec_step acc nvs)"
  by (induction nvs arbitrary: acc) (simp_all add: spec_step_def wf_props_define_prop)

lemma wf_props_spec_attributes [simp]: "wf_props (spec_attributes nvs)"
  by (simp add: spec_attributes_def wf_props_foldl_spec_step)

lemma keys_spec_attributes:
  "fst ` set (spec_attributes nvs) = fst ` set nvs - {''__proto__''}"
proof -
  have "fst ` set (foldl spec_step acc nvs) = fst ` set acc \<union> (fst ` set nvs - {''__proto__''})"
    for acc
    by (induction nvs arbitrary: acc) (auto simp: spec_step_def)
  then show ?thesis by (simp add: spec_attributes_def)
qed

lemma foldl_spec_step_wf:
  "wf_props (acc @ ps) \<Longrightarrow> ''__proto__'' \<notin> fst ` set ps \<Longrightarrow> foldl spec_step acc ps = acc @ ps"
proof (induction ps arbitrary: acc)
  case Nil
  show ?case by simp
next
  case (Cons p ps)
  from Cons.prems have wf: "wf_props ((acc @ [p]) @ ps)" and np: "''__proto__'' \<notin> fst ` set ps"
    and p: "fst p \<noteq> ''__proto__''"
    by auto
  from wf have "wf_props (acc @ [(fst p, snd p)])" by (simp add: wf_props_prefix)
  then have "spec_step acc p = acc @ [p]"
    using p by (simp add: spec_step_def define_prop_snoc)
  with Cons.IH [OF wf np] show ?case by simp
qed

lemma spec_attributes_roundtrip:
  "wf_props ps \<Longrightarrow> ''__proto__'' \<notin> fst ` set ps \<Longrightarrow> spec_attributes ps = ps"
  by (simp add: spec_attributes_def foldl_spec_step_wf)

lemma spec_attributes_idem: "spec_attributes (spec_attributes nvs) = spec_attributes nvs"
  by (rule spec_attributes_roundtrip) (simp_all add: keys_spec_attributes)

lemma to_name_value_entry_of [simp]: "to_name_value (entry_of nv) = Some nv"
  by (simp add: entry_of_def)

lemma to_name_values_entries [simp]: "to_name_values (JArr (map entry_of nvs)) = Some nvs"
  by (simp add: those_eq_Some_iff comp_def)

lemma attributes_of_entries:
  "attributes_of (JArr (map entry_of nvs)) = Inr (of_Record (spec_attributes nvs))"
  by (rule attributes_of_typed) (rule to_name_values_entries)

section \<open>Replies within the schema\<close>

lemma processSelector_conforming:
  assumes "json_parse_contract parse"
    and "gen (selector_request h s) = Inr resp"
    and "parse (response_text_or_empty resp) = Inr rawResult"
    and "conforms selector_schema rawResult"
  shows "is_ProcessingResult (processSelector gen parse h s)"
proof -
  from assms(4) obtain r where "decode_reply rawResult = Some r"
    using conforms_decode_reply by blast
  with assms(1-3) have "to_ProcessingResult (processSelector gen parse h s) =
      Some (spec_reshape r s)"
    by (rule processSelector_decoded)
  then show ?thesis by (simp add: is_ProcessingResult_def)
qed

end
