(* ===== verification/App_Service.thy ===== *)
theory App_Service
  imports App Reshape_Refinement
begin

text \<open>
  Where src/App.tsx meets src/geminiService.ts: what the component stores when the
  replies of the model stay within the response schema.

  \<open>schema_reply\<close> names the outcomes of a request that the schema allows for: the call
  rejects, or the text of the response does not parse, or it parses to a value that
  conforms to \<open>selector_schema\<close>. \<open>schema_event\<close> lifts this to events. Under the
  contract of the parser every such outcome makes \<open>processSelector\<close> return a
  \<^verbatim>\<open>ProcessingResult\<close> (\<open>processSelector_schema_reply\<close>), so the result the component
  stores is one (\<open>typed_result\<close>, preserved by \<open>handle\<close>).
\<close>

definition schema_reply :: "json_parser \<Rightarrow> response result \<Rightarrow> bool" where
  "schema_reply parse reply =
     (case reply of
        Inl e \<Rightarrow> True
      | Inr resp \<Rightarrow>
          (case parse (response_text_or_empty resp) of
             Inl e \<Rightarrow> True
           | Inr rawResult \<Rightarrow> conforms selector_schema rawResult))"

fun schema_event :: "json_parser \<Rightarrow> event \<Rightarrow> bool" where
  "schema_event parse (Settle i reply) = schema_reply parse reply"
| "schema_event parse ev = True"

definition typed_result :: "AppState \<Rightarrow> bool" where
  "typed_result st = (case result st of None \<Rightarrow> True | Some r \<Rightarrow> is_ProcessingResult r)"

lemma processSelector_schema_reply:
  assumes "json_parse_contract parse" and "schema_reply parse reply"
  shows "is_ProcessingResult (processSelector (\<lambda>q. reply) parse h s)"
proof (cases reply)
  case (Inl e)
  then show ?thesis by simp
next
  case (Inr resp)
  show ?thesis
  proof (cases "parse (response_text_or_empty resp)")
    case (Inl e)
    with Inr have "throws (processSelector_try (\<lambda>q. reply) parse h s)"
      by (simp add: processSelector_try_def)
    then show ?thesis by (simp add: processSelector_throws)
  next
    case inner: (Inr rawResult)
    with assms(2) Inr have "conforms selector_schema rawResult"
      by (simp add: schema_reply_def)
    with assms(1) Inr inner show ?thesis
      by (intro processSelector_conforming [where gen = "\<lambda>q. reply" and parse = parse]) simp_all
  qed
qed

lemma typed_result_settle:
  assumes "json_parse_contract parse" and "schema_reply parse reply" and "typed_result prev"
  shows "typed_result (settle parse req reply prev)"
  using assms
  by (cases req) (simp_all add: typed_result_def handler_defs processSelector_schema_reply)

lemma typed_result_handle:
  assumes "json_parse_contract parse" and "schema_event parse ev"
    and "typed_result (app_state a)"
  shows "typed_result (app_state (handle parse ev a))"
proof (cases ev)
  case (Settle i reply)
  with assms show ?thesis by (simp add: typed_result_settle)
qed (use assms(3) in \<open>simp_all add: handler_defs typed_result_def\<close>)

lemma typed_result_run:
  assumes "json_parse_contract parse"
  shows "run parse a evs b \<Longrightarrow> list_all (schema_event parse) evs \<Longrightarrow>
    typed_result (app_state a) \<Longrightarrow> typed_result (app_state b)"
  by (induction rule: run.induct) (simp_all add: typed_result_handle [OF assms])

lemma typed_result_mounted [simp]: "typed_result (app_state mounted)"
  by (simp add: mounted_eq typed_result_def initial_state_def)

end
