(* ===== verification/App_View.thy ===== *)
theory App_View
  imports App_Service
begin

text \<open>
  src/App.tsx, lines 62 to 246: what the component shows.

  Rendering has two phases, and each can fail on its own:
  \<^item> \<open>evaluate\<close> runs the JSX of the function body. It reads the state and builds the
    tree of elements, whose children are still run-time values (\<open>jsval page\<close>); a
    property read on \<^verbatim>\<open>null\<close> or \<^verbatim>\<open>undefined\<close>, \<^verbatim>\<open>Object.entries\<close> of them, or \<^verbatim>\<open>.map\<close> on
    a value that is no array throws a \<open>TypeError\<close>.
  \<^item> \<open>commit\<close> is React turning the children into text (\<open>string page\<close>): strings and
    numbers are printed, \<^verbatim>\<open>null\<close>, \<^verbatim>\<open>undefined\<close> and booleans render nothing, arrays render
    their items, and an object throws \<open>ReactError\<close> (\<open>react_child\<close>).
  \<open>render\<close> is one after the other. The component has no error boundary, so a throw
  in either phase unmounts the page.

  The tree keeps what depends on the state: the two inputs, the two buttons with their
  \<^verbatim>\<open>disabled\<close> attribute and icon, the selected tab, the editor or the preview, the
  badge, the results panel and the character count. Static markup, class names and
  the \<^verbatim>\<open>title\<close> attribute of line 206 (the same value as the child next to it) are left
  out.

  \<^verbatim>\<open>toLocaleString\<close> (line 239) depends on the locale of the browser; \<open>toLocaleString\<close>
  is its result in the locale \<^verbatim>\<open>en-US\<close>, digits in groups of three separated by commas.

  \<open>typed_page\<close> is the view as the types of src/types.ts describe it: a function of
  the state and the \<^verbatim>\<open>ProcessingResult\<close> it holds. \<open>render\<close> refines it on every state
  whose result is a \<^verbatim>\<open>ProcessingResult\<close>.
\<close>

section \<open>The tree\<close>

datatype icon = Fa_spinner | Fa_cloud_download | Fa_cog | Fa_play

record button =
  disabled :: bool
  icon :: icon

datatype pane = Editor string | Inner_html string

record 'c card =
  card_tag :: 'c
  card_number :: string
  card_text :: "'c option"
  card_attributes :: "(string \<times> 'c) list"
  card_source :: 'c

datatype 'c badge = Bare 'c | Matches 'c

datatype 'c results = Extracting | Cards "'c card list" | No_matches

record 'c page =
  url_input :: string
  fetch_button :: button
  selector_input :: string
  run_button :: button
  selected_tab :: tab
  workspace :: pane
  result_badge :: "'c badge"
  results_panel :: "'c results"
  status_chars :: string

section \<open>Library functions the JSX calls\<close>

definition pad3 :: "nat \<Rightarrow> string" where
  "pad3 m = [digit_char (m div 100), digit_char (m div 10 mod 10), digit_char (m mod 10)]"

function toLocaleString :: "nat \<Rightarrow> string" where
  "toLocaleString n =
     (if n < 1000 then show_nat n
      else toLocaleString (n div 1000) @ '','' @ pad3 (n mod 1000))"
  by pat_completeness auto

termination toLocaleString
  by (relation "measure id") auto

declare toLocaleString.simps [simp del]

fun length_of :: "jsval \<Rightarrow> jsval result" where
  "length_of JUndefined = Inl TypeError"
| "length_of JNull = Inl TypeError"
| "length_of (JArr xs) = Inr (JNum (int (length xs)))"
| "length_of (JStr s) = Inr (JNum (int (length s)))"
| "length_of (JObj ps) = Inr (case map_of ps ''length'' of Some v \<Rightarrow> v | None \<Rightarrow> JUndefined)"
| "length_of (JBool b) = Inr JUndefined"
| "length_of (JNum n) = Inr JUndefined"

fun object_entries :: "jsval \<Rightarrow> props result" where
  "object_entries JUndefined = Inl TypeError"
| "object_entries JNull = Inl TypeError"
| "object_entries v = Inr (own_entries v)"

fun react_child :: "jsval \<Rightarrow> string result" and react_children :: "jsval list \<Rightarrow> string result" where
  "react_child JUndefined = Inr []"
| "react_child JNull = Inr []"
| "react_child (JBool b) = Inr []"
| "react_child (JNum n) = Inr (show_int n)"
| "react_child (JStr s) = Inr s"
| "react_child (JArr xs) = react_children xs"
| "react_child (JObj ps) = Inl ReactError"
| "react_children [] = Inr []"
| "react_children (x # xs) =
     bind_result (react_child x) (\<lambda>s. bind_result (react_children xs) (\<lambda>r. Inr (s @ r)))"

text \<open>The values React can render as a child.\<close>

fun renderable :: "jsval \<Rightarrow> bool" where
  "renderable (JObj ps) = False"
| "renderable (JArr xs) = list_all renderable xs"
| "renderable v = True"

text \<open>
  The shape the JSX relies on: an object whose \<^verbatim>\<open>elements\<close> is an array of objects, each
  with an object as \<^verbatim>\<open>attributes\<close>.
\<close>

fun card_shaped :: "jsval \<Rightarrow> bool" where
  "card_shaped (JObj qs) = (case map_of qs ''attributes'' of Some (JObj a) \<Rightarrow> True | _ \<Rightarrow> False)"
| "card_shaped v = False"

fun result_shaped :: "jsval \<Rightarrow> bool" where
  "result_shaped (JObj ps) =
     (case map_of ps ''elements'' of Some (JArr els) \<Rightarrow> list_all card_shaped els | _ \<Rightarrow> False)"
| "result_shaped v = False"

section \<open>Evaluating the JSX\<close>

definition eval_button :: "AppState \<Rightarrow> icon \<Rightarrow> icon \<Rightarrow> button" where
  "eval_button st busy idle =
     \<lparr>disabled = isLoading st, icon = (if isLoading st then busy else idle)\<rparr>"

definition eval_workspace :: "AppState \<Rightarrow> pane" where
  "eval_workspace st = (if activeTab st = Source then Editor (html st) else Inner_html (html st))"

definition result_value :: "AppState \<Rightarrow> jsval" where
  "result_value st = (case result st of None \<Rightarrow> JNull | Some r \<Rightarrow> r)"

definition eval_badge :: "AppState \<Rightarrow> jsval badge result" where
  "eval_badge st =
     (if truthy (result_value st)
      then bind_result (getProp (result_value st) ''count'') (\<lambda>c. Inr (Matches c))
      else Inr (Bare (result_value st)))"

definition eval_card :: "nat \<Rightarrow> jsval \<Rightarrow> jsval card result" where
  "eval_card i el =
     bind_result (getProp el ''tag'') (\<lambda>t.
     bind_result (getProp el ''text'') (\<lambda>x.
     bind_result (getProp el ''attributes'') (\<lambda>a.
     bind_result (object_entries a) (\<lambda>es.
     bind_result (getProp el ''html'') (\<lambda>h.
       Inr \<lparr>card_tag = t, card_number = CHR ''#'' # show_nat (i + 1),
            card_text = (if truthy x then Some x else None),
            card_attributes = es, card_source = h\<rparr>)))))"

definition eval_cards :: "jsval list \<Rightarrow> jsval card list result" where
  "eval_cards xs = map_result (\<lambda>(i, el). eval_card i el) (zip [0..<length xs] xs)"

definition eval_results :: "AppState \<Rightarrow> jsval results result" where
  "eval_results st =
     (if isLoading st then Inr Extracting
      else if result_value st = JNull \<or> result_value st = JUndefined then Inr No_matches
      else
        bind_result (getProp (result_value st) ''elements'') (\<lambda>es.
        bind_result (length_of es) (\<lambda>n.
          if truthy n
          then (case es of
                  JArr xs \<Rightarrow> bind_result (eval_cards xs) (\<lambda>cs. Inr (Cards cs))
                | _ \<Rightarrow> Inl TypeError)
          else Inr No_matches)))"

definition eval_status :: "AppState \<Rightarrow> string" where
  "eval_status st = toLocaleString (length (html st)) @ '' chars''"

definition evaluate :: "AppState \<Rightarrow> jsval page result" where
  "evaluate st =
     bind_result (eval_badge st) (\<lambda>b.
     bind_result (eval_results st) (\<lambda>r.
       Inr \<lparr>url_input = url st,
            fetch_button = eval_button st Fa_spinner Fa_cloud_download,
            selector_input = selector st,
            run_button = eval_button st Fa_cog Fa_play,
            selected_tab = activeTab st,
            workspace = eval_workspace st,
            result_badge = b,
            results_panel = r,
            status_chars = eval_status st\<rparr>))"

section \<open>Committing the tree\<close>

definition commit_attribute :: "string \<times> jsval \<Rightarrow> (string \<times> string) result" where
  "commit_attribute kv = bind_result (react_child (snd kv)) (\<lambda>v. Inr (fst kv @ '':'', v))"

definition commit_card :: "jsval card \<Rightarrow> string card result" where
  "commit_card c =
     bind_result (react_child (card_tag c)) (\<lambda>t.
     bind_result (case card_text c of None \<Rightarrow> Inr None
                  | Some x \<Rightarrow> bind_result (react_child x) (\<lambda>s. Inr (Some s))) (\<lambda>x.
     bind_result (map_result commit_attribute (card_attributes c)) (\<lambda>as.
     bind_result (react_child (card_source c)) (\<lambda>h.
       Inr \<lparr>card_tag = t, card_number = card_number c, card_text = x,
            card_attributes = as, card_source = h\<rparr>))))"

fun commit_badge :: "jsval badge \<Rightarrow> string badge result" where
  "commit_badge (Bare v) = bind_result (react_child v) (\<lambda>s. Inr (Bare s))"
| "commit_badge (Matches c) = bind_result (react_child c) (\<lambda>s. Inr (Matches (s @ '' Matches'')))"

fun commit_results :: "jsval results \<Rightarrow> string results result" where
  "commit_results Extracting = Inr Extracting"
| "commit_results No_matches = Inr No_matches"
| "commit_results (Cards cs) = bind_result (map_result commit_card cs) (\<lambda>ds. Inr (Cards ds))"

definition commit :: "jsval page \<Rightarrow> string page result" where
  "commit p =
     bind_result (commit_badge (result_badge p)) (\<lambda>b.
     bind_result (commit_results (results_panel p)) (\<lambda>r.
       Inr \<lparr>url_input = url_input p, fetch_button = fetch_button p,
            selector_input = selector_input p, run_button = run_button p,
            selected_tab = selected_tab p, workspace = workspace p,
            result_badge = b, results_panel = r, status_chars = status_chars p\<rparr>))"

definition render :: "AppState \<Rightarrow> string page result" where
  "render st = bind_result (evaluate st) commit"

section \<open>The view of a typed state\<close>

definition typed_card :: "nat \<Rightarrow> ExtractedElement \<Rightarrow> string card" where
  "typed_card i e =
     \<lparr>card_tag = el_tag e, card_number = CHR ''#'' # show_nat (i + 1),
      card_text = (if el_text e = [] then None else Some (el_text e)),
      card_attributes = map (\<lambda>(k, v). (k @ '':'', v)) (el_attributes e),
      card_source = el_html e\<rparr>"

definition typed_results :: "bool \<Rightarrow> ExtractedElement list \<Rightarrow> string results" where
  "typed_results loading es =
     (if loading then Extracting
      else if es = [] then No_matches
      else Cards (map (\<lambda>(i, e). typed_card i e) (zip [0..<length es] es)))"

definition typed_page :: "AppState \<Rightarrow> ProcessingResult \<Rightarrow> string page" where
  "typed_page st p =
     \<lparr>url_input = url st,
      fetch_button = eval_button st Fa_spinner Fa_cloud_download,
      selector_input = selector st,
      run_button = eval_button st Fa_cog Fa_play,
      selected_tab = activeTab st,
      workspace = eval_workspace st,
      result_badge = Matches (show_int (count p) @ '' Matches''),
      results_panel = typed_results (isLoading st) (elements p),
      status_chars = eval_status st\<rparr>"

lemmas view_defs =
  eval_button_def eval_workspace_def result_value_def eval_badge_def eval_card_def
  eval_cards_def eval_results_def eval_status_def evaluate_def commit_attribute_def
  commit_card_def commit_def render_def

lemmas [js_defs] = view_defs pad3_def typed_card_def typed_results_def typed_page_def

section \<open>Grouping digits\<close>

lemma mod_1000_digits:
  fixes n :: nat
  shows "n mod 1000 div 100 = n div 100 mod 10" "n mod 1000 div 10 mod 10 = n div 10 mod 10"
    "n mod 1000 mod 10 = n mod 10"
proof -
  have "n mod 1000 = 100 * (n div 100 mod 10) + n mod 100"
    using mod_mult2_eq [of n 100 10] by simp
  then show "n mod 1000 div 100 = n div 100 mod 10" by simp
  have "n mod 1000 = 10 * (n div 10 mod 100) + n mod 10"
    using mod_mult2_eq [of n 10 100] by simp
  then have "n mod 1000 div 10 = n div 10 mod 100" by simp
  then show "n mod 1000 div 10 mod 10 = n div 10 mod 10" by (simp add: mod_mod_cancel)
  show "n mod 1000 mod 10 = n mod 10" by (rule mod_mod_cancel) simp
qed

lemma show_nat_step: "10 \<le> n \<Longrightarrow> show_nat n = show_nat (n div 10) @ [digit_char (n mod 10)]"
  by (subst show_nat.simps) simp

lemma show_nat_split3:
  assumes "1000 \<le> n"
  shows "show_nat n = show_nat (n div 1000) @ pad3 (n mod 1000)"
proof -
  from assms have "10 \<le> n" "10 \<le> n div 10" "10 \<le> n div 10 div 10" by simp_all
  then have "show_nat n = show_nat (n div 10 div 10 div 10) @
      [digit_char (n div 10 div 10 mod 10), digit_char (n div 10 mod 10), digit_char (n mod 10)]"
    by (simp add: show_nat_step)
  then show ?thesis by (simp add: pad3_def mod_1000_digits div_mult2_eq [symmetric])
qed

lemma comma_not_digit [simp]: "\<not> is_digit (CHR '','')"
  by (simp add: is_digit_def)

lemma filter_comma_show_nat [simp]: "filter (\<lambda>c. c \<noteq> CHR '','') (show_nat n) = show_nat n"
proof -
  have "\<forall>c \<in> set (show_nat n). c \<noteq> CHR '',''"
    using show_nat_digits [of n] comma_not_digit by (auto simp: list_all_iff)
  then show ?thesis by (simp add: filter_id_conv)
qed

lemma digit_char_not_comma [simp]: "d < 10 \<Longrightarrow> digit_char d \<noteq> CHR '',''"
  using is_digit_digit_char [of d] comma_not_digit by metis

lemma filter_comma_pad3 [simp]:
  "m < 1000 \<Longrightarrow> filter (\<lambda>c. c \<noteq> CHR '','') (pad3 m) = pad3 m"
  by (simp add: pad3_def less_mult_imp_div_less)

lemma length_pad3 [simp]: "length (pad3 m) = 3"
  by (simp add: pad3_def)

lemma toLocaleString_small: "n < 1000 \<Longrightarrow> toLocaleString n = show_nat n"
  by (simp add: toLocaleString.simps)

lemma toLocaleString_large:
  "1000 \<le> n \<Longrightarrow> toLocaleString n = toLocaleString (n div 1000) @ '','' @ pad3 (n mod 1000)"
  by (subst toLocaleString.simps) simp

lemma filter_comma_toLocaleString:
  "filter (\<lambda>c. c \<noteq> CHR '','') (toLocaleString n) = show_nat n"
proof (induction n rule: toLocaleString.induct)
  case (1 n)
  show ?case
  proof (cases "n < 1000")
    case True
    then show ?thesis by (simp add: toLocaleString_small)
  next
    case False
    with 1 show ?thesis by (simp add: toLocaleString_large show_nat_split3)
  qed
qed

lemma toLocaleString_nonempty [simp]: "toLocaleString n \<noteq> []"
  by (subst toLocaleString.simps) simp

lemma length_show_nat_small: "n < 1000 \<Longrightarrow> length (show_nat n) \<le> 3"
  by (simp add: show_nat.simps [of n] show_nat.simps [of "n div 10"]
      show_nat.simps [of "n div 10 div 10"])

lemma show_nat_nth_not_comma: "i < length (show_nat n) \<Longrightarrow> show_nat n ! i \<noteq> CHR '',''"
  using show_nat_digits [of n] comma_not_digit by (metis list_all_length)

lemma pad3_nth_not_comma: "m < 1000 \<Longrightarrow> i < 3 \<Longrightarrow> pad3 m ! i \<noteq> CHR '',''"
  by (cases i rule: nat.exhaust [case_names 0 Suc])
    (auto simp: pad3_def less_mult_imp_div_less nth_Cons' numeral_3_eq_3)

lemma mod4_facts:
  fixes i t k :: nat
  shows "k \<le> 3 \<Longrightarrow> i < k \<Longrightarrow> (k - i) mod 4 \<noteq> 0"
    and "i < t \<Longrightarrow> (t + 4 - i) mod 4 = (t - i) mod 4"
    and "t < i \<Longrightarrow> i < t + 4 \<Longrightarrow> (t + 4 - i) mod 4 \<noteq> 0"
proof -
  show "k \<le> 3 \<Longrightarrow> i < k \<Longrightarrow> (k - i) mod 4 \<noteq> 0"
    by (simp add: mod_eq_0_iff_dvd dvd_imp_le not_le [symmetric])
  show "(t + 4 - i) mod 4 = (t - i) mod 4" if "i < t"
  proof -
    from that have "t + 4 - i = (t - i) + 4" by simp
    then have "(t + 4 - i) mod 4 = (t - i + 4) mod 4" by (rule arg_cong)
    also have "\<dots> = (t - i) mod 4" by (rule mod_add_self2)
    finally show ?thesis .
  qed
  show "(t + 4 - i) mod 4 \<noteq> 0" if "t < i" "i < t + 4"
  proof -
    from that have "t + 4 - i < 4" "0 < t + 4 - i" by simp_all
    then show ?thesis by simp
  qed
qed

lemma comma_positions:
  "i < length (toLocaleString n) \<Longrightarrow>
   toLocaleString n ! i = CHR '','' \<longleftrightarrow> (length (toLocaleString n) - i) mod 4 = 0"
proof (induction n arbitrary: i rule: toLocaleString.induct)
  case (1 n)
  show ?case
  proof (cases "n < 1000")
    case True
    then have s: "toLocaleString n = show_nat n" by (rule toLocaleString_small)
    from True have "length (show_nat n) \<le> 3" by (rule length_show_nat_small)
    moreover from "1.prems" have "i < length (show_nat n)" unfolding s .
    ultimately have "(length (show_nat n) - i) mod 4 \<noteq> 0" by (rule mod4_facts(1))
    moreover from "1.prems" have "show_nat n ! i \<noteq> CHR '',''"
      unfolding s by (rule show_nat_nth_not_comma)
    ultimately show ?thesis unfolding s by simp
  next
    case False
    let ?t = "toLocaleString (n div 1000)"
    let ?p = "pad3 (n mod 1000)"
    from False have s: "toLocaleString n = ?t @ CHR '','' # ?p"
      by (simp add: toLocaleString_large)
    have len: "length (toLocaleString n) = length ?t + 4" unfolding s by simp
    consider "i < length ?t" | "i = length ?t" | "length ?t < i" by linarith
    then show ?thesis
    proof cases
      case 1
      from 1 have "toLocaleString n ! i = ?t ! i" unfolding s by (simp add: nth_append)
      moreover from 1 have "(length ?t + 4 - i) mod 4 = (length ?t - i) mod 4"
        by (rule mod4_facts(2))
      moreover from False 1 have
        "?t ! i = CHR '','' \<longleftrightarrow> (length ?t - i) mod 4 = 0"
        by (rule "1.IH")
      ultimately show ?thesis unfolding len by simp
    next
      case 2
      then have "toLocaleString n ! i = CHR '',''" unfolding s by (simp add: nth_append)
      with 2 show ?thesis unfolding len by simp
    next
      case 3
      from "1.prems" have i: "i < length ?t + 4" unfolding len .
      with 3 have "(length ?t + 4 - i) mod 4 \<noteq> 0" by (rule mod4_facts(3))
      moreover from 3 i have "i - Suc (length ?t) < 3" by simp
      then have "?p ! (i - Suc (length ?t)) \<noteq> CHR '',''"
        by (rule pad3_nth_not_comma [rotated]) simp
      with 3 have "toLocaleString n ! i \<noteq> CHR '',''"
        unfolding s by (simp add: nth_append nth_Cons')
      ultimately show ?thesis unfolding len by simp
    qed
  qed
qed

section \<open>Children\<close>

lemma throws_react_child:
  "throws (react_child v) \<longleftrightarrow> \<not> renderable v"
  "throws (react_children xs) \<longleftrightarrow> \<not> list_all renderable xs"
  by (induction v and xs rule: react_child_react_children.induct)
    (auto simp: throws_bind_result not_throws_iff)

lemma react_child_error:
  "react_child v = Inl e \<Longrightarrow> e = ReactError"
  "react_children xs = Inl e \<Longrightarrow> e = ReactError"
  by (induction v and xs arbitrary: e and e rule: react_child_react_children.induct)
    (auto simp: bind_result_eq_Inl_iff)

lemma object_entries_JObj [simp]: "object_entries (JObj ps) = Inr ps"
  by simp

lemma throws_object_entries [simp]: "throws (object_entries v) \<longleftrightarrow> v = JUndefined \<or> v = JNull"
  by (cases v) simp_all

section \<open>The typed view\<close>

lemma those_map_the:
  "those (map f xs) = Some ys \<Longrightarrow> map (\<lambda>x. the (f x)) xs = ys \<and> (\<forall>x \<in> set xs. f x \<noteq> None)"
proof (induction xs arbitrary: ys)
  case Nil
  then show ?case by simp
next
  case (Cons x xs)
  then show ?case by (auto split: option.splits)
qed

lemma commit_attributes_typed:
  "map_result commit_attribute (map (\<lambda>(k, v). (k, JStr v)) r) =
     Inr (map (\<lambda>(k, v). (k @ '':'', v)) r)"
  by (induction r) (auto simp: commit_attribute_def)

lemma render_card_typed:
  assumes "to_ExtractedElement el = Some e"
  shows "bind_result (eval_card i el) commit_card = Inr (typed_card i e)"
proof -
  from assms obtain ps where el: "el = JObj ps" by (cases el) auto
  with assms obtain a where f: "map_of ps ''tag'' = Some (JStr (el_tag e))"
    "map_of ps ''text'' = Some (JStr (el_text e))" "map_of ps ''attributes'' = Some a"
    "to_Record a = Some (el_attributes e)" "map_of ps ''html'' = Some (JStr (el_html e))"
    by (auto simp: bind_eq_Some_conv field_eq_Some_iff)
  from f(4) have "a = of_Record (el_attributes e)" by (rule of_Record_to_Record)
  with el f show ?thesis
    by (simp add: eval_card_def commit_card_def typed_card_def of_Record_def
        commit_attributes_typed)
qed

lemma render_cards_typed:
  assumes "those (map to_ExtractedElement xs) = Some es"
  shows "bind_result (eval_cards xs) (map_result commit_card) =
    Inr (map (\<lambda>(i, e). typed_card i e) (zip [0..<length es] es))"
proof -
  from assms have es: "map (\<lambda>x. the (to_ExtractedElement x)) xs = es"
    and some: "\<forall>x \<in> set xs. to_ExtractedElement x \<noteq> None"
    by (auto dest: those_map_the)
  let ?h = "\<lambda>(i, el). typed_card i (the (to_ExtractedElement el))"
  have "bind_result (eval_cards xs) (map_result commit_card) =
      Inr (map ?h (zip [0..<length xs] xs))"
    unfolding eval_cards_def
  proof (rule map_result_then_total)
    fix x assume "x \<in> set (zip [0..<length xs] xs)"
    then have "snd x \<in> set xs"
      using set_zip_rightD [of "fst x" "snd x" "[0..<length xs]" xs] by simp
    with some obtain e where "to_ExtractedElement (snd x) = Some e" by auto
    then show "bind_result (case x of (i, el) \<Rightarrow> eval_card i el) commit_card = Inr (?h x)"
      by (cases x) (simp add: render_card_typed)
  qed
  also have "map ?h (zip [0..<length xs] xs) =
      map (\<lambda>(i, e). typed_card i e) (zip [0..<length xs] (map (\<lambda>x. the (to_ExtractedElement x)) xs))"
    by (simp add: zip_map2 split_beta)
  finally show ?thesis using es by auto
qed

lemma render_results_typed:
  assumes "those (map to_ExtractedElement xs) = Some es"
    and "result st = Some (JObj ps)" and "map_of ps ''elements'' = Some (JArr xs)"
  shows "bind_result (eval_results st) commit_results = Inr (typed_results (isLoading st) es)"
proof -
  from assms(1) have len: "length es = length xs" by (auto dest: those_length)
  from render_cards_typed [OF assms(1)] obtain cs where cs: "eval_cards xs = Inr cs"
    "map_result commit_card cs = Inr (map (\<lambda>(i, e). typed_card i e) (zip [0..<length es] es))"
    by (cases "eval_cards xs") auto
  from len have "es = [] \<longleftrightarrow> xs = []" by auto
  with assms(2,3) cs show ?thesis
    by (simp add: eval_results_def result_value_def typed_results_def)
qed

lemma render_typed:
  assumes "result st = Some r" and "to_ProcessingResult r = Some p"
  shows "render st = Inr (typed_page st p)"
proof -
  from assms(2) obtain ps where r: "r = JObj ps" by (cases r) auto
  with assms(2) obtain xs where xs: "map_of ps ''elements'' = Some (JArr xs)"
    "those (map to_ExtractedElement xs) = Some (elements p)"
    and c: "map_of ps ''count'' = Some (JNum (count p))"
    by (auto simp: bind_eq_Some_conv field_eq_Some_iff elim: to_elements.elims)
  from assms(1) r have st: "result st = Some (JObj ps)" by simp
  from render_results_typed [OF xs(2) st xs(1)]
  obtain rs where rs: "eval_results st = Inr rs"
    "commit_results rs = Inr (typed_results (isLoading st) (elements p))"
    by (cases "eval_results st") auto
  from st c rs show ?thesis
    by (simp add: render_def evaluate_def commit_def eval_badge_def result_value_def
        typed_page_def)
qed

lemma render_no_result:
  assumes "result st = None"
  shows "render st =
    Inr \<lparr>url_input = url st,
         fetch_button = eval_button st Fa_spinner Fa_cloud_download,
         selector_input = selector st,
         run_button = eval_button st Fa_cog Fa_play,
         selected_tab = activeTab st,
         workspace = eval_workspace st,
         result_badge = Bare [],
         results_panel = (if isLoading st then Extracting else No_matches),
         status_chars = eval_status st\<rparr>"
  using assms
  by (simp add: render_def evaluate_def commit_def eval_badge_def eval_results_def
      result_value_def)

lemma render_typed_result: "typed_result st \<Longrightarrow> \<not> throws (render st)"
proof (cases "result st")
  case None
  then show ?thesis by (simp add: render_no_result)
next
  case (Some r)
  assume "typed_result st"
  with Some obtain p where "to_ProcessingResult r = Some p"
    by (auto simp: typed_result_def is_ProcessingResult_def)
  with Some show ?thesis by (simp add: render_typed)
qed

section \<open>The JSX does not throw on what \<open>processSelector\<close> returns\<close>

lemma attributes_of_JObj: "attributes_of a = Inr attrs \<Longrightarrow> \<exists>ps. attrs = JObj ps"
  by (cases "js_or a (JArr [])") (auto simp: attributes_of_def bind_result_eq_Inr_iff)

lemma card_shaped_map_element: "map_element el = Inr v \<Longrightarrow> card_shaped v"
  by (auto simp: map_element_def bind_result_eq_Inr_iff dest!: attributes_of_JObj)

lemma result_shaped_reshape:
  assumes "reshape rawResult s = Inr v"
  shows "result_shaped v"
proof -
  from assms obtain xs els c u where m: "map_result map_element xs = Inr els"
    and v: "v = JObj [(''elements'', JArr els), (''count'', c), (''selectorUsed'', u)]"
    by (auto simp: reshape_eq_Inr_iff)
  from m have "list_all2 (\<lambda>x y. map_element x = Inr y) xs els"
    by (simp add: map_result_eq_Inr_iff)
  then have "list_all card_shaped els"
    by (induction rule: list_all2_induct) (auto intro: card_shaped_map_element)
  with v show ?thesis by simp
qed

lemma result_shaped_error_result [simp]: "result_shaped (error_result s)"
  by (simp add: error_result_def)

lemma result_shaped_processSelector [simp]: "result_shaped (processSelector gen parse h s)"
proof (cases "processSelector_try gen parse h s")
  case (Inl e)
  then show ?thesis by simp
next
  case (Inr v)
  then have "result_shaped v"
    by (auto simp: processSelector_try_def bind_result_eq_Inr_iff dest: result_shaped_reshape)
  with Inr show ?thesis by simp
qed

lemma eval_card_shaped: "card_shaped el \<Longrightarrow> \<not> throws (eval_card i el)"
  by (cases el) (auto simp: eval_card_def throws_bind_result split: option.splits jsval.splits)

lemma eval_cards_shaped: "list_all card_shaped xs \<Longrightarrow> \<not> throws (eval_cards xs)"
  by (auto simp: eval_cards_def throws_map_result list_all_iff eval_card_shaped
      dest: set_zip_rightD)

lemma evaluate_shaped:
  assumes "result st = Some r" and "result_shaped r"
  shows "\<not> throws (evaluate st)"
proof -
  from assms(2) obtain ps els where r: "r = JObj ps" "map_of ps ''elements'' = Some (JArr els)"
    "list_all card_shaped els"
    by (cases r) (auto split: option.splits jsval.splits)
  from r(3) have "\<not> throws (eval_cards els)" by (rule eval_cards_shaped)
  with assms(1) r show ?thesis
    by (auto simp: evaluate_def eval_badge_def eval_results_def result_value_def
        throws_bind_result)
qed

lemma evaluate_no_result: "result st = None \<Longrightarrow> \<not> throws (evaluate st)"
  by (simp add: evaluate_def eval_badge_def eval_results_def result_value_def)

lemma commit_error: "commit p = Inl e \<Longrightarrow> e = ReactError"
proof -
  have attr: "commit_attribute kv = Inl e \<Longrightarrow> e = ReactError" for kv e
    by (auto simp: commit_attribute_def bind_result_eq_Inl_iff dest: react_child_error)
  have card: "commit_card c = Inl e \<Longrightarrow> e = ReactError" for c e
    by (auto simp: commit_card_def bind_result_eq_Inl_iff
        dest: react_child_error attr dest!: map_result_InlD split: option.splits)
  have "commit_results r = Inl e \<Longrightarrow> e = ReactError" for r
    by (cases r) (auto simp: bind_result_eq_Inl_iff dest: card dest!: map_result_InlD)
  moreover have "commit_badge b = Inl e \<Longrightarrow> e = ReactError" for b
    by (cases b) (auto simp: bind_result_eq_Inl_iff dest: react_child_error)
  moreover assume "commit p = Inl e"
  ultimately show ?thesis by (auto simp: commit_def bind_result_eq_Inl_iff)
qed

section \<open>What committing keeps\<close>

lemma commit_static:
  assumes "commit p = Inr q"
  shows "workspace q = workspace p" and "url_input q = url_input p"
    and "selector_input q = selector_input p" and "fetch_button q = fetch_button p"
    and "run_button q = run_button p" and "selected_tab q = selected_tab p"
    and "status_chars q = status_chars p"
  using assms by (auto simp: commit_def bind_result_eq_Inr_iff)

lemma render_workspace:
  assumes "render st = Inr p"
  shows "workspace p = eval_workspace st"
  using assms
  by (auto simp: render_def evaluate_def bind_result_eq_Inr_iff dest!: commit_static(1))

end
