(* ===== verification/Samples.thy ===== *)
theory Samples
  imports App_View
begin

text \<open>
  Concrete data for the instances of the properties: replies, parsers that know one
  reply and the empty object, a model that answers every request with text, and what
  the functions of the development compute on them.

  \<^item> \<open>sample_reply\<close>: one element, within the schema;
  \<^item> \<open>miscount_reply\<close>: within the schema, but with a count and a locator of its own;
  \<^item> \<open>untyped_parse\<close>, \<open>object_tag_parse\<close>: replies outside the schema on which nothing
    throws.
\<close>

text \<open>
  A reply of one element that follows the schema, a parser that knows this reply and
  the empty object, and a model that answers every request with text.
\<close>

definition sample_reply :: jsval where
  "sample_reply =
     JObj [(''elements'',
              JArr [JObj [(''tag'', JStr ''p''), (''text'', JStr ''x''),
                          (''attributes'', JArr [entry_of (''id'', ''a'')]),
                          (''html'', JStr ''<p id=a>x</p>'')]]),
           (''count'', JNum 1),
           (''selectorUsed'', JStr ''tag:p'')]"

definition sample_parse :: json_parser where
  "sample_parse t = (if t = ''{}'' then Inr (JObj []) else Inr sample_reply)"

definition sample_gen :: gen_model where
  "sample_gen q = Inr \<lparr>response_text = Some ''reply''\<rparr>"

definition sample_decoded :: RawResult where
  "sample_decoded =
     \<lparr>raw_elements = [\<lparr>raw_tag = ''p'', raw_text = ''x'', raw_attributes = [(''id'', ''a'')],
                        raw_html = ''<p id=a>x</p>''\<rparr>],
      raw_count = 1, raw_selectorUsed = ''tag:p''\<rparr>"

text \<open>
  A reply that follows the schema and reports a count and a locator of its own, and a
  reply of the wrong shape on which nothing throws.
\<close>

definition miscount_reply :: jsval where
  "miscount_reply =
     JObj [(''elements'', JArr []), (''count'', JNum 7), (''selectorUsed'', JStr ''div'')]"

definition miscount_parse :: json_parser where
  "miscount_parse t = (if t = ''{}'' then Inr (JObj []) else Inr miscount_reply)"

definition miscount_decoded :: RawResult where
  "miscount_decoded = \<lparr>raw_elements = [], raw_count = 7, raw_selectorUsed = ''div''\<rparr>"

definition untyped_parse :: json_parser where
  "untyped_parse t =
     (if t = ''{}'' then Inr (JObj []) else Inr (JObj [(''elements'', JArr [JNum 1])]))"

text \<open>A reply whose element has an object where the schema asks for a string.\<close>

definition object_tag_parse :: json_parser where
  "object_tag_parse t =
     (if t = ''{}'' then Inr (JObj [])
      else Inr (JObj [(''elements'', JArr [JObj [(''tag'', JObj [])]])]))"

definition sample_response :: "response result" where
  "sample_response = Inr \<lparr>response_text = Some ''reply''\<rparr>"

lemma wf_json_sample_reply: "wf_json sample_reply"
  by (simp add: sample_reply_def entry_of_def key_eval)

lemma sample_parse_contract: "json_parse_contract sample_parse"
  by (simp add: json_parse_contract_def sample_parse_def wf_json_sample_reply)

lemma decode_sample_reply: "decode_reply sample_reply = Some sample_decoded"
  by (simp add: sample_reply_def sample_decoded_def entry_of_def)

lemma conforms_sample_reply: "conforms selector_schema sample_reply"
  by (simp add: sample_reply_def selector_schema_def entry_of_def conforms.simps)

lemma sample_gen_parse:
  "sample_gen q = Inr \<lparr>response_text = Some ''reply''\<rparr>"
  "sample_parse (response_text_or_empty \<lparr>response_text = Some ''reply''\<rparr>) = Inr sample_reply"
  by (simp_all add: sample_gen_def sample_parse_def response_text_or_empty_def)

lemma miscount_parse_contract: "json_parse_contract miscount_parse"
  by (simp add: json_parse_contract_def miscount_parse_def miscount_reply_def key_eval)

lemma miscount_gen_parse:
  "miscount_parse (response_text_or_empty \<lparr>response_text = Some ''reply''\<rparr>) = Inr miscount_reply"
  "decode_reply miscount_reply = Some miscount_decoded"
  by (simp_all add: miscount_parse_def response_text_or_empty_def miscount_reply_def
      miscount_decoded_def)

lemma miscount_result:
  "to_ProcessingResult (processSelector sample_gen miscount_parse h ''tag:p'') =
     Some \<lparr>elements = [], count = 7, selectorUsed = ''div'', error = None\<rparr>"
  using processSelector_decoded
    [where gen = sample_gen and parse = miscount_parse and h = h and s = "''tag:p''",
      OF miscount_parse_contract sample_gen_parse(1) miscount_gen_parse]
  by (simp add: spec_reshape_def miscount_decoded_def)

lemma untyped_parse_contract: "json_parse_contract untyped_parse"
  by (simp add: json_parse_contract_def untyped_parse_def key_eval)

lemma object_tag_parse_contract: "json_parse_contract object_tag_parse"
  by (simp add: json_parse_contract_def object_tag_parse_def key_eval)

lemma miscount_processSelector:
  "processSelector (\<lambda>q. sample_response) miscount_parse h s =
     JObj [(''elements'', JArr []), (''count'', JNum 7), (''selectorUsed'', JStr ''div'')]"
  by (simp add: processSelector_def processSelector_try_def sample_response_def
      miscount_parse_def miscount_reply_def response_text_or_empty_def reshape_def)

lemma object_tag_processSelector:
  "processSelector (\<lambda>q. sample_response) object_tag_parse h s =
     JObj [(''elements'', JArr [JObj [(''tag'', JObj []), (''attributes'', JObj [])]]),
           (''count'', JNum 1), (''selectorUsed'', JStr s)]"
  by (simp add: processSelector_def processSelector_try_def sample_response_def
      object_tag_parse_def response_text_or_empty_def reshape_def map_element_def key_eval)

text \<open>The state after the request of the mount effect has settled with a given result.\<close>

lemma mounted_settled:
  "replay parse [Settle 0 reply] mounted =
     Some \<lparr>app_state = initial_state\<lparr>result :=
               Some (processSelector (\<lambda>q. reply) parse initial_html ''@id=container'')\<rparr>,
           in_flight = []\<rparr>"
  by (simp add: mounted_eq handler_defs initial_state_def)

end
