(* ===== verification/CheatSheet.thy ===== *)
theory CheatSheet
  imports DP_Prelude
begin

text \<open>
  src/components/CheatSheet.tsx: the help panel beside the workspace.

  \<^item> \<open>items\<close> (lines 5 to 14): the eight entries of the table, each with its label, its
    example locator and its description.
  \<^item> \<open>CheatSheet\<close> (lines 16 to 39): the component takes no properties and has no state;
    what it shows that is not static markup is one row per item, in the order of the
    array, with the three texts of the item.
\<close>

record item =
  item_label :: string
  item_value :: string
  item_desc :: string

definition items :: "item list" where
  \<open>items =
    [\<lparr>item_label = ''Property'', item_value = ''@id=login'',
      item_desc = ''Finds element with id "login"''\<rparr>,
     \<lparr>item_label = ''Tag'', item_value = ''tag:div'',
      item_desc = ''Finds first div element''\<rparr>,
     \<lparr>item_label = ''Text'', item_value = ''text:Submit'',
      item_desc = ''Finds element containing text "Submit"''\<rparr>,
     \<lparr>item_label = ''Combined'', item_value = ''tag:button@class=btn-primary'',
      item_desc = ''Finds button with specific class''\<rparr>,
     \<lparr>item_label = ''CSS'', item_value = ''css:.main > p'',
      item_desc = ''Standard CSS selector''\<rparr>,
     \<lparr>item_label = ''XPath'', item_value = ''xpath://div[@id="app"]'',
      item_desc = ''Standard XPath''\<rparr>,
     \<lparr>item_label = ''Property Existence'', item_value = ''@href'',
      item_desc = ''Finds elements with href attribute''\<rparr>,
     \<lparr>item_label = ''Fuzzy Match'', item_value = ''text=Click'',
      item_desc = ''Finds text matching "Click" partially''\<rparr>]\<close>

record row =
  row_label :: string
  row_code :: string
  row_text :: string

definition CheatSheet :: "row list" where
  "CheatSheet =
     map (\<lambda>it. \<lparr>row_label = item_label it, row_code = item_value it, row_text = item_desc it\<rparr>)
       items"

lemma length_items [simp]: "length items = 8"
  by (simp add: items_def)

lemma length_CheatSheet [simp]: "length CheatSheet = 8"
  by (simp add: CheatSheet_def)

lemma distinct_labels: "distinct (map item_label items)"
  by (simp add: items_def)

end
