(* ===== verification/Locator.thy ===== *)
theory Locator
  imports DP_Prelude "HOL-Library.Sublist"
begin

text \<open>
  The locator grammar of the specification (section 4.1, with the kinds of section 3).
  The repository has no parser: it sends the locator to the model as text. The grammar
  is modelled from the specification, so that the locators the repository itself
  writes (the cheat sheet, the initial state, the placeholder of the input) can be
  checked against it.

  \<^item> \<open>locator\<close>: the eight kinds of section 3.
  \<^item> \<open>parse_locator\<close>: the nine rules of section 4.1 in their order of precedence. The
    empty string is the only error. Where the specification is silent the parser
    takes the next rule: \<^verbatim>\<open>tag:\<close> followed by a text without \<^verbatim>\<open>@\<close>...\<^verbatim>\<open>=\<close> is rule 4
    with the whole text as the name.
  \<^item> \<open>print_locator\<close>: the canonical text of a locator. A bare text (rule 9) and
    \<^verbatim>\<open>text=\<close> (rule 8) are the same kind, so printing normalises a bare text to the
    \<^verbatim>\<open>text=\<close> form.
  \<^item> \<open>wf_locator\<close>: the locators the parser can return; on them parsing undoes
    printing.
\<close>

section \<open>Locators\<close>

datatype locator_error = MalformedLocator

datatype locator =
    XPath string
  | Css string
  | CombinedTagProperty string string string
  | Tag string
  | Property string string
  | PropertyExistence string
  | Text string
  | FuzzyText string

definition strip_prefix :: "string \<Rightarrow> string \<Rightarrow> string option" where
  "strip_prefix p s = (if prefix p s then Some (drop (length p) s) else None)"

definition split_at :: "char \<Rightarrow> string \<Rightarrow> (string \<times> string) option" where
  "split_at c s =
     (case dropWhile (\<lambda>x. x \<noteq> c) s of
        [] \<Rightarrow> None
      | x # rest \<Rightarrow> Some (takeWhile (\<lambda>x. x \<noteq> c) s, rest))"

definition parse_tag :: "string \<Rightarrow> locator" where
  "parse_tag r =
     (case split_at (CHR ''@'') r of
        None \<Rightarrow> Tag r
      | Some (name, rest) \<Rightarrow>
          (case split_at (CHR ''='') rest of
             None \<Rightarrow> Tag r
           | Some (attr, v) \<Rightarrow> CombinedTagProperty name attr v))"

definition parse_property :: "string \<Rightarrow> locator" where
  "parse_property r =
     (case split_at (CHR ''='') r of
        None \<Rightarrow> PropertyExistence r
      | Some (attr, v) \<Rightarrow> Property attr v)"

definition parse_locator :: "string \<Rightarrow> locator_error + locator" where
  "parse_locator s =
     (if s = [] then Inl MalformedLocator
      else case strip_prefix ''xpath:'' s of Some e \<Rightarrow> Inr (XPath e) | None \<Rightarrow>
           (case strip_prefix ''css:'' s of Some e \<Rightarrow> Inr (Css e) | None \<Rightarrow>
           (case strip_prefix ''tag:'' s of Some r \<Rightarrow> Inr (parse_tag r) | None \<Rightarrow>
           (case strip_prefix ''@'' s of Some r \<Rightarrow> Inr (parse_property r) | None \<Rightarrow>
           (case strip_prefix ''text:'' s of Some f \<Rightarrow> Inr (Text f) | None \<Rightarrow>
           (case strip_prefix ''text='' s of Some f \<Rightarrow> Inr (FuzzyText f) | None \<Rightarrow>
            Inr (FuzzyText s)))))))"

fun print_locator :: "locator \<Rightarrow> string" where
  "print_locator (XPath e) = ''xpath:'' @ e"
| "print_locator (Css e) = ''css:'' @ e"
| "print_locator (CombinedTagProperty n a v) = ''tag:'' @ n @ ''@'' @ a @ ''='' @ v"
| "print_locator (Tag n) = ''tag:'' @ n"
| "print_locator (Property a v) = ''@'' @ a @ ''='' @ v"
| "print_locator (PropertyExistence a) = ''@'' @ a"
| "print_locator (Text f) = ''text:'' @ f"
| "print_locator (FuzzyText f) = ''text='' @ f"

fun wf_locator :: "locator \<Rightarrow> bool" where
  "wf_locator (CombinedTagProperty n a v) = (CHR ''@'' \<notin> set n \<and> CHR ''='' \<notin> set a)"
| "wf_locator (Tag n) = (CHR ''='' \<notin> set (dropWhile (\<lambda>x. x \<noteq> CHR ''@'') n))"
| "wf_locator (Property a v) = (CHR ''='' \<notin> set a)"
| "wf_locator (PropertyExistence a) = (CHR ''='' \<notin> set a)"
| "wf_locator l = True"

lemmas locator_defs =
  strip_prefix_def split_at_def parse_tag_def parse_property_def parse_locator_def

section \<open>Splitting\<close>

lemma strip_prefix_append [simp]: "strip_prefix p (p @ r) = Some r"
  by (simp add: strip_prefix_def)

lemma strip_prefix_eq_Some_iff: "strip_prefix p s = Some r \<longleftrightarrow> s = p @ r"
  by (auto simp: strip_prefix_def prefix_def)

lemma strip_prefix_eq_None_iff: "strip_prefix p s = None \<longleftrightarrow> \<not> prefix p s"
  by (simp add: strip_prefix_def)

lemma dropWhile_absent [simp]: "c \<notin> set s \<Longrightarrow> dropWhile (\<lambda>x. x \<noteq> c) s = []"
  by (induction s) auto

lemma dropWhile_first [simp]:
  "c \<notin> set a \<Longrightarrow> dropWhile (\<lambda>x. x \<noteq> c) (a @ c # b) = c # b"
  by (induction a) auto

lemma takeWhile_first [simp]:
  "c \<notin> set a \<Longrightarrow> takeWhile (\<lambda>x. x \<noteq> c) (a @ c # b) = a"
  by (induction a) auto

lemma split_first:
  "c \<in> set s \<Longrightarrow> \<exists>a b. s = a @ c # b \<and> c \<notin> set a"
  by (rule split_list_first)

lemma split_at_None_iff: "split_at c s = None \<longleftrightarrow> c \<notin> set s"
proof (cases "c \<in> set s")
  case True
  then obtain a b where "s = a @ c # b" "c \<notin> set a" by (auto dest: split_first)
  with True show ?thesis by (simp add: split_at_def)
next
  case False
  then show ?thesis by (simp add: split_at_def)
qed

lemma split_at_Some_iff:
  "split_at c s = Some (a, b) \<longleftrightarrow> s = a @ c # b \<and> c \<notin> set a"
proof (cases "c \<in> set s")
  case True
  then obtain a' b' where s: "s = a' @ c # b'" "c \<notin> set a'" by (auto dest: split_first)
  then have "split_at c s = Some (a', b')" by (simp add: split_at_def)
  moreover have "a' @ c # b' = a @ c # b \<and> c \<notin> set a \<longleftrightarrow> a' = a \<and> b' = b"
    using s(2) by (auto simp: append_eq_append_conv2 append_eq_Cons_conv Cons_eq_append_conv)
  ultimately show ?thesis using s(1) by auto
next
  case False
  then show ?thesis by (auto simp: split_at_def)
qed

lemma split_at_append [simp]: "c \<notin> set a \<Longrightarrow> split_at c (a @ c # b) = Some (a, b)"
  by (simp add: split_at_Some_iff)

lemma split_at_absent [simp]: "c \<notin> set s \<Longrightarrow> split_at c s = None"
  by (simp add: split_at_None_iff)

section \<open>The parser\<close>

lemma parse_locator_Nil [simp]: "parse_locator [] = Inl MalformedLocator"
  by (simp add: parse_locator_def)

lemma parse_locator_total: "s \<noteq> [] \<Longrightarrow> \<exists>l. parse_locator s = Inr l"
  by (simp add: parse_locator_def split: option.splits)

lemma parse_locator_error_iff: "parse_locator s = Inl e \<longleftrightarrow> s = []"
  by (cases e) (auto simp: parse_locator_def split: option.splits)

lemma wf_parse_tag [simp]: "wf_locator (parse_tag r)"
  by (auto simp: parse_tag_def split_at_Some_iff split_at_None_iff split: option.splits)

lemma wf_parse_property [simp]: "wf_locator (parse_property r)"
  by (auto simp: parse_property_def split_at_Some_iff split_at_None_iff split: option.splits)

lemma wf_parse_locator: "parse_locator s = Inr l \<Longrightarrow> wf_locator l"
  by (auto simp: parse_locator_def split: option.splits if_splits)

lemma parse_tag_Tag:
  assumes "wf_locator (Tag n)"
  shows "parse_tag n = Tag n"
proof (cases "split_at (CHR ''@'') n")
  case None
  then show ?thesis by (simp add: parse_tag_def)
next
  case (Some p)
  then obtain name rest where n: "n = name @ CHR ''@'' # rest" "CHR ''@'' \<notin> set name"
    and p: "p = (name, rest)"
    by (cases p) (auto simp: split_at_Some_iff)
  with assms have "CHR ''='' \<notin> set rest" by simp
  with Some p show ?thesis by (simp add: parse_tag_def)
qed

lemma parse_locator_print: "wf_locator l \<Longrightarrow> parse_locator (print_locator l) = Inr l"
proof (cases l)
  case (Tag n)
  assume "wf_locator l"
  with Tag have "parse_tag n = Tag n" by (simp add: parse_tag_Tag)
  with Tag show ?thesis by (simp add: parse_locator_def strip_prefix_def)
qed (simp_all add: parse_locator_def strip_prefix_def parse_tag_def parse_property_def)

end
