(* ===== verification/CheatSheet_Locators.thy ===== *)
theory CheatSheet_Locators
  imports CheatSheet Locator
begin

text \<open>
  The cheat sheet against the grammar of the specification. \<open>kind_label\<close> is the label
  under which the cheat sheet lists each kind of locator; \<open>parsed_items\<close> is what the
  examples of the table parse to. The example of every row must parse as the kind its
  label names.
\<close>

fun kind_label :: "locator \<Rightarrow> string" where
  "kind_label (Property a v) = ''Property''"
| "kind_label (Tag n) = ''Tag''"
| "kind_label (Text f) = ''Text''"
| "kind_label (CombinedTagProperty n a v) = ''Combined''"
| "kind_label (Css e) = ''CSS''"
| "kind_label (XPath e) = ''XPath''"
| "kind_label (PropertyExistence a) = ''Property Existence''"
| "kind_label (FuzzyText f) = ''Fuzzy Match''"

definition parsed_items :: "(locator_error + locator) list" where
  "parsed_items = map (\<lambda>it. parse_locator (item_value it)) items"

lemma parsed_items_eq:
  \<open>parsed_items =
    [Inr (Property ''id'' ''login''),
     Inr (Tag ''div''),
     Inr (Text ''Submit''),
     Inr (CombinedTagProperty ''button'' ''class'' ''btn-primary''),
     Inr (Css ''.main > p''),
     Inr (XPath ''//div[@id="app"]''),
     Inr (PropertyExistence ''href''),
     Inr (FuzzyText ''Click'')]\<close>
  by (simp add: parsed_items_def items_def locator_defs)

end
