(* ===== verification/Spec2Isabelle.thy ===== *)
theory Spec2Isabelle
  imports Samples CheatSheet_Locators
begin

text \<open>
  \<^bold>\<open>A verification development for the DrissionPage locator playground.\<close>

  \<^bold>\<open>The program.\<close> A single-page React application (src/App.tsx) in which the user
  pastes HTML, types a locator and sees the matching elements. Nothing in the
  repository matches locators: \<^verbatim>\<open>processSelector\<close> (src/geminiService.ts) sends the HTML
  and the locator to a language model, asks for JSON of a given schema, parses the
  reply and reshapes it into the \<^verbatim>\<open>ProcessingResult\<close> of src/types.ts;
  \<^verbatim>\<open>fetchUrlSimulated\<close> asks the same model to invent the HTML of a URL. \<^verbatim>\<open>App\<close> keeps one
  state object, starts these two asynchronous calls from its handlers, and stores what
  they return. src/components/CheatSheet.tsx renders a fixed table of locator
  examples. The Locator Parser, HTML Document Model, Matcher and Result Formatter of
  the specification are a design for a replacement engine; the repository holds no
  code for them. Of these the locator grammar is modelled from the specification,
  because the repository writes locators (the cheat sheet, the initial state) that
  can be checked against it.

  \<^bold>\<open>What is hard in it.\<close> The reply of the model is untyped data that the code trusts:
  every property read, spread, \<^verbatim>\<open>||\<close> and \<^verbatim>\<open>reduce\<close> of lines 73 to 88 of
  geminiService.ts behaves differently on \<^verbatim>\<open>null\<close>, on a string, on an array or on an
  object, and any of them may throw into the one \<^verbatim>\<open>catch\<close>. The development therefore
  models these lines on run-time values with the semantics of JavaScript, and proves
  what the returned object is for every reply, well formed or not.

  \<^bold>\<open>Theories, in import order.\<close>
  \<^item> \<open>DP_Prelude\<close>: results (a value or a thrown error) with \<open>bind_result\<close>,
    \<open>map_result\<close>, \<open>fold_result\<close>; decimal numerals with their round trip; facts on
    association lists in insertion order.
  \<^item> \<open>JsValue\<close>: the datatype \<open>jsval\<close> of run-time values, truthiness and \<^verbatim>\<open>||\<close>,
    property reads, \<^verbatim>\<open>ToString\<close>, JSON values.
  \<^item> \<open>JsObject\<close>: own-property order, \<open>define_prop\<close> (object literals and spread),
    \<open>spread_into\<close>, \<open>js_set\<close> (assignment, with the \<^verbatim>\<open>__proto__\<close> accessor), \<open>wf_json\<close>.
  \<^item> \<open>Types\<close>: src/types.ts, each interface as a record and as a decoder from run-time
    values; \<open>AppState\<close>.
  \<^item> \<open>Schema\<close>: the response schema as data and the contract \<open>conforms\<close> of structured
    output.
  \<^item> \<open>GeminiService\<close>: src/geminiService.ts, the two requests, \<open>processSelector\<close> and
    \<open>fetchUrlSimulated\<close> with the model call and \<^verbatim>\<open>JSON.parse\<close> as parameters, the
    typed specification \<open>spec_reshape\<close> of the reshaping, and the predicates
    (\<open>bad_reply\<close> and the ones it is built from) that name the replies on which the
    code throws.
  \<^item> \<open>Reply_Errors\<close>: each function of the \<^verbatim>\<open>try\<close> block throws exactly on the replies
    its predicate names; the object of the \<^verbatim>\<open>catch\<close> is returned in no other case.
  \<^item> \<open>Reshape_Refinement\<close>: \<open>reshape\<close> refines \<open>spec_reshape\<close> on replies that decode
    as typed data; a reply that conforms to the schema decodes; what \<open>spec_attributes\<close>
    computes (lookups, order, round trip).
  \<^item> \<open>App\<close>: src/App.tsx lines 7 to 60 and the event handlers of its JSX, as a
    transition system over \<open>AppState\<close> and the requests in flight: the handlers split
    at their \<^verbatim>\<open>await\<close>, the events of the page, the step relation \<open>run\<close> with its
    executable form \<open>replay\<close>, the invariant \<open>app_inv\<close> and the bound on the requests in
    flight.
  \<^item> \<open>App_Service\<close>: the component and the service together: when every reply stays
    within the schema (\<open>schema_reply\<close>) the result the component stores is a
    \<^verbatim>\<open>ProcessingResult\<close> (\<open>typed_result\<close>).
  \<^item> \<open>App_View\<close>: src/App.tsx lines 62 to 246, the JSX in two phases: \<open>evaluate\<close>
    builds the tree with run-time values as children, \<open>commit\<close> turns the children into
    text as React does, \<open>render\<close> is both. \<open>typed_page\<close> is the typed description of the
    view that \<open>render\<close> refines; \<open>toLocaleString\<close> is the grouped character count.
  \<^item> \<open>Locator\<close>: the locator grammar of section 4.1 of the specification,
    \<open>parse_locator\<close>, with its canonical printer and their round trip.
  \<^item> \<open>CheatSheet\<close>: src/components/CheatSheet.tsx, the array \<open>items\<close> and the rows
    rendered from it.
  \<^item> \<open>CheatSheet_Locators\<close>: what the examples of the cheat sheet parse to.
  \<^item> \<open>Samples\<close>: the concrete replies, parsers and states used by the instances of the
    properties.
  \<^item> \<open>Spec2Isabelle\<close> (this theory): the properties of the program, stated over the
    definitions above, each with an instance at concrete data where it has
    hypotheses. The number of a property (C1, C2, ...) is its rank, not its place in
    the text: the sections follow the program.

  \<^bold>\<open>Modelling decisions and bounds.\<close>
  \<^item> Numbers are \<open>int\<close>. The source never computes with a number of the reply; it tests
    it for zero and displays it. Integers below \<open>2^53\<close> in magnitude are exactly the
    doubles that \<^verbatim>\<open>toString\<close> prints as plain decimals; replies with other numbers are
    outside the model.
  \<^item> Strings are lists of 8-bit characters, one per UTF-16 code unit below 256.
  \<^item> An object is the list of its own properties in \<^verbatim>\<open>[[OwnPropertyKeys]]\<close> order; the
    prototype is tracked only where the source can change it (the accumulator of
    \<^verbatim>\<open>reduce\<close>), and only as far as it can be observed.
  \<^item> No fuel is used anywhere: every function of the model is total, by structural
    recursion or, for \<open>toLocaleString\<close> and \<open>drain\<close>, by a measure (the number and the
    number of requests in flight). Asynchronous calls are split into the step that
    starts them and the step that delivers their outcome; \<open>drain\<close> is the schedule in
    which the environment delivers every outcome.
  \<^item> \<^verbatim>\<open>toLocaleString\<close> is modelled for the locale \<^verbatim>\<open>en-US\<close>; other locales use other
    separators.
  \<^item> Every render is taken to see the state of the latest update (React re-renders
    between two events), so handlers read the current state.

  \<^bold>\<open>Not modelled.\<close> The static markup, class names and styling of the JSX, the
  \<^verbatim>\<open>title\<close> attribute of line 206, \<^verbatim>\<open>console.error\<close>, the network, the model itself, and
  \<^verbatim>\<open>JSON.parse\<close> (an interface with a stated contract). The HTML Document Model, the
  Matcher and the Result Formatter of the specification have no code in the
  repository; at run time the language model stands in for them, and the development
  says what the program does with whatever it answers.
\<close>

section \<open>\<open>processSelector\<close>: the reshaping\<close>

text \<open>
  C1. Refinement. When the model answers, the answer parses, and the parsed reply
  decodes as the typed data the schema describes, \<^verbatim>\<open>processSelector\<close> returns an object
  that conforms to \<^verbatim>\<open>ProcessingResult\<close> and is, field by field, what the typed
  specification \<open>spec_reshape\<close> computes from the reply: the elements with their
  attributes folded into a record, the count, the locator, and no error.
\<close>

theorem processSelector_refines:
  assumes "json_parse_contract parse"
    and "gen (selector_request h s) = Inr resp"
    and "parse (response_text_or_empty resp) = Inr rawResult"
    and "decode_reply rawResult = Some r"
  shows "to_ProcessingResult (processSelector gen parse h s) = Some (spec_reshape r s)"
proof -
  from assms(1,3) have "wf_json rawResult" by (rule json_parse_contract_wf)
  from processSelector_try_refines
    [where gen = gen and parse = parse and h = h and s = s, OF this assms(4,2,3)]
  show ?thesis by auto
qed

theorem processSelector_refines_witness:
  "to_ProcessingResult (processSelector sample_gen sample_parse ''<p id=a>x</p>'' ''tag:p'') =
     Some \<lparr>elements = [\<lparr>el_tag = ''p'', el_text = ''x'', el_attributes = [(''id'', ''a'')],
                         el_html = ''<p id=a>x</p>''\<rparr>],
           count = 1, selectorUsed = ''tag:p'', error = None\<rparr>"
  using processSelector_refines
    [where gen = sample_gen and parse = sample_parse and h = "''<p id=a>x</p>''" and s = "''tag:p''",
      OF sample_parse_contract sample_gen_parse decode_sample_reply]
  by (simp add: spec_reshape_def spec_element_def spec_attributes_def spec_step_def
      sample_decoded_def key_eval)

text \<open>
  C2. Failure. Whatever goes wrong inside \<^verbatim>\<open>processSelector\<close> (the call to the model
  rejects, the reply is not JSON, or reshaping the parsed reply throws), the function
  returns the object of its \<^verbatim>\<open>catch\<close> block: no elements, count 0, the locator echoed
  unchanged and the fixed error message. It conforms to \<^verbatim>\<open>ProcessingResult\<close>.
\<close>

theorem processSelector_failure:
  assumes "throws (processSelector_try gen parse h s)"
  shows "to_ProcessingResult (processSelector gen parse h s) =
    Some \<lparr>elements = [], count = 0, selectorUsed = s,
          error = Some ''Failed to process the selector with AI engine.''\<rparr>"
  using assms by (auto simp: throws_iff processSelector_def to_ProcessingResult_error_result)

theorem processSelector_failure_witness:
  "throws (processSelector_try (\<lambda>r. Inl ApiError) (\<lambda>t. Inl SyntaxError) ''<p>x</p>'' ''tag:p'') \<and>
   to_ProcessingResult (processSelector (\<lambda>r. Inl ApiError) (\<lambda>t. Inl SyntaxError) ''<p>x</p>'' ''tag:p'') =
    Some \<lparr>elements = [], count = 0, selectorUsed = ''tag:p'',
          error = Some ''Failed to process the selector with AI engine.''\<rparr>"
proof -
  have t: "throws (processSelector_try (\<lambda>r. Inl ApiError) (\<lambda>t. Inl SyntaxError) ''<p>x</p>'' ''tag:p'')"
    by (simp add: processSelector_try_def)
  from t processSelector_failure [OF t] show ?thesis by simp
qed

text \<open>
  C3. The failure object is returned in exactly three situations: the call to the
  model rejects; the text of the response does not parse; or the parsed reply is a
  \<open>bad_reply\<close>, that is \<^verbatim>\<open>null\<close>, or with a truthy \<^verbatim>\<open>elements\<close> that is no array, or
  with an element that is \<^verbatim>\<open>null\<close> or whose truthy \<^verbatim>\<open>attributes\<close> is no array or holds an
  entry that is \<^verbatim>\<open>null\<close> or whose name cannot be converted to a property key. In every
  other case the returned object has no \<^verbatim>\<open>error\<close> property.
\<close>

theorem processSelector_error_iff:
  "processSelector gen parse h s = error_result s \<longleftrightarrow>
     throws (gen (selector_request h s)) \<or>
     (\<exists>resp. gen (selector_request h s) = Inr resp \<and>
        (throws (parse (response_text_or_empty resp)) \<or>
         (\<exists>rawResult. parse (response_text_or_empty resp) = Inr rawResult \<and> bad_reply rawResult)))"
  by (simp only: processSelector_eq_error_result_iff throws_processSelector_try)

text \<open>
  C4. Type soundness under the schema. If the parsed reply conforms to the response
  schema that \<^verbatim>\<open>processSelector\<close> sends with its request, the reply decodes, nothing
  throws, and the returned object is a \<^verbatim>\<open>ProcessingResult\<close> without error: the type
  annotation of the function holds for every reply the schema allows.
\<close>

theorem processSelector_typed:
  assumes "json_parse_contract parse"
    and "gen (selector_request h s) = Inr resp"
    and "parse (response_text_or_empty resp) = Inr rawResult"
    and "conforms selector_schema rawResult"
  shows "\<exists>r. decode_reply rawResult = Some r \<and>
    to_ProcessingResult (processSelector gen parse h s) = Some (spec_reshape r s)"
proof -
  from assms(4) obtain r where r: "decode_reply rawResult = Some r"
    using conforms_decode_reply by blast
  from assms(1,3) have "wf_json rawResult" by (rule json_parse_contract_wf)
  from processSelector_try_refines
    [where gen = gen and parse = parse and h = h and s = s, OF this r assms(2,3)] r
  show ?thesis by auto
qed

theorem processSelector_typed_witness:
  "\<exists>r. decode_reply sample_reply = Some r \<and>
    to_ProcessingResult (processSelector sample_gen sample_parse ''<p id=a>x</p>'' ''tag:p'') =
      Some (spec_reshape r ''tag:p'')"
  by (rule processSelector_typed
      [where gen = sample_gen and parse = sample_parse,
        OF sample_parse_contract sample_gen_parse conforms_sample_reply])

section \<open>\<open>processSelector\<close>: count and locator of the result\<close>

text \<open>
  C10. The count. On a reply that decodes, the count of the result equals the number
  of its elements exactly when the reply reports 0 or reports the right number:
  line 86 passes a non-zero count of the reply through without comparing it with the
  elements.
\<close>

theorem processSelector_count:
  assumes "json_parse_contract parse"
    and "gen (selector_request h s) = Inr resp"
    and "parse (response_text_or_empty resp) = Inr rawResult"
    and "decode_reply rawResult = Some r"
    and "to_ProcessingResult (processSelector gen parse h s) = Some p"
  shows "count p = int (length (elements p)) \<longleftrightarrow>
    raw_count r = 0 \<or> raw_count r = int (length (raw_elements r))"
  using processSelector_decoded [where gen = gen and parse = parse, OF assms(1-4)] assms(5)
  by (auto simp: spec_reshape_def)

theorem processSelector_count_witness:
  "to_ProcessingResult (processSelector sample_gen miscount_parse ''<p>x</p>'' ''tag:p'') =
     Some \<lparr>elements = [], count = 7, selectorUsed = ''div'', error = None\<rparr> \<and>
   count \<lparr>elements = [], count = 7, selectorUsed = ''div'', error = None\<rparr> \<noteq>
     int (length (elements \<lparr>elements = [], count = 7, selectorUsed = ''div'', error = None\<rparr>))"
  using processSelector_count
    [where gen = sample_gen and parse = miscount_parse,
      OF miscount_parse_contract sample_gen_parse(1) miscount_gen_parse miscount_result]
  by (simp add: miscount_result)

text \<open>
  C11. The locator. On a reply that decodes, \<^verbatim>\<open>selectorUsed\<close> of the result is the
  locator the caller passed exactly when the reply names no locator or names the same
  one: line 87 prefers the locator of the reply.
\<close>

theorem processSelector_selectorUsed:
  assumes "json_parse_contract parse"
    and "gen (selector_request h s) = Inr resp"
    and "parse (response_text_or_empty resp) = Inr rawResult"
    and "decode_reply rawResult = Some r"
    and "to_ProcessingResult (processSelector gen parse h s) = Some p"
  shows "selectorUsed p = s \<longleftrightarrow> raw_selectorUsed r = [] \<or> raw_selectorUsed r = s"
  using processSelector_decoded [where gen = gen and parse = parse, OF assms(1-4)] assms(5)
  by (auto simp: spec_reshape_def)

theorem processSelector_selectorUsed_witness:
  "selectorUsed \<lparr>elements = [], count = 7, selectorUsed = ''div'', error = None\<rparr> \<noteq> ''tag:p'' \<and>
   to_ProcessingResult (processSelector sample_gen miscount_parse ''<p>x</p>'' ''tag:p'') =
     Some \<lparr>elements = [], count = 7, selectorUsed = ''div'', error = None\<rparr>"
  using processSelector_selectorUsed
    [where gen = sample_gen and parse = miscount_parse,
      OF miscount_parse_contract sample_gen_parse(1) miscount_gen_parse miscount_result]
  by (simp add: miscount_result)

text \<open>
  C25. The empty response. When the response of the model carries no text, or the
  empty text, or the text \<^verbatim>\<open>{}\<close>, line 73 parses \<^verbatim>\<open>{}\<close> and \<^verbatim>\<open>processSelector\<close> returns
  no elements, count 0 and the locator of the caller, without an error: a response
  without content is reported as a search without matches.
\<close>

theorem processSelector_empty_response:
  assumes "json_parse_contract parse"
    and "gen (selector_request h s) = Inr resp"
    and "response_text_or_empty resp = ''{}''"
  shows "to_ProcessingResult (processSelector gen parse h s) =
    Some \<lparr>elements = [], count = 0, selectorUsed = s, error = None\<rparr>"
proof -
  from assms(1,3) have "parse (response_text_or_empty resp) = Inr (JObj [])"
    by (simp add: json_parse_contract_def)
  with assms(2) have "processSelector_try gen parse h s =
      Inr (JObj [(''elements'', JArr []), (''count'', JNum 0), (''selectorUsed'', JStr s)])"
    by (simp add: processSelector_try_def reshape_def)
  then show ?thesis by simp
qed

theorem processSelector_empty_response_witness:
  "to_ProcessingResult
     (processSelector (\<lambda>q. Inr \<lparr>response_text = None\<rparr>) sample_parse ''<p>x</p>'' ''tag:p'') =
    Some \<lparr>elements = [], count = 0, selectorUsed = ''tag:p'', error = None\<rparr>"
  by (rule processSelector_empty_response
      [where gen = "\<lambda>q. Inr \<lparr>response_text = None\<rparr>" and resp = "\<lparr>response_text = None\<rparr>",
        OF sample_parse_contract])
    (simp_all add: response_text_or_empty_def)

text \<open>
  C26. The type annotation is not enforced. There are a model and a parser, the
  parser within its contract, for which \<^verbatim>\<open>processSelector\<close> neither throws nor reports an
  error and still returns an object that is no \<^verbatim>\<open>ProcessingResult\<close>: for the reply
  \<^verbatim>\<open>{"elements": [1]}\<close> the element of the result is \<^verbatim>\<open>{attributes: {}}\<close>, without tag, text
  and html.
\<close>

theorem processSelector_untyped_reply:
  "\<exists>gen parse. json_parse_contract parse \<and>
     processSelector gen parse h s =
       JObj [(''elements'', JArr [JObj [(''attributes'', JObj [])]]), (''count'', JNum 1),
             (''selectorUsed'', JStr s)] \<and>
     \<not> is_ProcessingResult (processSelector gen parse h s)"
proof -
  have "processSelector_try sample_gen untyped_parse h s =
      Inr (JObj [(''elements'', JArr [JObj [(''attributes'', JObj [])]]), (''count'', JNum 1),
                 (''selectorUsed'', JStr s)])"
    by (simp add: processSelector_try_def sample_gen_def untyped_parse_def
        response_text_or_empty_def reshape_def map_element_def key_eval)
  then have "processSelector sample_gen untyped_parse h s =
      JObj [(''elements'', JArr [JObj [(''attributes'', JObj [])]]), (''count'', JNum 1),
            (''selectorUsed'', JStr s)]"
    by simp
  with untyped_parse_contract show ?thesis
    by (intro exI [of _ sample_gen] exI [of _ untyped_parse])
      (simp add: is_ProcessingResult_def)
qed

section \<open>Attributes and elements\<close>

text \<open>
  C22. What the \<^verbatim>\<open>reduce\<close> of lines 78 to 81 builds from an array of name and value
  pairs: an object in own-property order in which every name other than \<^verbatim>\<open>__proto__\<close>
  is bound to the value of its last occurrence in the array, and \<^verbatim>\<open>__proto__\<close> is not
  bound at all.
\<close>

theorem attributes_of_lookup:
  assumes "to_name_values a = Some nvs"
  shows "\<exists>ps. attributes_of a = Inr (JObj ps) \<and> wf_props ps \<and>
    (\<forall>k. map_of ps k =
       (if k = ''__proto__'' then None else map_option JStr (map_of (rev nvs) k)))"
  using attributes_of_typed [OF assms]
  by (simp add: of_Record_def map_of_map_values map_of_spec_attributes)

theorem attributes_of_lookup_witness:
  "\<exists>ps. attributes_of (JArr (map entry_of [(''id'', ''a''), (''class'', ''c''), (''id'', ''b'')])) =
      Inr (JObj ps) \<and> wf_props ps \<and> map_of ps ''id'' = Some (JStr ''b'') \<and>
      map_of ps ''class'' = Some (JStr ''c'') \<and> map_of ps ''__proto__'' = None"
proof -
  let ?nvs = "[(''id'', ''a''), (''class'', ''c''), (''id'', ''b'')]"
  from attributes_of_lookup [OF to_name_values_entries [of ?nvs]]
  obtain ps where a: "attributes_of (JArr (map entry_of ?nvs)) = Inr (JObj ps)" and w: "wf_props ps"
    and l: "\<And>k. map_of ps k =
      (if k = ''__proto__'' then None else map_option JStr (map_of (rev ?nvs) k))"
    by blast
  have "map_of ps ''id'' = Some (JStr ''b'')" "map_of ps ''class'' = Some (JStr ''c'')"
    "map_of ps ''__proto__'' = None"
    by (simp_all add: l)
  with a w show ?thesis by blast
qed



text \<open>
  C24. The order of attributes. The \<^verbatim>\<open>reduce\<close> returns the attributes in the order the
  reply lists them exactly when that order is the own-property order of JavaScript and
  no attribute has the name \<^verbatim>\<open>__proto__\<close>: a name that is an array index moves to the
  front, a repeated name keeps its first place.
\<close>

theorem attributes_order:
  "attributes_of (JArr (map entry_of nvs)) = Inr (of_Record nvs) \<longleftrightarrow>
     wf_props nvs \<and> ''__proto__'' \<notin> fst ` set nvs"
proof
  assume "attributes_of (JArr (map entry_of nvs)) = Inr (of_Record nvs)"
  then have "map (map_prod id JStr) (spec_attributes nvs) = map (map_prod id JStr) nvs"
    by (simp add: attributes_of_entries of_Record_def map_prod_def)
  then have eq: "spec_attributes nvs = nvs"
    by (simp add: inj_map_eq_map inj_on_def prod_eq_iff)
  from wf_props_spec_attributes [of nvs] keys_spec_attributes [of nvs] eq
  show "wf_props nvs \<and> ''__proto__'' \<notin> fst ` set nvs" by auto
next
  assume "wf_props nvs \<and> ''__proto__'' \<notin> fst ` set nvs"
  then show "attributes_of (JArr (map entry_of nvs)) = Inr (of_Record nvs)"
    by (simp add: attributes_of_entries spec_attributes_roundtrip)
qed

theorem attributes_order_witness:
  "attributes_of (JArr (map entry_of [(''b'', ''x''), (''1'', ''y'')])) =
     Inr (JObj [(''1'', JStr ''y''), (''b'', JStr ''x'')]) \<and>
   attributes_of (JArr (map entry_of [(''b'', ''x''), (''1'', ''y'')])) \<noteq>
     Inr (of_Record [(''b'', ''x''), (''1'', ''y'')])"
proof -
  have "\<not> wf_props [(''b'', ''x''), (''1'', ''y'')]"
    by (simp add: key_eval read_nat_def digit_val_def)
  with attributes_order [of "[(''b'', ''x''), (''1'', ''y'')]"] show ?thesis
    by (simp add: attributes_of_def attr_step_def entry_of_def js_set_def empty_object_def
        key_eval read_nat_def digit_val_def)
qed


text \<open>
  C27. The callback of \<^verbatim>\<open>map\<close> (lines 76 to 82) on an object in own-property order:
  when the \<^verbatim>\<open>reduce\<close> over its \<^verbatim>\<open>attributes\<close> returns, the result is an object in
  own-property order with the keys of the element and \<^verbatim>\<open>attributes\<close>, in which
  \<^verbatim>\<open>attributes\<close> is the reduced object and every other property, named by the schema or
  not, has the value it had.
\<close>

theorem map_element_keeps_properties:
  assumes "wf_props ps"
    and "attributes_of (case map_of ps ''attributes'' of Some a \<Rightarrow> a | None \<Rightarrow> JUndefined) =
      Inr attrs"
  shows "\<exists>qs. map_element (JObj ps) = Inr (JObj qs) \<and> wf_props qs \<and>
    fst ` set qs = insert ''attributes'' (fst ` set ps) \<and>
    (\<forall>k. map_of qs k = (if k = ''attributes'' then Some attrs else map_of ps k))"
  using assms by (simp add: map_element_def wf_props_define_prop)

theorem map_element_keeps_properties_witness:
  "\<exists>qs. map_element (JObj [(''tag'', JStr ''p''), (''extra'', JNum 3)]) = Inr (JObj qs) \<and>
     wf_props qs \<and>
     fst ` set qs = insert ''attributes'' (fst ` set [(''tag'', JStr ''p''), (''extra'', JNum 3)]) \<and>
     (\<forall>k. map_of qs k =
        (if k = ''attributes'' then Some (JObj [])
         else map_of [(''tag'', JStr ''p''), (''extra'', JNum 3)] k))"
  by (rule map_element_keeps_properties) (simp_all add: key_eval)

section \<open>\<open>fetchUrlSimulated\<close> and the prompts\<close>

text \<open>
  C31. \<^verbatim>\<open>fetchUrlSimulated\<close> always returns a page, never the empty string: the text of
  the response when there is one, the page of line 112 when the response has no
  text, the page of line 114 when the call rejects.
\<close>

theorem fetchUrlSimulated_total:
  "fetchUrlSimulated gen u \<noteq> [] \<and>
   (fetchUrlSimulated gen u = fetch_error_html \<and> throws (gen (fetch_request u)) \<or>
    (\<exists>resp. gen (fetch_request u) = Inr resp \<and>
       (fetchUrlSimulated gen u = no_content_html \<and> response_text_or_empty resp = ''{}'' \<or>
        response_text resp = Some (fetchUrlSimulated gen u))))"
  by (cases "gen (fetch_request u)")
    (auto simp: fetchUrlSimulated_def fetch_error_html_def no_content_html_def
      response_text_or_empty_def split: option.splits)


text \<open>
  C36. The prompt does not determine the pair of HTML text and locator: the template
  joins them with a separator that either of them may contain, so two different
  pairs are sent as the same request.
\<close>

theorem selector_contents_collision:
  "\<exists>h s h' s'. h \<noteq> h' \<and> s \<noteq> s' \<and> selector_request h s = selector_request h' s'"
proof -
  let ?sep = "[newline, newline] @ ''Locator:'' @ [newline]"
  have "selector_contents ''a'' (''b'' @ ?sep @ ''c'') =
      selector_contents (''a'' @ ?sep @ ''b'') ''c''"
    unfolding selector_contents_def by (simp only: append_assoc)
  then have eq: "selector_request ''a'' (''b'' @ ?sep @ ''c'') =
      selector_request (''a'' @ ?sep @ ''b'') ''c''"
    by (simp only: selector_request_def)
  have ne: "''a'' \<noteq> ''a'' @ ?sep @ ''b''" "''b'' @ ?sep @ ''c'' \<noteq> ''c''"
    by (simp_all only: append.simps list.inject char.inject) simp_all
  have "\<exists>h s h' s'. h \<noteq> h' \<and> s \<noteq> s' \<and> selector_request h s = selector_request h' s'"
    if "selector_request a b = selector_request c d" and "a \<noteq> c" and "b \<noteq> d" for a b c d
    using that by blast
  from this [OF eq ne] show ?thesis .
qed

section \<open>The component: requests in flight\<close>

text \<open>
  C5. Invariant of the component. In every state the page can reach after it has
  mounted: the spinner is on only while a request is in flight; every request in
  flight was started with a non-empty URL, or a non-empty HTML text and locator; and
  the number of requests in flight is at most one more than the number of times the
  Enter key started a request.
\<close>

theorem app_reachable:
  assumes "run parse mounted evs a"
  shows "(isLoading (app_state a) \<longrightarrow> in_flight a \<noteq> []) \<and>
    list_all guarded (in_flight a) \<and>
    length (in_flight a) \<le> Suc (enter_presses evs)"
  using app_inv_reachable [OF assms] in_flight_le [OF assms]
  by (auto simp: app_inv_def split: if_splits)

theorem app_reachable_witness:
  "\<exists>a. run sample_parse mounted [KeyDown ''Enter'', ChangeSelector [], Settle 0 (Inl ApiError)] a \<and>
     list_all guarded (in_flight a) \<and> length (in_flight a) \<le> 2"
proof -
  let ?evs = "[KeyDown ''Enter'', ChangeSelector [], Settle 0 (Inl ApiError)]"
  have "replay sample_parse ?evs mounted \<noteq> None"
    by (simp add: mounted_eq handler_defs initial_state_def)
  then obtain a where "replay sample_parse ?evs mounted = Some a" by blast
  then have r: "run sample_parse mounted ?evs a" by (rule run_replayI)
  from app_reachable [OF r] have "list_all guarded (in_flight a)" "length (in_flight a) \<le> 2"
    by (simp_all add: enter_presses_def)
  with r show ?thesis by blast
qed

text \<open>
  C12. With the buttons alone. As long as no request is started from the keyboard,
  at most one request is in flight, and the spinner is on exactly while it is: the
  \<^verbatim>\<open>disabled\<close> attribute of lines 105 and 127 serialises the requests.
\<close>

theorem buttons_serialise:
  assumes "run parse mounted evs a" and "enter_presses evs = 0"
  shows "length (in_flight a) \<le> 1 \<and> (isLoading (app_state a) \<longleftrightarrow> in_flight a \<noteq> [])"
  using app_inv_reachable [OF assms(1)] in_flight_le [OF assms(1)] assms(2)
  by (auto simp: app_inv_def split: if_splits)

theorem buttons_serialise_witness:
  "\<exists>a. run sample_parse mounted [Settle 0 (Inl ApiError), ChangeUrl ''u'', ClickFetch] a \<and>
     length (in_flight a) \<le> 1 \<and> isLoading (app_state a) \<and> in_flight a \<noteq> []"
proof -
  let ?evs = "[Settle 0 (Inl ApiError), ChangeUrl ''u'', ClickFetch]"
  have "replay sample_parse ?evs mounted \<noteq> None"
    by (simp add: mounted_eq handler_defs initial_state_def)
  then obtain a where a: "replay sample_parse ?evs mounted = Some a" by blast
  then have r: "run sample_parse mounted ?evs a" by (rule run_replayI)
  from a have "in_flight a \<noteq> []"
    by (auto simp: mounted_eq handler_defs initial_state_def)
  with buttons_serialise [OF r] r show ?thesis by (auto simp: enter_presses_def)
qed

text \<open>
  C17. From the keyboard. The key handler of line 120 does not look at \<open>isLoading\<close>:
  pressing Enter while the request of the mount effect is in flight starts a second
  request, and when the first of the two settles the spinner goes off and the buttons
  are enabled although a request is still in flight.
\<close>

theorem enter_key_overlaps:
  "\<exists>a. run parse mounted [KeyDown ''Enter'', Settle 0 reply] a \<and>
     \<not> isLoading (app_state a) \<and> in_flight a = [RunSelector initial_html ''@id=container'']"
  by (rule exI, rule conjI, rule run_replayI,
      simp add: mounted_eq handler_defs initial_state_def, simp)

text \<open>
  C18. Settling out of order. Two requests started for different locators may settle
  in either order, and the component stores whichever settles last: here the request
  for the locator that is still on the page settles first, the older one last, and
  the stored result is the one of the older request.
\<close>

theorem stale_result:
  "\<exists>a. run parse mounted
      [ChangeSelector ''tag:li'', KeyDown ''Enter'', Settle 1 (Inl ApiError), Settle 0 (Inl ApiError)] a \<and>
     in_flight a = [] \<and> selector (app_state a) = ''tag:li'' \<and>
     result (app_state a) = Some (error_result ''@id=container'')"
  by (rule exI, rule conjI, rule run_replayI,
      simp add: mounted_eq handler_defs initial_state_def, simp)

text \<open>
  C6. The stored result is typed. If the parser keeps its contract and every request
  settles within the schema (the call rejects, the text does not parse, or it parses
  to a value that conforms to the response schema), then in every reachable state the
  result the page renders is \<^verbatim>\<open>null\<close> or a \<^verbatim>\<open>ProcessingResult\<close>.
\<close>

theorem app_result_typed:
  assumes "json_parse_contract parse" and "run parse mounted evs a"
    and "list_all (schema_event parse) evs"
  shows "typed_result (app_state a)"
  using typed_result_run [OF assms] by simp

theorem app_result_typed_witness:
  "\<exists>a. run sample_parse mounted
       [KeyDown ''Enter'', Settle 1 (Inr \<lparr>response_text = Some ''reply''\<rparr>), Settle 0 (Inl ApiError)] a \<and>
     typed_result (app_state a) \<and> result (app_state a) \<noteq> None"
proof -
  let ?evs = "[KeyDown ''Enter'', Settle 1 (Inr \<lparr>response_text = Some ''reply''\<rparr>), Settle 0 (Inl ApiError)]"
  have "replay sample_parse ?evs mounted \<noteq> None"
    by (simp add: mounted_eq handler_defs initial_state_def)
  then obtain a where a: "replay sample_parse ?evs mounted = Some a" by blast
  then have r: "run sample_parse mounted ?evs a" by (rule run_replayI)
  have "list_all (schema_event sample_parse) ?evs"
    by (simp add: schema_reply_def sample_gen_parse conforms_sample_reply)
  from app_result_typed [OF sample_parse_contract r this] have "typed_result (app_state a)" .
  moreover from a have "result (app_state a) \<noteq> None"
    by (auto simp: mounted_eq handler_defs initial_state_def)
  ultimately show ?thesis using r by blast
qed

text \<open>
  C19. Only a settled selector request changes the result. Typing, switching tabs,
  starting a request and a page that has been fetched leave \<^verbatim>\<open>state.result\<close> as it is,
  so the panel keeps the elements of an earlier request while the HTML text, the
  locator or both have changed; when the result changes, it is what \<open>processSelector\<close>
  returned for a request in flight.
\<close>

theorem result_changes_on_settle:
  assumes "result (app_state (handle parse ev a)) \<noteq> result (app_state a)"
  shows "\<exists>i reply h s. ev = Settle i reply \<and> i < length (in_flight a) \<and>
    in_flight a ! i = RunSelector h s \<and>
    result (app_state (handle parse ev a)) = Some (processSelector (\<lambda>q. reply) parse h s)"
proof (cases ev)
  case (Settle i reply)
  with assms have i: "i < length (in_flight a)" by (auto split: if_splits)
  with Settle assms obtain h s where "in_flight a ! i = RunSelector h s"
    by (cases "in_flight a ! i") (auto simp: handleFetch_finish_def)
  with Settle i show ?thesis by (simp add: handleRunSelector_finish_def)
qed (use assms in \<open>auto simp: handler_defs split: if_splits\<close>)

theorem result_changes_on_settle_witness:
  "result (app_state (handle sample_parse (Settle 0 sample_response) mounted)) \<noteq>
     result (app_state mounted) \<and>
   (\<exists>h s. in_flight mounted ! 0 = RunSelector h s \<and>
     result (app_state (handle sample_parse (Settle 0 sample_response) mounted)) =
       Some (processSelector (\<lambda>q. sample_response) sample_parse h s))"
proof -
  have "result (app_state (handle sample_parse (Settle 0 sample_response) mounted)) \<noteq>
      result (app_state mounted)"
    by (simp add: mounted_eq handler_defs initial_state_def)
  from this result_changes_on_settle [OF this] show ?thesis by auto
qed

section \<open>The object model underneath\<close>





section \<open>The view\<close>

text \<open>
  C7. The page never crashes within the schema. If the parser keeps its contract and
  every request settles within the schema, rendering succeeds in every state the
  component can reach: neither the JSX nor React throws.
\<close>

theorem page_renders:
  assumes "json_parse_contract parse" and "run parse mounted evs a"
    and "list_all (schema_event parse) evs"
  shows "\<exists>p. render (app_state a) = Inr p"
  using typed_result_run [OF assms] render_typed_result [of "app_state a"]
  by (simp add: not_throws_iff)

theorem page_renders_witness:
  "\<exists>a p. run sample_parse mounted [Settle 0 sample_response] a \<and> render (app_state a) = Inr p"
proof -
  have r: "run sample_parse mounted [Settle 0 sample_response] (the (replay sample_parse [Settle 0 sample_response] mounted))"
    by (rule run_replayI) (simp only: mounted_settled option.sel)
  have "list_all (schema_event sample_parse) [Settle 0 sample_response]"
    by (simp add: schema_reply_def sample_response_def sample_gen_parse conforms_sample_reply)
  from page_renders [OF sample_parse_contract r this] r show ?thesis by blast
qed

text \<open>
  C9. The JSX never throws on its own. In every state the component can reach,
  whatever the model replied, the only error rendering can raise is the one React
  raises for an object among the children: the property reads, \<^verbatim>\<open>Object.entries\<close> and
  \<^verbatim>\<open>.map\<close> of lines 176 to 217 always find the shape they expect, because \<open>processSelector\<close>
  always returns an array of objects with an object as \<^verbatim>\<open>attributes\<close>.
\<close>

theorem render_error_is_react:
  assumes "run parse mounted evs a" and "render (app_state a) = Inl e"
  shows "e = ReactError"
proof -
  have "\<not> throws (evaluate (app_state a))"
  proof (cases "result (app_state a)")
    case None
    then show ?thesis by (rule evaluate_no_result)
  next
    case (Some r)
    with result_reachable [OF assms(1)] have "result_shaped r"
      by (auto simp: result_of_request_def)
    with Some show ?thesis by (rule evaluate_shaped)
  qed
  with assms(2) show ?thesis
    by (auto simp: render_def not_throws_iff dest: commit_error)
qed

theorem render_error_is_react_witness:
  "\<exists>a. run object_tag_parse mounted [Settle 0 sample_response] a \<and>
     throws (render (app_state a)) \<and> render (app_state a) \<noteq> Inl TypeError"
proof -
  let ?a = "\<lparr>app_state = initial_state\<lparr>result := Some (processSelector
    (\<lambda>q. sample_response) object_tag_parse initial_html ''@id=container'')\<rparr>, in_flight = []\<rparr>"
  have r: "run object_tag_parse mounted [Settle 0 sample_response] ?a"
    by (rule run_replayI) (rule mounted_settled)
  have t: "throws (render (app_state ?a))"
    by (simp add: object_tag_processSelector view_defs initial_state_def)
  have "render (app_state ?a) \<noteq> Inl TypeError"
    using render_error_is_react [OF r, of TypeError] by auto
  with r t show ?thesis by (intro exI [of _ ?a] conjI)
qed

text \<open>
  C15. A reply outside the schema can take the page down. With the reply
  \<^verbatim>\<open>{"elements": [{"tag": {}}]}\<close> the parser is within its contract, \<open>processSelector\<close>
  reports no error, and rendering the state that stores its result throws: React
  refuses the object in place of the tag, and the component has no error boundary.
\<close>

theorem render_crash:
  "json_parse_contract object_tag_parse \<and>
   (\<exists>a. run object_tag_parse mounted [Settle 0 sample_response] a \<and>
      render (app_state a) = Inl ReactError)"
proof -
  have "render (initial_state\<lparr>result := Some (processSelector (\<lambda>q. sample_response)
      object_tag_parse initial_html ''@id=container'')\<rparr>) = Inl ReactError"
    by (simp add: object_tag_processSelector view_defs initial_state_def)
  then show ?thesis
    using object_tag_parse_contract
      run_replayI [OF mounted_settled [of object_tag_parse sample_response]]
    by (intro conjI exI [of _ "\<lparr>app_state = initial_state\<lparr>result := Some (processSelector
      (\<lambda>q. sample_response) object_tag_parse initial_html ''@id=container'')\<rparr>,
      in_flight = []\<rparr>"]) simp_all
qed

text \<open>
  C8. The view refines its typed description. On a state whose result is a
  \<^verbatim>\<open>ProcessingResult\<close>, rendering the run-time value yields exactly the page that
  \<open>typed_page\<close> describes from the typed result: the badge prints its count, and there
  is one card per element, numbered from 1, with its tag, text, attributes in order and
  source.
\<close>

theorem render_refines_typed_page:
  assumes "result st = Some r" and "to_ProcessingResult r = Some p"
  shows "render st = Inr (typed_page st p)"
  using assms by (rule render_typed)

theorem render_refines_typed_page_witness:
  "render (initial_state\<lparr>result := Some (error_result ''tag:p'')\<rparr>) =
     Inr (typed_page (initial_state\<lparr>result := Some (error_result ''tag:p'')\<rparr>)
       \<lparr>elements = [], count = 0, selectorUsed = ''tag:p'',
        error = Some ''Failed to process the selector with AI engine.''\<rparr>)"
  by (rule render_refines_typed_page [OF _ to_ProcessingResult_error_result]) simp



text \<open>
  C20. Badge and cards can disagree. On a state that is not loading and holds a
  \<^verbatim>\<open>ProcessingResult\<close>, the badge prints the count of the result, while the panel shows
  the elements: \<open>No matches found\<close> exactly when there is no element, whatever the
  count says.
\<close>

theorem badge_and_cards:
  assumes "result st = Some r" and "to_ProcessingResult r = Some p" and "\<not> isLoading st"
  shows "\<exists>pg. render st = Inr pg \<and>
    result_badge pg = Matches (show_int (count p) @ '' Matches'') \<and>
    (results_panel pg = No_matches \<longleftrightarrow> elements p = [])"
  using render_typed [OF assms(1,2)] assms(3)
  by (simp add: typed_page_def typed_results_def)

theorem badge_and_cards_witness:
  "\<exists>pg. render (initial_state\<lparr>result :=
       Some (processSelector (\<lambda>q. sample_response) miscount_parse initial_html ''tag:p'')\<rparr>) = Inr pg \<and>
     result_badge pg = Matches ''7 Matches'' \<and> results_panel pg = No_matches"
proof -
  let ?st = "initial_state\<lparr>result :=
    Some (processSelector (\<lambda>q. sample_response) miscount_parse initial_html ''tag:p'')\<rparr>"
  have "to_ProcessingResult (processSelector (\<lambda>q. sample_response) miscount_parse initial_html ''tag:p'') =
      Some \<lparr>elements = [], count = 7, selectorUsed = ''div'', error = None\<rparr>"
    by (simp add: miscount_processSelector optional_field_def)
  moreover have "show_int 7 = ''7''"
    by (simp add: show_int_def show_nat.simps digit_char_def)
  ultimately show ?thesis
    using badge_and_cards [of ?st _ "\<lparr>elements = [], count = 7, selectorUsed = ''div'', error = None\<rparr>"]
    by (simp add: initial_state_def)
qed

text \<open>
  C21. A failure is shown as an empty search. The page for a state that holds the
  failure object of \<open>processSelector\<close> is the page for the same state holding a
  successful result without elements: nothing in lines 62 to 246 reads the \<^verbatim>\<open>error\<close>
  property.
\<close>

theorem error_not_shown:
  "render (st\<lparr>result := Some (error_result s)\<rparr>) =
   render (st\<lparr>result := Some (JObj [(''elements'', JArr []), (''count'', JNum 0),
                                      (''selectorUsed'', JStr s)])\<rparr>)"
  by (simp add: view_defs error_result_def)

text \<open>
  C16. The preview shows what the model wrote. When a fetch settles with a non-empty
  text while the preview tab is selected, the page that renders sets that text, as
  the model wrote it, as the inner HTML of the preview pane (line 164): nothing between
  the response of \<open>fetchUrlSimulated\<close> and the document checks or escapes it.
\<close>

theorem preview_injects_reply:
  assumes "i < length (in_flight a)" and "in_flight a ! i = FetchUrl u" and "t \<noteq> []"
    and "activeTab (app_state a) = Preview"
    and "render (app_state (handle parse (Settle i (Inr \<lparr>response_text = Some t\<rparr>)) a)) = Inr p"
  shows "workspace p = Inner_html t"
proof -
  let ?st = "settle parse (FetchUrl u) (Inr \<lparr>response_text = Some t\<rparr>) (app_state a)"
  have "workspace p = eval_workspace ?st"
    using render_workspace [OF assms(5)] assms(1,2) by simp
  also have "\<dots> = Inner_html (html ?st)"
    using assms(4) unfolding eval_workspace_def by (simp only: settle_keeps_inputs) simp
  also have "html ?st = t"
    using assms(3) by (simp only: html_settle_fetch) (simp add: fetchUrlSimulated_def)
  finally show ?thesis .
qed

theorem preview_injects_reply_witness:
  "\<exists>p. render (app_state (handle sample_parse
          (Settle 0 (Inr \<lparr>response_text = Some ''<script>alert(1)</script>''\<rparr>))
          \<lparr>app_state = initial_state\<lparr>isLoading := True, activeTab := Preview\<rparr>,
           in_flight = [FetchUrl ''https://example.com'']\<rparr>)) = Inr p \<and>
       workspace p = Inner_html ''<script>alert(1)</script>''"
proof -
  let ?a = "\<lparr>app_state = initial_state\<lparr>isLoading := True, activeTab := Preview\<rparr>,
            in_flight = [FetchUrl ''https://example.com'']\<rparr>"
  let ?b = "handle sample_parse (Settle 0 (Inr \<lparr>response_text = Some ''<script>alert(1)</script>''\<rparr>)) ?a"
  have "result (app_state ?b) = None"
    by (simp add: handleFetch_finish_def initial_state_def)
  then have "\<not> throws (render (app_state ?b))"
    by (simp only: render_no_result throws_simps) simp
  then obtain p where p: "render (app_state ?b) = Inr p" by (auto simp: not_throws_iff)
  have "workspace p = Inner_html ''<script>alert(1)</script>''"
    by (rule preview_injects_reply [OF _ _ _ _ p]) (simp_all add: initial_state_def)
  with p show ?thesis by blast
qed

section \<open>The character count\<close>




section \<open>The component: progress\<close>


text \<open>
  C13. The spinner always goes off. From every state the component can reach, when the
  environment settles the requests in flight (oldest first, with any replies), the
  component reaches, after exactly as many steps as there were requests, a state with
  no request in flight that is not loading, so both buttons are enabled again.
\<close>

theorem spinner_goes_off:
  assumes "run parse mounted evs a"
  shows "run parse a (drain_events reply (in_flight a)) (drain parse reply a) \<and>
    length (drain_events reply (in_flight a)) = length (in_flight a) \<and>
    in_flight (drain parse reply a) = [] \<and>
    \<not> isLoading (app_state (drain parse reply a)) \<and>
    enabled ClickRun (drain parse reply a) \<and> enabled ClickFetch (drain parse reply a)"
proof -
  from assms have "app_inv a" by (rule app_inv_reachable)
  then have "app_inv (drain parse reply a)" by (rule app_inv_drain)
  then have "\<not> isLoading (app_state (drain parse reply a))" by (simp add: app_inv_def)
  moreover have "length (drain_events reply (in_flight a)) = length (in_flight a)"
    by (simp add: drain_events_def)
  ultimately show ?thesis using run_drain [of parse a reply] by simp
qed

theorem spinner_goes_off_witness:
  "run sample_parse mounted [KeyDown ''Enter''] (handle sample_parse (KeyDown ''Enter'') mounted) \<and>
   isLoading (app_state (handle sample_parse (KeyDown ''Enter'') mounted)) \<and>
   \<not> isLoading (app_state (drain sample_parse (\<lambda>r. sample_response)
      (handle sample_parse (KeyDown ''Enter'') mounted)))"
proof -
  have r: "run sample_parse mounted [KeyDown ''Enter''] (handle sample_parse (KeyDown ''Enter'') mounted)"
    by (simp add: run_Cons run_Nil)
  have "isLoading (app_state (handle sample_parse (KeyDown ''Enter'') mounted))"
    by (simp add: mounted_eq handler_defs initial_state_def)
  with r spinner_goes_off [OF r, of "\<lambda>r. sample_response"] show ?thesis by simp
qed


section \<open>Locators\<close>


text \<open>
  C34. Printing and parsing. A locator the parser can return is parsed back from its
  canonical text, and every locator the parser returns is of this kind: parsing, then
  printing, then parsing again returns the first result. The examples of the cheat
  sheet are written in the canonical form: printing what they parse to gives them
  back.
\<close>

theorem parse_print_locator:
  "(wf_locator l \<longrightarrow> parse_locator (print_locator l) = Inr l) \<and>
   (parse_locator s = Inr l \<longrightarrow> wf_locator l \<and> parse_locator (print_locator l) = Inr l) \<and>
   list_all (\<lambda>it. map_sum id print_locator (parse_locator (item_value it)) = Inr (item_value it))
     items"
proof -
  have "list_all (\<lambda>it. map_sum id print_locator (parse_locator (item_value it)) =
      Inr (item_value it)) items"
    using parsed_items_eq by (simp add: parsed_items_def items_def)
  then show ?thesis by (auto simp: parse_locator_print dest: wf_parse_locator)
qed

theorem parse_print_locator_witness:
  "parse_locator ''Login Now'' = Inr (FuzzyText ''Login Now'') \<and>
   print_locator (FuzzyText ''Login Now'') = ''text=Login Now'' \<and>
   parse_locator (print_locator (FuzzyText ''Login Now'')) = Inr (FuzzyText ''Login Now'')"
proof -
  have p: "parse_locator ''Login Now'' = Inr (FuzzyText ''Login Now'')"
    by (simp add: locator_defs)
  from parse_print_locator [of "FuzzyText ''Login Now''" "''Login Now''"] p show ?thesis
    by simp
qed



end
